theory Spec2Isabelle
  imports Main "HOL-Library.Word"
begin

section \<open>The stack printer of elfutils (src/stack.c)\<close>

text \<open>
  A shallow embedding of \<^verbatim>\<open>src/stack.c\<close>: the frame buffer and the per-frame
  callback, the resolution of a captured program counter to a module and a name, the
  printing of frames and inlined frames, the diagnostics and the exit status.

  The program's static variables are the fields of the record \<open>state\<close>, threaded
  through every function that reads or writes them; its command-line flags are the record
  \<open>config\<close>; what libdwfl, libdw, the allocator and the demangler answer is the record
  \<open>env\<close>. Standard output and standard error are lists, extended at the end.
  A call of \<^verbatim>\<open>error\<close> with a non-zero status ends the process: it is the
  result \<open>Exit\<close>.
\<close>

subsection \<open>Data\<close>

type_synonym Dwarf_Addr = "64 word"

text \<open>\<^verbatim>\<open>struct frame\<close> and \<^verbatim>\<open>struct frames\<close>. The array \<open>frame\<close> is a list of
  length \<open>allocated\<close>; its entries from index \<open>frames\<close> on are storage not yet written
  for the current thread.\<close>

record frame =
  pc :: Dwarf_Addr
  isactivation :: bool

record frames =
  frames :: nat
  allocated :: nat
  frame :: "frame list"

text \<open>What libelf and libdwfl report about a module: \<open>m_elf\<close> is
  \<^verbatim>\<open>dwfl_module_getelf\<close> (\<open>None\<close> for NULL), \<open>ehdr\<close> is \<^verbatim>\<open>gelf_getehdr\<close>
  (\<open>None\<close> for NULL) reduced to the byte \<^verbatim>\<open>e_ident[EI_CLASS]\<close>; the other fields are
  the answers of \<^verbatim>\<open>dwfl_module_info\<close>, \<^verbatim>\<open>dwfl_module_getdwarf\<close> and
  \<^verbatim>\<open>dwfl_module_build_id\<close> (the bytes of the build-id, empty when there is none).\<close>

record Elf =
  ehdr :: "nat option"

definition ELFCLASS32 :: nat where
  "ELFCLASS32 = 1"

definition ELFCLASS64 :: nat where
  "ELFCLASS64 = 2"

record Dwfl_Module =
  m_elf :: "Elf option"
  m_dwarf :: bool
  m_name :: "string option"
  m_start :: Dwarf_Addr
  m_end :: Dwarf_Addr
  m_mainfile :: "string option"
  m_debugfile :: "string option"
  m_build_id :: "8 word list"

text \<open>A DIE, as far as the program looks at it: its tag, the attributes read through
  \<^verbatim>\<open>dwarf_attr_integrate\<close> and \<^verbatim>\<open>dwarf_formstring\<close> (\<open>None\<close>: no such attribute;
  \<open>Some None\<close>: an attribute that is not a string), \<^verbatim>\<open>dwarf_diename\<close>, and the
  call-site attributes read through \<^verbatim>\<open>dwarf_formudata\<close>, each a
  \<^verbatim>\<open>Dwarf_Word\<close> (\<open>None\<close> when the attribute is missing or has no such form).
  \<open>d_offset\<close> tells DIEs apart.\<close>

datatype dw_tag =
  DW_TAG_subprogram
  | DW_TAG_inlined_subroutine
  | DW_TAG_entry_point
  | DW_TAG_lexical_block
  | DW_TAG_compile_unit
  | DW_TAG_other nat

record Dwarf_Die =
  d_offset :: nat
  dwarf_tag :: dw_tag
  at_MIPS_linkage_name :: "string option option"
  at_linkage_name :: "string option option"
  dwarf_diename :: "string option"
  at_call_file :: "64 word option"
  at_call_line :: "64 word option"
  at_call_column :: "64 word option"

text \<open>\<^verbatim>\<open>dwfl_lineinfo\<close>: the file name (NULL is \<open>None\<close>), and the line and the
  column it stores, values of an \<^verbatim>\<open>int\<close>.\<close>

record Dwfl_Line =
  li_name :: "string option"
  li_line :: int
  li_col :: int

text \<open>A thread as the unwinder presents it: its id, one entry for each frame state the
  unwinder reaches, in order (what \<^verbatim>\<open>dwfl_frame_pc\<close> stores for it, \<open>None\<close> when
  it returns false), whether unwinding ends in an error after the last of them, and what
  \<^verbatim>\<open>dwfl_errno\<close> returns after a failure.\<close>

record thread =
  tid :: int
  states :: "frame option list"
  unwind_fails :: bool
  thread_errno :: int

text \<open>The command-line flags, after \<^verbatim>\<open>parse_opt\<close>. \<^verbatim>\<open>parse_opt\<close> refuses a
  negative \<^verbatim>\<open>-n\<close>, so \<open>maxframes\<close> is a natural number.\<close>

record config =
  show_activation :: bool
  show_module :: bool
  show_build_id :: bool
  show_source :: bool
  show_one_tid :: bool
  show_quiet :: bool
  show_raw :: bool
  show_modules :: bool
  show_debugname :: bool
  show_inlines :: bool
  maxframes :: nat
  pid :: int

text \<open>The values of the static initialisers.\<close>

definition default_config :: config where
  "default_config =
     \<lparr>show_activation = False, show_module = False, show_build_id = False,
      show_source = False, show_one_tid = False, show_quiet = False, show_raw = False,
      show_modules = False, show_debugname = False, show_inlines = False,
      maxframes = 256, pid = 0\<rparr>"

text \<open>The collaborators.\<close>

record env =
  dwfl_addrmodule :: "Dwarf_Addr \<Rightarrow> Dwfl_Module option"
  dwfl_module_addrdie :: "Dwfl_Module \<Rightarrow> Dwarf_Addr \<Rightarrow> (Dwarf_Die \<times> Dwarf_Addr) option"
  dwarf_getscopes :: "Dwarf_Die option \<Rightarrow> Dwarf_Addr \<Rightarrow> Dwarf_Die list"
  dwarf_getscopes_die :: "Dwarf_Die \<Rightarrow> Dwarf_Die list"
  dwfl_module_addrname :: "Dwfl_Module \<Rightarrow> Dwarf_Addr \<Rightarrow> string option"
  dwfl_module_getsrc :: "Dwfl_Module \<Rightarrow> Dwarf_Addr \<Rightarrow> Dwfl_Line option"
  dwarf_getsrcfiles :: "Dwarf_Die \<Rightarrow> (nat \<Rightarrow> string option) option"
  cxa_demangle :: "string \<Rightarrow> string option"
  malloc_ok :: "nat \<Rightarrow> bool"
  realloc_ok :: "nat \<Rightarrow> bool"
  threads :: "thread list"
  getthreads_fails :: bool
  getthread_errno :: int
  modules :: "(Dwfl_Module \<times> string \<times> Dwarf_Addr) list"
  getmodules_fails :: bool
  dwfl_pid :: int

subsection \<open>Output, diagnostics and the static variables\<close>

record frame_line =
  l_nr :: nat
  l_width :: nat
  l_pc :: Dwarf_Addr
  l_activation :: "string option"
  l_symname :: "string option"
  l_module :: "string option"
  l_build_id :: "(8 word list \<times> Dwarf_Addr \<times> Dwarf_Addr) option"
  l_source :: "(string \<times> int option \<times> int option) option"

datatype out_item =
  Pid_Header int bool
  | Map_Header int bool
  | Module_Line nat Dwarf_Addr Dwarf_Addr string "8 word list" "string option" "string option"
  | Tid_Header int
  | Frame_Line frame_line

datatype diag =
  Max_Frames int nat
  | Unwind_Error_At string int Dwarf_Addr string int
  | Unwind_Error string int int
  | Getthreads_Error
  | Getmodules_Error
  | Malloc_Error
  | Realloc_Error
  | No_Frames

record state =
  width :: nat
  frames_shown :: bool
  error_message_count :: nat
  demangle_calls :: "string list"
  stdout :: "out_item list"
  stderr :: "diag list"

definition init_state :: state where
  "init_state =
     \<lparr>width = 0, frames_shown = False, error_message_count = 0, demangle_calls = [],
      stdout = [], stderr = []\<rparr>"

definition EXIT_OK :: nat where
  "EXIT_OK = 0"

definition EXIT_ERROR :: nat where
  "EXIT_ERROR = 1"

definition EXIT_BAD :: nat where
  "EXIT_BAD = 2"

definition DWARF_CB_OK :: int where
  "DWARF_CB_OK = 0"

definition DWARF_CB_ABORT :: int where
  "DWARF_CB_ABORT = 1"

text \<open>glibc's \<^verbatim>\<open>error (status, errnum, ...)\<close>, as far as it changes the state: it
  writes the message and counts it. With a non-zero status the caller ends in \<open>Exit\<close>.\<close>

definition error_msg :: "diag \<Rightarrow> state \<Rightarrow> state" where
  "error_msg d st =
     st\<lparr>stderr := stderr st @ [d], error_message_count := error_message_count st + 1\<rparr>"

definition printf :: "out_item \<Rightarrow> state \<Rightarrow> state" where
  "printf x st = st\<lparr>stdout := stdout st @ [x]\<rparr>"

subsection \<open>get_addr_width\<close>

definition get_addr_width :: "Dwfl_Module option \<Rightarrow> state \<Rightarrow> nat \<times> state" where
  "get_addr_width md st =
     (let st1 =
            (if width st = 0 then
               (case md of
                  None \<Rightarrow> st
                | Some m \<Rightarrow>
                    (case m_elf m of
                       None \<Rightarrow> st
                     | Some elf \<Rightarrow>
                         (case ehdr elf of
                            None \<Rightarrow> st
                          | Some cl \<Rightarrow> st\<lparr>width := (if cl = ELFCLASS32 then 8 else 16)\<rparr>)))
             else st);
          st2 = (if width st1 = 0 then st1\<lparr>width := 16\<rparr> else st1)
      in (width st2, st2))"

text \<open>A run of calls, one for each module argument, returning the widths in order.\<close>

fun get_addr_widths :: "Dwfl_Module option list \<Rightarrow> state \<Rightarrow> nat list \<times> state" where
  "get_addr_widths [] st = ([], st)"
| "get_addr_widths (md # mds) st =
     (let (w, st1) = get_addr_width md st;
          (ws, st2) = get_addr_widths mds st1
      in (w # ws, st2))"

text \<open>The width a module's address class determines, in the words of the specification:
  8 hex digits for a 32-bit ELF class, else 16; nothing when there is no module, no ELF
  file or no ELF header.\<close>

definition class_width :: "Dwfl_Module option \<Rightarrow> nat option" where
  "class_width md =
     (case md of
        None \<Rightarrow> None
      | Some m \<Rightarrow>
          (case m_elf m of
             None \<Rightarrow> None
           | Some elf \<Rightarrow>
               (case ehdr elf of
                  None \<Rightarrow> None
                | Some cl \<Rightarrow> Some (if cl = ELFCLASS32 then 8 else 16))))"

subsection \<open>Results\<close>

text \<open>A function that can end the process returns a \<open>result\<close>: \<open>Return\<close> with its value
  and the state, \<open>Exit\<close> with the status passed to \<^verbatim>\<open>error\<close>, or \<open>Crash\<close>: a call
  of \<^verbatim>\<open>abort\<close>, or an execution that C leaves undefined (a store past the end of the
  array, a signed overflow of the capacity).\<close>

datatype crash = Abort | Undefined_Behaviour

datatype 'a result = Return 'a state | Exit nat state | Crash crash

definition INT_MAX :: nat where
  "INT_MAX = 2147483647"

subsection \<open>The frame buffer and frame_callback\<close>

text \<open>Storage that \<^verbatim>\<open>malloc\<close> and \<^verbatim>\<open>realloc\<close> hand out and the program has not
  written yet holds \<open>uninit\<close>; no function of the program reads it before writing it.
  \<open>malloc_ok\<close> and \<open>realloc_ok\<close> of the environment say whether a request for so many
  array elements succeeds.\<close>

definition uninit :: frame where
  "uninit = \<lparr>pc = 0, isactivation = False\<rparr>"

definition malloc_frames :: "nat \<Rightarrow> frame list" where
  "malloc_frames n = replicate n uninit"

definition realloc_frames :: "frame list \<Rightarrow> nat \<Rightarrow> frame list" where
  "realloc_frames xs n = take n (xs @ replicate n uninit)"

text \<open>\<^verbatim>\<open>frame_callback\<close>. Its first argument of the source, the frame state, is
  here what \<^verbatim>\<open>dwfl_frame_pc\<close> stores for it.\<close>

definition frame_callback ::
  "env \<Rightarrow> config \<Rightarrow> frame option \<Rightarrow> frames \<Rightarrow> state \<Rightarrow> (int \<times> frames) result" where
  "frame_callback e cfg s fs st =
     (let nr = frames fs in
      case s of
        None \<Rightarrow> Return (- 1, fs) st
      | Some f \<Rightarrow>
          if length (frame fs) \<le> nr then Crash Undefined_Behaviour
          else
            let fs1 = fs\<lparr>frame := (frame fs)[nr := f], frames := frames fs + 1\<rparr> in
            if frames fs1 = maxframes cfg then Return (DWARF_CB_ABORT, fs1) st
            else if frames fs1 = allocated fs1 then
              (if INT_MAX < allocated fs1 * 2 then Crash Undefined_Behaviour
               else if realloc_ok e (allocated fs1 * 2) then
                 Return (DWARF_CB_OK,
                   fs1\<lparr>allocated := allocated fs1 * 2,
                       frame := realloc_frames (frame fs1) (allocated fs1 * 2)\<rparr>) st
               else Exit EXIT_BAD (error_msg Realloc_Error st))
            else Return (DWARF_CB_OK, fs1) st)"

text \<open>Modelled from the spec: \<^verbatim>\<open>dwfl_thread_getframes\<close> of libdwfl, which is not
  part of the source file. It steps through the frames of a thread and calls the per-frame
  callback on each; a callback result other than \<^verbatim>\<open>DWARF_CB_OK\<close> ends the walk and is
  returned; when the unwinder has no more frames the result is 0, or -1 when unwinding
  ended in an error.\<close>

fun getframes_loop ::
  "env \<Rightarrow> config \<Rightarrow> frame option list \<Rightarrow> bool \<Rightarrow> frames \<Rightarrow> state \<Rightarrow> (int \<times> frames) result" where
  "getframes_loop e cfg [] fails fs st = Return (if fails then - 1 else 0, fs) st"
| "getframes_loop e cfg (s # ss) fails fs st =
     (case frame_callback e cfg s fs st of
        Return (err, fs1) st1 \<Rightarrow>
          if err \<noteq> DWARF_CB_OK then Return (err, fs1) st1
          else getframes_loop e cfg ss fails fs1 st1
      | Exit c st1 \<Rightarrow> Exit c st1
      | Crash k \<Rightarrow> Crash k)"

definition dwfl_thread_getframes ::
  "env \<Rightarrow> config \<Rightarrow> thread \<Rightarrow> frames \<Rightarrow> state \<Rightarrow> (int \<times> frames) result" where
  "dwfl_thread_getframes e cfg t fs st =
     getframes_loop e cfg (states t) (unwind_fails t) fs st"

subsection \<open>Names\<close>

definition die_name :: "Dwarf_Die \<Rightarrow> string option" where
  "die_name d =
     (let attr = (case at_MIPS_linkage_name d of
                    Some a \<Rightarrow> Some a
                  | None \<Rightarrow> at_linkage_name d);
          name = (case attr of None \<Rightarrow> None | Some s \<Rightarrow> s)
      in if name = None then dwarf_diename d else name)"

text \<open>The block of \<^verbatim>\<open>print_frame\<close> under \<^verbatim>\<open>USE_DEMANGLE\<close>: the name to print
  for a symbol name that is not NULL. \<open>demangle_calls\<close> records each call of
  \<^verbatim>\<open>__cxa_demangle\<close>; \<open>cxa_demangle\<close> is \<open>None\<close> when it leaves a status other
  than 0.\<close>

definition demangle_symname :: "env \<Rightarrow> config \<Rightarrow> string \<Rightarrow> state \<Rightarrow> string \<times> state" where
  "demangle_symname e cfg symname st =
     (if \<not> show_raw cfg \<and> take 1 symname = ''_'' \<and> take 1 (drop 1 symname) = ''Z'' then
        (let st1 = st\<lparr>demangle_calls := demangle_calls st @ [symname]\<rparr> in
         case cxa_demangle e symname of
           Some dsymname \<Rightarrow> (dsymname, st1)
         | None \<Rightarrow> (symname, st1))
      else (symname, st))"

subsection \<open>print_frame\<close>

text \<open>The assignment of a \<^verbatim>\<open>Dwarf_Word\<close> (64 bits, unsigned) to an \<^verbatim>\<open>int\<close>
  (32 bits): the low 32 bits, read as a signed number.\<close>

definition int_of_Dwarf_Word :: "64 word \<Rightarrow> int" where
  "int_of_Dwarf_Word val = sint (ucast val :: 32 word)"

text \<open>The source part of \<^verbatim>\<open>print_frame\<close>: the file name with the line and column
  that are printed after it (the line when it is positive, the column when both are).
  \<^verbatim>\<open>dwarf_filesrc\<close> is the table that \<^verbatim>\<open>dwarf_getsrcfiles\<close> gives, from an index
  to a name (\<open>None\<close> for NULL).\<close>

definition frame_source ::
  "env \<Rightarrow> Dwarf_Addr \<Rightarrow> Dwfl_Module option \<Rightarrow> Dwarf_Die option \<Rightarrow> Dwarf_Die option \<Rightarrow>
   (string \<times> int option \<times> int option) option" where
  "frame_source e pc_adjusted md cudie die =
     (let (sname, line, col) =
        (case die of
           Some d \<Rightarrow>
             (case (case cudie of None \<Rightarrow> None | Some cu \<Rightarrow> dwarf_getsrcfiles e cu) of
                None \<Rightarrow> (None, - 1, - 1)
              | Some files \<Rightarrow>
                  (case at_call_file d of
                     None \<Rightarrow> (None, - 1, - 1)
                   | Some v \<Rightarrow>
                       (case at_call_line d of
                          None \<Rightarrow> (files (unat v), - 1, - 1)
                        | Some l \<Rightarrow>
                            (case at_call_column d of
                               None \<Rightarrow> (files (unat v), int_of_Dwarf_Word l, - 1)
                             | Some c \<Rightarrow>
                                 (files (unat v), int_of_Dwarf_Word l, int_of_Dwarf_Word c)))))
         | None \<Rightarrow>
             (case (case md of None \<Rightarrow> None | Some m \<Rightarrow> dwfl_module_getsrc e m pc_adjusted) of
                None \<Rightarrow> (None, - 1, - 1)
              | Some lineobj \<Rightarrow> (li_name lineobj, li_line lineobj, li_col lineobj)))
      in case sname of
           None \<Rightarrow> None
         | Some s \<Rightarrow>
             Some (s, if 0 < line then Some line else None,
                      if 0 < line \<and> 0 < col then Some col else None))"

definition print_frame ::
  "env \<Rightarrow> config \<Rightarrow> nat \<Rightarrow> Dwarf_Addr \<Rightarrow> bool \<Rightarrow> Dwarf_Addr \<Rightarrow> Dwfl_Module option \<Rightarrow>
   string option \<Rightarrow> Dwarf_Die option \<Rightarrow> Dwarf_Die option \<Rightarrow> state \<Rightarrow> state" where
  "print_frame e cfg nr pc0 isact pc_adjusted md symname cudie die st =
     (let (w, st1) = get_addr_width md st;
          act = (if show_activation cfg
                 then Some (if \<not> isact then ''- 1'' else []) else None);
          (name, st2) =
            (case symname of
               None \<Rightarrow> (None, st1)
             | Some s \<Rightarrow> (let (s1, st') = demangle_symname e cfg s st1 in (Some s1, st')));
          fname = (case md of None \<Rightarrow> None | Some m \<Rightarrow> m_name m);
          modl = (if show_module cfg then fname else None);
          bid = (if show_build_id cfg then
                   (case md of
                      None \<Rightarrow> None
                    | Some m \<Rightarrow>
                        if 0 < length (m_build_id m)
                        then Some (m_build_id m, m_start m, pc_adjusted - m_start m)
                        else None)
                 else None);
          src = (if show_source cfg then frame_source e pc_adjusted md cudie die else None)
      in printf (Frame_Line
           \<lparr>l_nr = nr, l_width = w, l_pc = pc0, l_activation = act, l_symname = name,
            l_module = modl, l_build_id = bid, l_source = src\<rparr>) st2)"

subsection \<open>print_inline_frames\<close>

definition function_like :: "dw_tag \<Rightarrow> bool" where
  "function_like tg \<longleftrightarrow>
     tg = DW_TAG_inlined_subroutine \<or> tg = DW_TAG_entry_point \<or> tg = DW_TAG_subprogram"

text \<open>The loop of \<^verbatim>\<open>print_inline_frames\<close> over \<^verbatim>\<open>scopes[1]\<close> and the scopes after
  it.\<close>

fun inline_loop ::
  "env \<Rightarrow> config \<Rightarrow> Dwarf_Addr \<Rightarrow> bool \<Rightarrow> Dwarf_Addr \<Rightarrow> Dwfl_Module option \<Rightarrow>
   Dwarf_Die option \<Rightarrow> Dwarf_Die \<Rightarrow> Dwarf_Die list \<Rightarrow> nat \<Rightarrow> state \<Rightarrow> nat \<times> state" where
  "inline_loop e cfg pc0 isact pc_adjusted md cudie last_scope [] nr st = (nr, st)"
| "inline_loop e cfg pc0 isact pc_adjusted md cudie last_scope (scope # scopes) nr st =
     (if maxframes cfg = 0 \<or> nr < maxframes cfg then
        (if \<not> function_like (dwarf_tag scope) then
           inline_loop e cfg pc0 isact pc_adjusted md cudie last_scope scopes nr st
         else
           (let st1 = print_frame e cfg nr pc0 isact pc_adjusted md (die_name scope)
                        cudie (Some last_scope) st
            in if dwarf_tag scope = DW_TAG_subprogram then (nr + 1, st1)
               else inline_loop e cfg pc0 isact pc_adjusted md cudie scope scopes (nr + 1) st1))
      else (nr, st))"

definition print_inline_frames ::
  "env \<Rightarrow> config \<Rightarrow> nat \<Rightarrow> Dwarf_Addr \<Rightarrow> bool \<Rightarrow> Dwarf_Addr \<Rightarrow> Dwfl_Module option \<Rightarrow>
   string option \<Rightarrow> Dwarf_Die option \<Rightarrow> Dwarf_Die \<Rightarrow> state \<Rightarrow> nat \<times> state" where
  "print_inline_frames e cfg nr pc0 isact pc_adjusted md symname cudie die st =
     (case dwarf_getscopes_die e die of
        [] \<Rightarrow> (nr, st)
      | scope0 # scopes \<Rightarrow>
          (let st1 = print_frame e cfg nr pc0 isact pc_adjusted md symname None None st
           in inline_loop e cfg pc0 isact pc_adjusted md cudie scope0 scopes (nr + 1) st1))"

subsection \<open>print_frames\<close>

text \<open>The loop of \<^verbatim>\<open>print_frames\<close> over the scopes that \<^verbatim>\<open>dwarf_getscopes\<close>
  returned: it stops at the first scope that gives a name and remembers that scope.\<close>

fun scopes_loop :: "Dwarf_Die list \<Rightarrow> string option \<times> Dwarf_Die option" where
  "scopes_loop [] = (None, None)"
| "scopes_loop (scope # scopes) =
     (let symname = (if function_like (dwarf_tag scope) then die_name scope else None)
      in if symname \<noteq> None then (symname, Some scope) else scopes_loop scopes)"

text \<open>What \<^verbatim>\<open>print_frames\<close> computes for one captured frame before it prints it:
  the adjusted program counter, the module, the symbol name, and the DIEs.\<close>

record resolved =
  r_pc_adjusted :: Dwarf_Addr
  r_mod :: "Dwfl_Module option"
  r_symname :: "string option"
  r_cudie :: "Dwarf_Die option"
  r_die :: "Dwarf_Die option"

definition pc_adjust :: "frame \<Rightarrow> Dwarf_Addr" where
  "pc_adjust f = pc f - (if isactivation f then 0 else 1)"

definition resolve :: "env \<Rightarrow> config \<Rightarrow> frame \<Rightarrow> resolved" where
  "resolve e cfg f =
     (let pc_adjusted = pc_adjust f;
          md = dwfl_addrmodule e pc_adjusted
      in case md of
           None \<Rightarrow>
             \<lparr>r_pc_adjusted = pc_adjusted, r_mod = md, r_symname = None, r_cudie = None,
              r_die = None\<rparr>
         | Some m \<Rightarrow>
             if show_quiet cfg then
               \<lparr>r_pc_adjusted = pc_adjusted, r_mod = md, r_symname = None, r_cudie = None,
                r_die = None\<rparr>
             else
               (let (cudie, symname, die) =
                      (if show_debugname cfg then
                         (let cd = dwfl_module_addrdie e m pc_adjusted;
                              cudie = map_option fst cd;
                              bias = (case cd of None \<Rightarrow> 0 | Some (d, b) \<Rightarrow> b);
                              (symname, die) =
                                scopes_loop (dwarf_getscopes e cudie (pc_adjusted - bias))
                          in (cudie, symname, die))
                       else (None, None, None));
                    symname1 = (if symname = None
                                then dwfl_module_addrname e m pc_adjusted else symname)
                in \<lparr>r_pc_adjusted = pc_adjusted, r_mod = md, r_symname = symname1,
                    r_cudie = cudie, r_die = die\<rparr>))"

text \<open>The body of the loop of \<^verbatim>\<open>print_frames\<close> for one captured frame;
  \<open>frame_nr\<close> counts the lines printed for the thread.\<close>

definition print_frames_body ::
  "env \<Rightarrow> config \<Rightarrow> frame \<Rightarrow> nat \<Rightarrow> state \<Rightarrow> nat \<times> state" where
  "print_frames_body e cfg f frame_nr st =
     (let r = resolve e cfg f
      in case (if show_inlines cfg then r_die r else None) of
           Some die \<Rightarrow>
             print_inline_frames e cfg frame_nr (pc f) (isactivation f)
               (r_pc_adjusted r) (r_mod r) (r_symname r) (r_cudie r) die st
         | None \<Rightarrow>
             (frame_nr + 1,
              print_frame e cfg frame_nr (pc f) (isactivation f)
                (r_pc_adjusted r) (r_mod r) (r_symname r) None None st))"

text \<open>The loop of \<^verbatim>\<open>print_frames\<close> over the captured frames
  \<^verbatim>\<open>frame[0]\<close> ... \<^verbatim>\<open>frame[frames - 1]\<close>, given as a list.\<close>

fun print_frames_loop ::
  "env \<Rightarrow> config \<Rightarrow> frame list \<Rightarrow> nat \<Rightarrow> state \<Rightarrow> nat \<times> state" where
  "print_frames_loop e cfg [] frame_nr st = (frame_nr, st)"
| "print_frames_loop e cfg (f # fs) frame_nr st =
     (if maxframes cfg = 0 \<or> frame_nr < maxframes cfg then
        (let (frame_nr1, st1) = print_frames_body e cfg f frame_nr st
         in print_frames_loop e cfg fs frame_nr1 st1)
      else (frame_nr, st))"

definition print_frames ::
  "env \<Rightarrow> config \<Rightarrow> frames \<Rightarrow> int \<Rightarrow> int \<Rightarrow> string \<Rightarrow> state \<Rightarrow> state" where
  "print_frames e cfg fs tid0 dwflerr what st =
     (let st1 = (if 0 < frames fs then st\<lparr>frames_shown := True\<rparr> else st);
          st2 = printf (Tid_Header tid0) st1;
          (frame_nr, st3) = print_frames_loop e cfg (take (frames fs) (frame fs)) 0 st2
      in if 0 < frames fs \<and> frame_nr = maxframes cfg then
           error_msg (Max_Frames tid0 (maxframes cfg)) st3
         else if dwflerr \<noteq> 0 then
           (if 0 < frames fs then
              (let nr = frames fs - 1;
                   pc_adjusted = pc_adjust (frame fs ! nr);
                   md = dwfl_addrmodule e pc_adjusted;
                   mainfile = (case md of None \<Rightarrow> None | Some m \<Rightarrow> m_mainfile m);
                   modname = (case md of None \<Rightarrow> None | Some m \<Rightarrow> m_name m);
                   modname1 = (if modname = None \<or> modname = Some [] then
                                 (case mainfile of
                                    Some mf \<Rightarrow> mf
                                  | None \<Rightarrow> ''<unknown>'')
                               else the modname)
               in error_msg (Unwind_Error_At what tid0 pc_adjusted modname1 dwflerr) st3)
            else error_msg (Unwind_Error what tid0 dwflerr) st3)
         else st3)"

subsection \<open>thread_callback and the walk over the threads\<close>

definition thread_callback ::
  "env \<Rightarrow> config \<Rightarrow> thread \<Rightarrow> frames \<Rightarrow> state \<Rightarrow> (int \<times> frames) result" where
  "thread_callback e cfg t fs st =
     (case dwfl_thread_getframes e cfg t (fs\<lparr>frames := 0\<rparr>) st of
        Return (rc, fs1) st1 \<Rightarrow>
          if rc = DWARF_CB_OK \<or> rc = DWARF_CB_ABORT then
            Return (DWARF_CB_OK, fs1)
              (print_frames e cfg fs1 (tid t) 0 ''dwfl_thread_getframes'' st1)
          else if rc = - 1 then
            Return (DWARF_CB_OK, fs1)
              (print_frames e cfg fs1 (tid t) (thread_errno t) ''dwfl_thread_getframes'' st1)
          else Crash Abort
      | Exit c st1 \<Rightarrow> Exit c st1
      | Crash k \<Rightarrow> Crash k)"

text \<open>Modelled from the spec: \<^verbatim>\<open>dwfl_getthreads\<close> of libdwfl, which is not part of
  the source file. It walks over the threads of the target and calls the per-thread
  callback on each; a callback result other than \<^verbatim>\<open>DWARF_CB_OK\<close> ends the walk and is
  returned; after the last thread the result is 0, or -1 when the enumeration failed.\<close>

fun getthreads_loop ::
  "env \<Rightarrow> config \<Rightarrow> thread list \<Rightarrow> frames \<Rightarrow> state \<Rightarrow> (int \<times> frames) result" where
  "getthreads_loop e cfg [] fs st = Return (if getthreads_fails e then - 1 else 0, fs) st"
| "getthreads_loop e cfg (t # ts) fs st =
     (case thread_callback e cfg t fs st of
        Return (err, fs1) st1 \<Rightarrow>
          if err \<noteq> DWARF_CB_OK then Return (err, fs1) st1
          else getthreads_loop e cfg ts fs1 st1
      | Exit c st1 \<Rightarrow> Exit c st1
      | Crash k \<Rightarrow> Crash k)"

definition dwfl_getthreads ::
  "env \<Rightarrow> config \<Rightarrow> frames \<Rightarrow> state \<Rightarrow> (int \<times> frames) result" where
  "dwfl_getthreads e cfg fs st = getthreads_loop e cfg (threads e) fs st"

text \<open>Modelled from the spec: \<^verbatim>\<open>dwfl_getthread_frames\<close> of libdwfl, which is not
  part of the source file: the frames of the one thread with the given id, or -1 when
  there is no such thread. \<open>one_tid_errno\<close> is what \<^verbatim>\<open>dwfl_errno\<close> returns after
  a failure of it.\<close>

definition dwfl_getthread_frames ::
  "env \<Rightarrow> config \<Rightarrow> int \<Rightarrow> frames \<Rightarrow> state \<Rightarrow> (int \<times> frames) result" where
  "dwfl_getthread_frames e cfg tid0 fs st =
     (case find (\<lambda>t. tid t = tid0) (threads e) of
        None \<Rightarrow> Return (- 1, fs) st
      | Some t \<Rightarrow> dwfl_thread_getframes e cfg t fs st)"

definition one_tid_errno :: "env \<Rightarrow> int \<Rightarrow> int" where
  "one_tid_errno e tid0 =
     (case find (\<lambda>t. tid t = tid0) (threads e) of
        None \<Rightarrow> getthread_errno e
      | Some t \<Rightarrow> thread_errno t)"

subsection \<open>module_callback\<close>

text \<open>\<^verbatim>\<open>basename\<close> of \<^verbatim>\<open>string.h\<close>: what follows the last slash of the name,
  the whole name when it has none.\<close>

definition basename :: "string \<Rightarrow> string" where
  "basename name = rev (takeWhile (\<lambda>c. c \<noteq> CHR ''/'') (rev name))"

definition module_callback :: "Dwfl_Module \<times> string \<times> Dwarf_Addr \<Rightarrow> state \<Rightarrow> state" where
  "module_callback x st =
     (case x of (md, name, start) \<Rightarrow>
        (let (mend, mainfile, debugfile) =
               (if m_name md = None \<or> m_name md \<noteq> Some name
                then (start + 1, None, None)
                else (m_end md, m_mainfile md, m_debugfile md));
             (w, st1) = get_addr_width (Some md) st
         in printf (Module_Line w start mend (basename name) (m_build_id md)
              (if m_elf md \<noteq> None
               then Some (case mainfile of Some s \<Rightarrow> s | None \<Rightarrow> ''-'') else None)
              (if m_dwarf md
               then Some (case debugfile of Some s \<Rightarrow> s | None \<Rightarrow> ''-'') else None)) st1))"

subsection \<open>main\<close>

text \<open>The body of \<^verbatim>\<open>main\<close> after \<^verbatim>\<open>argp_parse\<close>, in three parts: the module map,
  the stacks, and the exit status.\<close>

definition list_modules :: "env \<Rightarrow> config \<Rightarrow> state \<Rightarrow> unit result" where
  "list_modules e cfg st =
     (if show_modules cfg then
        (let st1 = printf (Map_Header (dwfl_pid e) (pid cfg \<noteq> 0)) st;
             st2 = fold module_callback (modules e) st1
         in if getmodules_fails e then Exit EXIT_BAD (error_msg Getmodules_Error st2)
            else Return () st2)
      else Return () st)"

definition show_stacks :: "env \<Rightarrow> config \<Rightarrow> frames \<Rightarrow> state \<Rightarrow> unit result" where
  "show_stacks e cfg fs st =
     (if show_one_tid cfg then
        (case dwfl_getthread_frames e cfg (pid cfg) fs st of
           Return (rc, fs1) st1 \<Rightarrow>
             if rc = DWARF_CB_OK \<or> rc = DWARF_CB_ABORT then
               Return () (print_frames e cfg fs1 (pid cfg) 0 ''dwfl_getthread_frames'' st1)
             else if rc = - 1 then
               Return ()
                 (print_frames e cfg fs1 (pid cfg) (one_tid_errno e (pid cfg))
                    ''dwfl_getthread_frames'' st1)
             else Crash Abort
         | Exit c st1 \<Rightarrow> Exit c st1
         | Crash k \<Rightarrow> Crash k)
      else
        (case dwfl_getthreads e cfg fs (printf (Pid_Header (dwfl_pid e) (pid cfg \<noteq> 0)) st) of
           Return (rc, fs1) st1 \<Rightarrow>
             if rc = DWARF_CB_OK \<or> rc = DWARF_CB_ABORT then Return () st1
             else if rc = - 1 then Return () (error_msg Getthreads_Error st1)
             else Crash Abort
         | Exit c st1 \<Rightarrow> Exit c st1
         | Crash k \<Rightarrow> Crash k))"

definition exit_status :: "state \<Rightarrow> nat result" where
  "exit_status st =
     (if \<not> frames_shown st then Exit EXIT_BAD (error_msg No_Frames st)
      else Return (if error_message_count st \<noteq> 0 then EXIT_ERROR else EXIT_OK) st)"

text \<open>The buffer as \<^verbatim>\<open>main\<close> sets it up, when \<^verbatim>\<open>malloc\<close> succeeds.\<close>

definition initial_frames :: "config \<Rightarrow> frames" where
  "initial_frames cfg =
     (let n = (if maxframes cfg = 0 then 2048 else maxframes cfg)
      in \<lparr>frames = 0, allocated = n, frame = malloc_frames n\<rparr>)"

definition stack_main :: "env \<Rightarrow> config \<Rightarrow> nat result" where
  "stack_main e cfg =
     (case list_modules e cfg init_state of
        Return u st1 \<Rightarrow>
          if \<not> malloc_ok e (allocated (initial_frames cfg))
          then Exit EXIT_BAD (error_msg Malloc_Error st1)
          else
            (case show_stacks e cfg (initial_frames cfg) st1 of
               Return u st2 \<Rightarrow> exit_status st2
             | Exit c st2 \<Rightarrow> Exit c st2
             | Crash k \<Rightarrow> Crash k)
      | Exit c st1 \<Rightarrow> Exit c st1
      | Crash k \<Rightarrow> Crash k)"

text \<open>The status with which the process ends, when it ends in a call of \<^verbatim>\<open>exit\<close>
  or a return from \<^verbatim>\<open>main\<close>.\<close>

definition exit_code :: "nat result \<Rightarrow> nat option" where
  "exit_code r = (case r of Return c st \<Rightarrow> Some c | Exit c st \<Rightarrow> Some c | Crash k \<Rightarrow> None)"

definition final_state :: "nat result \<Rightarrow> state option" where
  "final_state r = (case r of Return c st \<Rightarrow> Some st | Exit c st \<Rightarrow> Some st | Crash k \<Rightarrow> None)"

subsection \<open>Observations on a run\<close>

text \<open>The frame lines among the items written to standard output, in order.\<close>

fun frame_lines :: "out_item list \<Rightarrow> frame_line list" where
  "frame_lines [] = []"
| "frame_lines (Frame_Line l # xs) = l # frame_lines xs"
| "frame_lines (x # xs) = frame_lines xs"

text \<open>The name that \<^verbatim>\<open>print_frame\<close> prints for a symbol name (NULL is \<open>None\<close>).\<close>

definition shown_name :: "env \<Rightarrow> config \<Rightarrow> string option \<Rightarrow> string option" where
  "shown_name e cfg symname =
     map_option (\<lambda>s. fst (demangle_symname e cfg s init_state)) symname"

text \<open>The scopes after the innermost one for which inline expansion prints a frame when
  no ceiling stops it: scopes that are not function-like are skipped, and the first
  subprogram ends the walk and is included.\<close>

fun expansion :: "Dwarf_Die list \<Rightarrow> Dwarf_Die list" where
  "expansion [] = []"
| "expansion (scope # scopes) =
     (if \<not> function_like (dwarf_tag scope) then expansion scopes
      else if dwarf_tag scope = DW_TAG_subprogram then [scope]
      else scope # expansion scopes)"

text \<open>The lines that inline expansion can still print after \<open>nr\<close> lines of the thread,
  out of \<open>n\<close> candidates: all of them without a ceiling, else what the ceiling leaves.\<close>

definition ceiling_left :: "config \<Rightarrow> nat \<Rightarrow> nat \<Rightarrow> nat" where
  "ceiling_left cfg nr n = (if maxframes cfg = 0 then n else min n (maxframes cfg - nr))"

text \<open>A captured frame is rendered when printing it gives at least one line. The one way
  it is not: inline expansion is on, a DIE was found for the frame, and
  \<^verbatim>\<open>dwarf_getscopes_die\<close> returns no scope for that DIE.\<close>

definition renders :: "env \<Rightarrow> config \<Rightarrow> frame \<Rightarrow> bool" where
  "renders e cfg f =
     (case (if show_inlines cfg then r_die (resolve e cfg f) else None) of
        Some die \<Rightarrow> dwarf_getscopes_die e die \<noteq> []
      | None \<Rightarrow> True)"

text \<open>The diagnostics of a call of \<^verbatim>\<open>error\<close> with the status \<^verbatim>\<open>EXIT_BAD\<close>.\<close>

fun fatal :: "diag \<Rightarrow> bool" where
  "fatal Getmodules_Error = True"
| "fatal Malloc_Error = True"
| "fatal Realloc_Error = True"
| "fatal No_Frames = True"
| "fatal d = False"

text \<open>The scope chain at an adjusted address of a module, innermost scope first, as
  \<^verbatim>\<open>print_frames\<close> asks for it: \<^verbatim>\<open>dwarf_getscopes\<close> on the compile unit of
  \<^verbatim>\<open>dwfl_module_addrdie\<close>, at the address less the bias.\<close>

definition scopes_at :: "env \<Rightarrow> Dwfl_Module \<Rightarrow> Dwarf_Addr \<Rightarrow> Dwarf_Die list" where
  "scopes_at e m a =
     dwarf_getscopes e (map_option fst (dwfl_module_addrdie e m a))
       (a - (case dwfl_module_addrdie e m a of None \<Rightarrow> 0 | Some (d, b) \<Rightarrow> b))"

text \<open>The name resolution as the specification words it: without quiet mode, in
  debug-name mode the first scope tagged subprogram, inlined-subroutine or entry-point
  gives its name; when that step is not requested or yields no name, the generic lookup of
  the module is used.\<close>

definition spec_symname :: "env \<Rightarrow> config \<Rightarrow> Dwfl_Module \<Rightarrow> Dwarf_Addr \<Rightarrow> string option" where
  "spec_symname e cfg m a =
     (if show_quiet cfg then None
      else
        (let n = (if show_debugname cfg then
                    (case find (\<lambda>d. function_like (dwarf_tag d)) (scopes_at e m a) of
                       Some d \<Rightarrow> die_name d
                     | None \<Rightarrow> None)
                  else None)
         in if n = None then dwfl_module_addrname e m a else n))"

text \<open>The width as the specification words it: that of the first module, among the
  arguments of the calls, for which a width can be determined.\<close>

definition first_class_width :: "Dwfl_Module option list \<Rightarrow> nat" where
  "first_class_width mds = (case List.map_filter class_width mds of [] \<Rightarrow> 16 | w # ws \<Rightarrow> w)"

subsection \<open>Example inputs\<close>

definition module32 :: Dwfl_Module where
  "module32 =
     \<lparr>m_elf = Some \<lparr>ehdr = Some ELFCLASS32\<rparr>, m_dwarf = False, m_name = Some ''a.out'',
      m_start = 0x8048000, m_end = 0x8049000, m_mainfile = Some ''/bin/a.out'',
      m_debugfile = None, m_build_id = []\<rparr>"

text \<open>Scenario A of the specification: one thread with three frames, none of them an
  activation, in a target where no address has a module and no name can be resolved.\<close>

definition scenario_frames :: "frame list" where
  "scenario_frames =
     [\<lparr>pc = 0x4010, isactivation = False\<rparr>, \<lparr>pc = 0x4020, isactivation = False\<rparr>,
      \<lparr>pc = 0x4030, isactivation = False\<rparr>]"

definition scenario_thread :: thread where
  "scenario_thread =
     \<lparr>tid = 42, states = map Some scenario_frames, unwind_fails = False, thread_errno = 0\<rparr>"

definition scenario_env :: env where
  "scenario_env =
     \<lparr>dwfl_addrmodule = (\<lambda>a. None), dwfl_module_addrdie = (\<lambda>m a. None),
      dwarf_getscopes = (\<lambda>d a. []), dwarf_getscopes_die = (\<lambda>d. []),
      dwfl_module_addrname = (\<lambda>m a. None), dwfl_module_getsrc = (\<lambda>m a. None),
      dwarf_getsrcfiles = (\<lambda>d. None), cxa_demangle = (\<lambda>s. None),
      malloc_ok = (\<lambda>n. True), realloc_ok = (\<lambda>n. True),
      threads = [scenario_thread], getthreads_fails = False, getthread_errno = 0,
      modules = [], getmodules_fails = False, dwfl_pid = 42\<rparr>"

text \<open>A frame inside an inlined call: the innermost scope at the adjusted address is an
  inlined subroutine, inside a lexical block of the subprogram it was inlined into.\<close>

definition die_inner :: Dwarf_Die where
  "die_inner =
     \<lparr>d_offset = 3, dwarf_tag = DW_TAG_inlined_subroutine, at_MIPS_linkage_name = None,
      at_linkage_name = None, dwarf_diename = Some ''inner'', at_call_file = Some 1,
      at_call_line = Some 10, at_call_column = None\<rparr>"

definition die_block :: Dwarf_Die where
  "die_block =
     \<lparr>d_offset = 2, dwarf_tag = DW_TAG_lexical_block, at_MIPS_linkage_name = None,
      at_linkage_name = None, dwarf_diename = None, at_call_file = None,
      at_call_line = None, at_call_column = None\<rparr>"

definition die_outer :: Dwarf_Die where
  "die_outer =
     \<lparr>d_offset = 1, dwarf_tag = DW_TAG_subprogram, at_MIPS_linkage_name = None,
      at_linkage_name = None, dwarf_diename = Some ''outer'', at_call_file = None,
      at_call_line = None, at_call_column = None\<rparr>"

definition die_cu :: Dwarf_Die where
  "die_cu =
     \<lparr>d_offset = 0, dwarf_tag = DW_TAG_compile_unit, at_MIPS_linkage_name = None,
      at_linkage_name = None, dwarf_diename = Some ''prog.c'', at_call_file = None,
      at_call_line = None, at_call_column = None\<rparr>"

definition inline_env :: env where
  "inline_env =
     scenario_env
       \<lparr>dwfl_addrmodule := (\<lambda>a. Some module32),
        dwfl_module_addrdie := (\<lambda>m a. Some (die_cu, 0)),
        dwarf_getscopes := (\<lambda>d a. [die_inner, die_block, die_outer]),
        dwarf_getscopes_die := (\<lambda>d. [die_inner, die_block, die_outer])\<rparr>"

text \<open>The flags after \<^verbatim>\<open>-i -n 0\<close>: inline expansion, which implies the lookup of
  names in the debug information, and no ceiling.\<close>

definition inline_config :: config where
  "inline_config = default_config\<lparr>show_debugname := True, show_inlines := True, maxframes := 0\<rparr>"

text \<open>The flags after \<^verbatim>\<open>-i -n C\<close>: inline expansion, which implies the lookup of
  names in the debug information, and the ceiling \<open>C\<close>.\<close>

definition inlines_config :: "nat \<Rightarrow> config" where
  "inlines_config C =
     default_config\<lparr>show_debugname := True, show_inlines := True, maxframes := C\<rparr>"

text \<open>The target of the inlined call, when \<^verbatim>\<open>dwarf_getscopes_die\<close> fails for every
  DIE: it returns -1 and gives no scope, as libdw does when it cannot allocate the scope
  array or cannot walk the DIE tree of the unit.\<close>

definition noscope_env :: env where
  "noscope_env = inline_env\<lparr>dwarf_getscopes_die := (\<lambda>d. [])\<rparr>"

text \<open>A target whose thread has its first frame (0x4010, adjusted 0x400f) in the
  subprogram \<open>outer\<close> itself and its two other frames inside the call inlined into it;
  \<^verbatim>\<open>dwarf_getscopes_die\<close> succeeds for the DIE of \<open>outer\<close> and fails for every other
  DIE.\<close>

definition partial_env :: env where
  "partial_env =
     inline_env
       \<lparr>dwarf_getscopes :=
          (\<lambda>d a. if a = 0x400f then [die_outer, die_cu]
                  else [die_inner, die_block, die_outer, die_cu]),
        dwarf_getscopes_die :=
          (\<lambda>d. if d_offset d = d_offset die_outer then [die_outer, die_cu] else [])\<rparr>"

text \<open>A frame whose innermost function-like scope has no name: an inlined subroutine
  without a name, inside a named subprogram, at an address for which the symbol table has
  a name as well.\<close>

definition die_anon :: Dwarf_Die where
  "die_anon =
     \<lparr>d_offset = 4, dwarf_tag = DW_TAG_inlined_subroutine, at_MIPS_linkage_name = None,
      at_linkage_name = None, dwarf_diename = None, at_call_file = None,
      at_call_line = None, at_call_column = None\<rparr>"

definition anon_env :: env where
  "anon_env =
     inline_env
       \<lparr>dwarf_getscopes := (\<lambda>d a. [die_anon, die_outer]),
        dwfl_module_addrname := (\<lambda>m a. Some ''sym'')\<rparr>"

definition debugname_config :: config where
  "debugname_config = default_config\<lparr>show_debugname := True\<rparr>"

text \<open>The addresses and the names on the frame lines of a run that ended, in order.\<close>

definition printed_frames :: "nat result \<Rightarrow> (Dwarf_Addr \<times> string option) list" where
  "printed_frames r =
     (case r of
        Return c st \<Rightarrow> map (\<lambda>l. (l_pc l, l_symname l)) (frame_lines (stdout st))
      | Exit c st \<Rightarrow> map (\<lambda>l. (l_pc l, l_symname l)) (frame_lines (stdout st))
      | Crash k \<Rightarrow> [])"

text \<open>What holds of the static variables and the two streams between the steps of a run
  that no fatal error has ended: every diagnostic was counted, none is fatal, and the flag
  \<^verbatim>\<open>frames_shown\<close> is set when a frame line was printed and only then.\<close>

definition run_inv :: "state \<Rightarrow> bool" where
  "run_inv st \<longleftrightarrow>
     error_message_count st = length (stderr st) \<and>
     frames_shown st = (frame_lines (stdout st) \<noteq> []) \<and>
     list_all (\<lambda>d. \<not> fatal d) (stderr st)"

text \<open>The buffer between two threads: the array has the length \<open>allocated\<close>, which is
  positive, and is the ceiling when there is one.\<close>

definition buffer_ok :: "config \<Rightarrow> frames \<Rightarrow> bool" where
  "buffer_ok cfg fs \<longleftrightarrow>
     length (frame fs) = allocated fs \<and> 0 < allocated fs \<and>
     (if maxframes cfg = 0 then True else allocated fs = maxframes cfg)"

section \<open>Proofs\<close>

subsection \<open>The address width\<close>

lemma get_addr_width_set: "width st \<noteq> 0 \<Longrightarrow> get_addr_width md st = (width st, st)"
  by (simp add: get_addr_width_def)

lemma get_addr_widths_set:
  "width st \<noteq> 0 \<Longrightarrow> get_addr_widths mds st = (replicate (length mds) (width st), st)"
  by (induction mds) (simp_all add: get_addr_width_set)

lemma get_addr_width_first:
  "width st = 0 \<Longrightarrow>
     get_addr_width md st =
       (case class_width md of Some w \<Rightarrow> w | None \<Rightarrow> 16,
        st\<lparr>width := (case class_width md of Some w \<Rightarrow> w | None \<Rightarrow> 16)\<rparr>)"
  by (simp add: get_addr_width_def class_width_def split: option.splits)

subsection \<open>What printing a frame changes\<close>

lemma get_addr_width_fields:
  "frames_shown (snd (get_addr_width md st)) = frames_shown st"
  "error_message_count (snd (get_addr_width md st)) = error_message_count st"
  "demangle_calls (snd (get_addr_width md st)) = demangle_calls st"
  "stdout (snd (get_addr_width md st)) = stdout st"
  "stderr (snd (get_addr_width md st)) = stderr st"
  by (simp_all add: get_addr_width_def Let_def split: option.splits)

lemma demangle_symname_fields:
  "frames_shown (snd (demangle_symname e cfg s st)) = frames_shown st"
  "error_message_count (snd (demangle_symname e cfg s st)) = error_message_count st"
  "stdout (snd (demangle_symname e cfg s st)) = stdout st"
  "stderr (snd (demangle_symname e cfg s st)) = stderr st"
  "width (snd (demangle_symname e cfg s st)) = width st"
  by (simp_all add: demangle_symname_def Let_def split: option.splits)

lemma print_frame_fields:
  "frames_shown (print_frame e cfg nr pc0 isact pca md symname cudie die st) = frames_shown st"
  "error_message_count (print_frame e cfg nr pc0 isact pca md symname cudie die st) =
     error_message_count st"
  "stderr (print_frame e cfg nr pc0 isact pca md symname cudie die st) = stderr st"
  by (simp_all add: print_frame_def printf_def Let_def split_beta
      get_addr_width_fields demangle_symname_fields split: option.splits)

lemma print_frame_stdout:
  "\<exists>L. stdout (print_frame e cfg nr pc0 isact pca md symname cudie die st) =
         stdout st @ [Frame_Line L] \<and> l_nr L = nr \<and> l_pc L = pc0 \<and>
       l_symname L = map_option (\<lambda>s. fst (demangle_symname e cfg s init_state)) symname \<and>
       l_source L = (if show_source cfg then frame_source e pca md cudie die else None)"
  by (simp add: print_frame_def printf_def Let_def split_beta
      get_addr_width_fields demangle_symname_fields demangle_symname_def split: option.splits)

lemma frame_lines_append: "frame_lines (xs @ ys) = frame_lines xs @ frame_lines ys"
  by (induction xs rule: frame_lines.induct) simp_all

lemma frame_lines_map: "frame_lines (map Frame_Line ls) = ls"
  by (induction ls) simp_all

lemma print_frame_line:
  "\<exists>l. stdout (print_frame e cfg nr pc0 isact pca md symname cudie die st) =
         stdout st @ [Frame_Line l] \<and> l_nr l = nr \<and> l_pc l = pc0 \<and>
       l_symname l = shown_name e cfg symname \<and>
       l_source l = (if show_source cfg then frame_source e pca md cudie die else None)"
  using print_frame_stdout [of e cfg nr pc0 isact pca md symname cudie die st]
  by (simp add: shown_name_def)

lemma inline_loop_fields:
  "frames_shown (snd (inline_loop e cfg pc0 isact pca md cudie ls ss nr st)) = frames_shown st \<and>
   error_message_count (snd (inline_loop e cfg pc0 isact pca md cudie ls ss nr st)) =
     error_message_count st \<and>
   stderr (snd (inline_loop e cfg pc0 isact pca md cudie ls ss nr st)) = stderr st"
  by (induction ss arbitrary: ls nr st) (simp_all add: Let_def print_frame_fields)

lemma inline_loop_lines:
  "\<exists>ls. stdout (snd (inline_loop e cfg pc0 isact pca md cudie lsc ss nr st)) =
          stdout st @ map Frame_Line ls \<and>
        fst (inline_loop e cfg pc0 isact pca md cudie lsc ss nr st) = nr + length ls \<and>
        length ls = ceiling_left cfg nr (length (expansion ss)) \<and>
        map l_nr ls = [nr ..< nr + length ls] \<and>
        map l_pc ls = replicate (length ls) pc0 \<and>
        map l_symname ls =
          map (\<lambda>s. shown_name e cfg (die_name s)) (take (length ls) (expansion ss))"
proof (induction ss arbitrary: lsc nr st)
  case Nil
  show ?case by (simp add: ceiling_left_def)
next
  case (Cons s ss)
  show ?case
  proof (cases "maxframes cfg = 0 \<or> nr < maxframes cfg")
    case False
    then show ?thesis by (simp add: ceiling_left_def)
  next
    case guard: True
    show ?thesis
    proof (cases "function_like (dwarf_tag s)")
      case False
      with guard Cons.IH [of lsc nr st] show ?thesis by simp
    next
      case fl: True
      let ?st1 = "print_frame e cfg nr pc0 isact pca md (die_name s) cudie (Some lsc) st"
      obtain l where l: "stdout ?st1 = stdout st @ [Frame_Line l]" "l_nr l = nr" "l_pc l = pc0"
        "l_symname l = shown_name e cfg (die_name s)"
        using print_frame_line [of e cfg nr pc0 isact pca md "die_name s" cudie "Some lsc" st]
        by blast
      show ?thesis
      proof (cases "dwarf_tag s = DW_TAG_subprogram")
        case True
        with guard fl l show ?thesis
          by (intro exI [of _ "[l]"]) (auto simp: ceiling_left_def)
      next
        case False
        obtain ls where ls:
          "stdout (snd (inline_loop e cfg pc0 isact pca md cudie s ss (nr + 1) ?st1)) =
             stdout ?st1 @ map Frame_Line ls"
          "fst (inline_loop e cfg pc0 isact pca md cudie s ss (nr + 1) ?st1) = nr + 1 + length ls"
          "length ls = ceiling_left cfg (nr + 1) (length (expansion ss))"
          "map l_nr ls = [nr + 1 ..< nr + 1 + length ls]"
          "map l_pc ls = replicate (length ls) pc0"
          "map l_symname ls =
             map (\<lambda>s. shown_name e cfg (die_name s)) (take (length ls) (expansion ss))"
          using Cons.IH [of s "nr + 1" ?st1] by blast
        have len: "Suc (length ls) = ceiling_left cfg nr (length (expansion (s # ss)))"
          using guard fl False ls(3) by (auto simp: ceiling_left_def)
        have nrs: "map l_nr (l # ls) = [nr ..< nr + length (l # ls)]"
        proof -
          have "[nr ..< nr + length (l # ls)] = nr # [nr + 1 ..< nr + 1 + length ls]"
            by (simp add: upt_conv_Cons del: upt_Suc)
          then show ?thesis using l(2) ls(4) by simp
        qed
        have unf: "inline_loop e cfg pc0 isact pca md cudie lsc (s # ss) nr st =
            inline_loop e cfg pc0 isact pca md cudie s ss (nr + 1) ?st1"
          using guard fl False by (simp add: Let_def)
        have out: "stdout (snd (inline_loop e cfg pc0 isact pca md cudie lsc (s # ss) nr st)) =
            stdout st @ map Frame_Line (l # ls)"
          unfolding unf using ls(1) l(1) by simp
        have cnt: "fst (inline_loop e cfg pc0 isact pca md cudie lsc (s # ss) nr st) =
            nr + length (l # ls)"
          unfolding unf using ls(2) by simp
        have pcs: "map l_pc (l # ls) = replicate (length (l # ls)) pc0"
          using l(3) ls(5) by simp
        have exp: "expansion (s # ss) = s # expansion ss"
          using fl False by simp
        have names: "map l_symname (l # ls) =
            map (\<lambda>s. shown_name e cfg (die_name s)) (take (length (l # ls)) (expansion (s # ss)))"
          unfolding exp using l(4) ls(6) by simp
        have len': "length (l # ls) = ceiling_left cfg nr (length (expansion (s # ss)))"
          using len by simp
        show ?thesis
          using out cnt len' nrs pcs names by blast
      qed
    qed
  qed
qed

subsection \<open>Collecting the frames of a thread\<close>

lemma take_Suc_update:
  "k < length xs \<Longrightarrow> take (Suc k) (xs[k := f]) = take k xs @ [f]"
  by (simp add: take_Suc_conv_app_nth)

lemma update_last:
  assumes "length xs = Suc k"
  shows "xs[k := f] = take k xs @ [f]"
proof -
  have "take (Suc k) (xs[k := f]) = xs[k := f]"
    using assms by simp
  then show ?thesis
    using assms take_Suc_update [of k xs f] by simp
qed

lemma take_realloc_frames:
  assumes "length xs = Suc k"
  shows "take (Suc k) (realloc_frames (xs[k := f]) (Suc k * 2)) = take k xs @ [f]"
    and "length (realloc_frames (xs[k := f]) (Suc k * 2)) = Suc k * 2"
proof -
  let ?ys = "xs[k := f]"
  have len: "length ?ys = Suc k" using assms by simp
  have "take (Suc k) (realloc_frames ?ys (Suc k * 2)) =
      take (Suc k) (?ys @ replicate (Suc k * 2) uninit)"
    unfolding realloc_frames_def by (simp only: take_take) simp
  also have "\<dots> = ?ys" using len by simp
  also have "\<dots> = take k xs @ [f]" using assms by (rule update_last)
  finally show "take (Suc k) (realloc_frames ?ys (Suc k * 2)) = take k xs @ [f]" .
  show "length (realloc_frames ?ys (Suc k * 2)) = Suc k * 2"
    using len by (simp add: realloc_frames_def)
qed

lemma frame_callback_bounded:
  assumes "allocated fs = maxframes cfg" "length (frame fs) = maxframes cfg"
    and "frames fs < maxframes cfg"
  shows "frame_callback e cfg (Some f) fs st =
     Return (if Suc (frames fs) = maxframes cfg then DWARF_CB_ABORT else DWARF_CB_OK,
       fs\<lparr>frame := (frame fs)[frames fs := f], frames := Suc (frames fs)\<rparr>) st"
  using assms by (simp add: frame_callback_def Let_def)

lemma getframes_bounded:
  "\<lbrakk>allocated fs = maxframes cfg; length (frame fs) = maxframes cfg;
    frames fs < maxframes cfg\<rbrakk> \<Longrightarrow>
   \<exists>fs'. getframes_loop e cfg (map Some frs) fails fs st =
            Return (if maxframes cfg \<le> frames fs + length frs then DWARF_CB_ABORT
                    else if fails then - 1 else 0, fs') st \<and>
          frames fs' = min (frames fs + length frs) (maxframes cfg) \<and>
          take (frames fs') (frame fs') =
            take (frames fs) (frame fs) @ take (maxframes cfg - frames fs) frs \<and>
          allocated fs' = maxframes cfg \<and> length (frame fs') = maxframes cfg"
proof (induction frs arbitrary: fs)
  case Nil
  then show ?case by simp
next
  case (Cons f frs)
  let ?fs1 = "fs\<lparr>frame := (frame fs)[frames fs := f], frames := Suc (frames fs)\<rparr>"
  have step: "frame_callback e cfg (Some f) fs st =
      Return (if Suc (frames fs) = maxframes cfg then DWARF_CB_ABORT else DWARF_CB_OK, ?fs1) st"
    using Cons.prems by (rule frame_callback_bounded)
  have tk: "take (Suc (frames fs)) (frame ?fs1) = take (frames fs) (frame fs) @ [f]"
    using Cons.prems by (simp add: take_Suc_update)
  show ?case
  proof (cases "Suc (frames fs) = maxframes cfg")
    case True
    have "maxframes cfg - frames fs = Suc 0" using True by simp
    then show ?thesis
      using True step tk Cons.prems
      by (intro exI [of _ ?fs1]) (simp add: DWARF_CB_ABORT_def DWARF_CB_OK_def)
  next
    case False
    then have lt: "frames ?fs1 < maxframes cfg" using Cons.prems by simp
    obtain fs' where fs':
      "getframes_loop e cfg (map Some frs) fails ?fs1 st =
         Return (if maxframes cfg \<le> frames ?fs1 + length frs then DWARF_CB_ABORT
                 else if fails then - 1 else 0, fs') st"
      "frames fs' = min (frames ?fs1 + length frs) (maxframes cfg)"
      "take (frames fs') (frame fs') =
         take (frames ?fs1) (frame ?fs1) @ take (maxframes cfg - frames ?fs1) frs"
      "allocated fs' = maxframes cfg" "length (frame fs') = maxframes cfg"
      using Cons.IH [of ?fs1] Cons.prems lt by auto
    have more: "maxframes cfg - frames fs = Suc (maxframes cfg - Suc (frames fs))"
      using Cons.prems by simp
    have res: "getframes_loop e cfg (map Some (f # frs)) fails fs st =
        Return (if maxframes cfg \<le> frames fs + length (f # frs) then DWARF_CB_ABORT
                else if fails then - 1 else 0, fs') st"
      using False step fs'(1) by (simp add: DWARF_CB_OK_def)
    have cnt: "frames fs' = min (frames fs + length (f # frs)) (maxframes cfg)"
      using fs'(2) by simp
    have cap: "take (frames fs') (frame fs') =
        take (frames fs) (frame fs) @ take (maxframes cfg - frames fs) (f # frs)"
      using fs'(3) tk by (simp add: more)
    show ?thesis
      using res cnt cap fs'(4,5) by blast
  qed
qed

lemma frame_callback_unbounded:
  assumes "maxframes cfg = 0" "length (frame fs) = allocated fs" "frames fs < allocated fs"
    and "realloc_ok e (allocated fs * 2)" "allocated fs * 2 \<le> INT_MAX"
  shows "\<exists>fs1. frame_callback e cfg (Some f) fs st = Return (DWARF_CB_OK, fs1) st \<and>
     frames fs1 = Suc (frames fs) \<and>
     take (frames fs1) (frame fs1) = take (frames fs) (frame fs) @ [f] \<and>
     length (frame fs1) = allocated fs1 \<and> frames fs1 < allocated fs1 \<and>
     allocated fs1 = (if Suc (frames fs) = allocated fs then allocated fs * 2 else allocated fs)"
proof (cases "Suc (frames fs) = allocated fs")
  case True
  let ?fs1 = "fs\<lparr>frame := realloc_frames ((frame fs)[frames fs := f]) (allocated fs * 2),
                   frames := Suc (frames fs), allocated := allocated fs * 2\<rparr>"
  have "frame_callback e cfg (Some f) fs st = Return (DWARF_CB_OK, ?fs1) st"
    using assms True by (simp add: frame_callback_def Let_def)
  moreover have "take (Suc (frames fs)) (frame ?fs1) = take (frames fs) (frame fs) @ [f]"
    using take_realloc_frames(1) [of "frame fs" "frames fs" f] assms(2) True by simp
  moreover have "length (frame ?fs1) = allocated fs * 2"
    using take_realloc_frames(2) [of "frame fs" "frames fs" f] assms(2) True by simp
  ultimately show ?thesis
    using assms True by (intro exI [of _ ?fs1]) simp
next
  case False
  let ?fs1 = "fs\<lparr>frame := (frame fs)[frames fs := f], frames := Suc (frames fs)\<rparr>"
  have "frame_callback e cfg (Some f) fs st = Return (DWARF_CB_OK, ?fs1) st"
    using assms False by (simp add: frame_callback_def Let_def)
  moreover have "take (Suc (frames fs)) (frame ?fs1) = take (frames fs) (frame fs) @ [f]"
    using assms by (simp add: take_Suc_update)
  ultimately show ?thesis
    using assms False by (intro exI [of _ ?fs1]) simp
qed

lemma getframes_unbounded:
  "\<lbrakk>maxframes cfg = 0; \<forall>n. realloc_ok e n; length (frame fs) = allocated fs;
    frames fs < allocated fs; 2 * (frames fs + length frs) \<le> INT_MAX\<rbrakk> \<Longrightarrow>
   \<exists>fs'. getframes_loop e cfg (map Some frs) fails fs st =
            Return (if fails then - 1 else 0, fs') st \<and>
          frames fs' = frames fs + length frs \<and>
          take (frames fs') (frame fs') = take (frames fs) (frame fs) @ frs \<and>
          length (frame fs') = allocated fs' \<and> frames fs' < allocated fs' \<and>
          (\<exists>j. allocated fs' = allocated fs * 2 ^ j) \<and>
          allocated fs' \<le> max (allocated fs) (2 * frames fs')"
proof (induction frs arbitrary: fs)
  case Nil
  then show ?case by (auto intro: exI [of _ 0])
next
  case (Cons f frs)
  have dbl: "Suc (frames fs) = allocated fs \<Longrightarrow> allocated fs * 2 \<le> INT_MAX"
    using Cons.prems(5) by simp
  have "\<exists>fs1. frame_callback e cfg (Some f) fs st = Return (DWARF_CB_OK, fs1) st \<and>
     frames fs1 = Suc (frames fs) \<and>
     take (frames fs1) (frame fs1) = take (frames fs) (frame fs) @ [f] \<and>
     length (frame fs1) = allocated fs1 \<and> frames fs1 < allocated fs1 \<and>
     allocated fs1 = (if Suc (frames fs) = allocated fs then allocated fs * 2 else allocated fs)"
  proof (cases "Suc (frames fs) = allocated fs")
    case True
    then show ?thesis
      using Cons.prems dbl by (intro frame_callback_unbounded) auto
  next
    case False
    let ?fs1 = "fs\<lparr>frame := (frame fs)[frames fs := f], frames := Suc (frames fs)\<rparr>"
    have "frame_callback e cfg (Some f) fs st = Return (DWARF_CB_OK, ?fs1) st"
      using Cons.prems False by (simp add: frame_callback_def Let_def)
    moreover have "take (Suc (frames fs)) (frame ?fs1) = take (frames fs) (frame fs) @ [f]"
      using Cons.prems by (simp add: take_Suc_update)
    ultimately show ?thesis
      using Cons.prems False by (intro exI [of _ ?fs1]) simp
  qed
  then obtain fs1 where fs1:
    "frame_callback e cfg (Some f) fs st = Return (DWARF_CB_OK, fs1) st"
    "frames fs1 = Suc (frames fs)"
    "take (frames fs1) (frame fs1) = take (frames fs) (frame fs) @ [f]"
    "length (frame fs1) = allocated fs1" "frames fs1 < allocated fs1"
    "allocated fs1 = (if Suc (frames fs) = allocated fs then allocated fs * 2 else allocated fs)"
    by blast
  have "2 * (frames fs1 + length frs) \<le> INT_MAX"
    using Cons.prems(5) fs1(2) by simp
  then obtain fs' where fs':
    "getframes_loop e cfg (map Some frs) fails fs1 st = Return (if fails then - 1 else 0, fs') st"
    "frames fs' = frames fs1 + length frs"
    "take (frames fs') (frame fs') = take (frames fs1) (frame fs1) @ frs"
    "length (frame fs') = allocated fs'" "frames fs' < allocated fs'"
    "\<exists>j. allocated fs' = allocated fs1 * 2 ^ j"
    "allocated fs' \<le> max (allocated fs1) (2 * frames fs')"
    using Cons.IH [of fs1] Cons.prems(1,2) fs1(4,5) by blast
  have res: "getframes_loop e cfg (map Some (f # frs)) fails fs st =
      Return (if fails then - 1 else 0, fs') st"
    using fs1(1) fs'(1) by (simp add: DWARF_CB_OK_def)
  have cnt: "frames fs' = frames fs + length (f # frs)"
    using fs'(2) fs1(2) by simp
  have cap: "take (frames fs') (frame fs') = take (frames fs) (frame fs) @ f # frs"
    using fs'(3) fs1(3) by simp
  obtain j where j: "allocated fs' = allocated fs1 * 2 ^ j"
    using fs'(6) by blast
  have pow: "\<exists>j. allocated fs' = allocated fs * 2 ^ j"
  proof (cases "Suc (frames fs) = allocated fs")
    case True
    then have "allocated fs' = allocated fs * 2 ^ Suc j" using j fs1(6) by simp
    then show ?thesis by blast
  next
    case False
    then show ?thesis using j fs1(6) by auto
  qed
  have bound: "allocated fs' \<le> max (allocated fs) (2 * frames fs')"
    using fs'(7) fs1(6) fs1(2) fs'(2) by (auto split: if_splits)
  show ?case
    using res cnt cap fs'(4,5) pow bound by blast
qed

subsection \<open>Printing the frames of a thread\<close>

lemma print_inline_frames_lines:
  "dwarf_getscopes_die e die = scope0 # scopes \<Longrightarrow>
   \<exists>ls. stdout (snd (print_inline_frames e cfg nr pc0 isact pca md symname cudie die st)) =
          stdout st @ map Frame_Line ls \<and>
        fst (print_inline_frames e cfg nr pc0 isact pca md symname cudie die st) =
          nr + length ls \<and>
        length ls = 1 + ceiling_left cfg (nr + 1) (length (expansion scopes)) \<and>
        map l_nr ls = [nr ..< nr + length ls] \<and>
        map l_pc ls = replicate (length ls) pc0 \<and>
        map l_symname ls =
          shown_name e cfg symname #
          map (\<lambda>s. shown_name e cfg (die_name s)) (take (length ls - 1) (expansion scopes))"
proof -
  assume sc: "dwarf_getscopes_die e die = scope0 # scopes"
  let ?st1 = "print_frame e cfg nr pc0 isact pca md symname None None st"
  let ?r = "inline_loop e cfg pc0 isact pca md cudie scope0 scopes (nr + 1) ?st1"
  have unf: "print_inline_frames e cfg nr pc0 isact pca md symname cudie die st = ?r"
    using sc by (simp add: print_inline_frames_def)
  obtain l where l: "stdout ?st1 = stdout st @ [Frame_Line l]" "l_nr l = nr" "l_pc l = pc0"
    "l_symname l = shown_name e cfg symname"
    using print_frame_line [of e cfg nr pc0 isact pca md symname None None st] by blast
  obtain ls where ls:
    "stdout (snd ?r) = stdout ?st1 @ map Frame_Line ls"
    "fst ?r = nr + 1 + length ls"
    "length ls = ceiling_left cfg (nr + 1) (length (expansion scopes))"
    "map l_nr ls = [nr + 1 ..< nr + 1 + length ls]"
    "map l_pc ls = replicate (length ls) pc0"
    "map l_symname ls =
       map (\<lambda>s. shown_name e cfg (die_name s)) (take (length ls) (expansion scopes))"
    using inline_loop_lines [of e cfg pc0 isact pca md cudie scope0 scopes "nr + 1" ?st1]
    by blast
  have out: "stdout (snd ?r) = stdout st @ map Frame_Line (l # ls)"
    using ls(1) l(1) by simp
  have cnt: "fst ?r = nr + length (l # ls)"
    using ls(2) by simp
  have len: "length (l # ls) = 1 + ceiling_left cfg (nr + 1) (length (expansion scopes))"
    using ls(3) by simp
  have nrs: "map l_nr (l # ls) = [nr ..< nr + length (l # ls)]"
  proof -
    have "[nr ..< nr + length (l # ls)] = nr # [nr + 1 ..< nr + 1 + length ls]"
      by (simp add: upt_conv_Cons del: upt_Suc)
    then show ?thesis using l(2) ls(4) by simp
  qed
  have pcs: "map l_pc (l # ls) = replicate (length (l # ls)) pc0"
    using l(3) ls(5) by simp
  have names: "map l_symname (l # ls) =
      shown_name e cfg symname #
      map (\<lambda>s. shown_name e cfg (die_name s)) (take (length (l # ls) - 1) (expansion scopes))"
    using l(4) ls(6) by simp
  show ?thesis
    unfolding unf by (rule exI [of _ "l # ls"]) (intro conjI out cnt len nrs pcs names)
qed

lemma print_inline_frames_fields:
  "frames_shown (snd (print_inline_frames e cfg nr pc0 isact pca md symname cudie die st)) =
     frames_shown st \<and>
   error_message_count (snd (print_inline_frames e cfg nr pc0 isact pca md symname cudie die st)) =
     error_message_count st \<and>
   stderr (snd (print_inline_frames e cfg nr pc0 isact pca md symname cudie die st)) = stderr st"
  by (simp add: print_inline_frames_def inline_loop_fields print_frame_fields Let_def
      split: list.splits)

lemma print_frames_body_fields:
  "frames_shown (snd (print_frames_body e cfg f nr st)) = frames_shown st \<and>
   error_message_count (snd (print_frames_body e cfg f nr st)) = error_message_count st \<and>
   stderr (snd (print_frames_body e cfg f nr st)) = stderr st"
  by (simp add: print_frames_body_def Let_def print_inline_frames_fields print_frame_fields
      split: option.splits)

lemma ceiling_left_le:
  "maxframes cfg \<noteq> 0 \<Longrightarrow> nr \<le> maxframes cfg \<Longrightarrow> nr + ceiling_left cfg nr n \<le> maxframes cfg"
  by (simp add: ceiling_left_def)

lemma print_frames_body_lines:
  "\<exists>ls. stdout (snd (print_frames_body e cfg f nr st)) = stdout st @ map Frame_Line ls \<and>
        fst (print_frames_body e cfg f nr st) = nr + length ls \<and>
        (renders e cfg f \<longrightarrow> ls \<noteq> []) \<and>
        (maxframes cfg \<noteq> 0 \<longrightarrow> nr < maxframes cfg \<longrightarrow> nr + length ls \<le> maxframes cfg) \<and>
        map l_pc ls = replicate (length ls) (pc f)"
proof (cases "if show_inlines cfg then r_die (resolve e cfg f) else None")
  case None
  let ?r = "resolve e cfg f"
  obtain l where l:
    "stdout (print_frame e cfg nr (pc f) (isactivation f) (r_pc_adjusted ?r) (r_mod ?r)
       (r_symname ?r) None None st) = stdout st @ [Frame_Line l]" "l_pc l = pc f"
    using print_frame_line by blast
  show ?thesis
    using None l
    by (intro exI [of _ "[l]"]) (simp add: print_frames_body_def Let_def)
next
  case (Some die)
  let ?r = "resolve e cfg f"
  have unf: "print_frames_body e cfg f nr st =
      print_inline_frames e cfg nr (pc f) (isactivation f) (r_pc_adjusted ?r) (r_mod ?r)
        (r_symname ?r) (r_cudie ?r) die st"
    using Some by (simp add: print_frames_body_def Let_def)
  show ?thesis
  proof (cases "dwarf_getscopes_die e die")
    case Nil
    then have "print_frames_body e cfg f nr st = (nr, st)"
      unfolding unf by (simp add: print_inline_frames_def)
    moreover have "\<not> renders e cfg f"
      using Some Nil by (simp add: renders_def)
    ultimately show ?thesis
      by (intro exI [of _ "[]"]) simp
  next
    case (Cons scope0 scopes)
    obtain ls where ls:
      "stdout (snd (print_inline_frames e cfg nr (pc f) (isactivation f) (r_pc_adjusted ?r)
         (r_mod ?r) (r_symname ?r) (r_cudie ?r) die st)) = stdout st @ map Frame_Line ls"
      "fst (print_inline_frames e cfg nr (pc f) (isactivation f) (r_pc_adjusted ?r)
         (r_mod ?r) (r_symname ?r) (r_cudie ?r) die st) = nr + length ls"
      "length ls = 1 + ceiling_left cfg (nr + 1) (length (expansion scopes))"
      "map l_pc ls = replicate (length ls) (pc f)"
      using print_inline_frames_lines [OF Cons] by blast
    have ne: "ls \<noteq> []" using ls(3) by auto
    have le: "maxframes cfg \<noteq> 0 \<Longrightarrow> nr < maxframes cfg \<Longrightarrow> nr + length ls \<le> maxframes cfg"
      using ls(3) ceiling_left_le [of cfg "nr + 1" "length (expansion scopes)"] by simp
    show ?thesis
      unfolding unf using ls(1,2,4) ne le by blast
  qed
qed

lemma print_frames_loop_fields:
  "frames_shown (snd (print_frames_loop e cfg fs nr st)) = frames_shown st \<and>
   error_message_count (snd (print_frames_loop e cfg fs nr st)) = error_message_count st \<and>
   stderr (snd (print_frames_loop e cfg fs nr st)) = stderr st"
proof (induction fs arbitrary: nr st)
  case Nil
  show ?case by simp
next
  case (Cons f fs)
  obtain nr1 st1 where b: "print_frames_body e cfg f nr st = (nr1, st1)"
    by (cases "print_frames_body e cfg f nr st")
  have "frames_shown st1 = frames_shown st \<and> error_message_count st1 = error_message_count st \<and>
      stderr st1 = stderr st"
    using print_frames_body_fields [of e cfg f nr st] b by simp
  then show ?case
    using Cons.IH [of nr1 st1] b by simp
qed

lemma print_frames_loop_lines:
  "\<exists>ls. stdout (snd (print_frames_loop e cfg fs nr st)) = stdout st @ map Frame_Line ls \<and>
        fst (print_frames_loop e cfg fs nr st) = nr + length ls \<and>
        (maxframes cfg \<noteq> 0 \<longrightarrow> nr \<le> maxframes cfg \<longrightarrow> nr + length ls \<le> maxframes cfg) \<and>
        ((\<forall>f \<in> set fs. renders e cfg f) \<longrightarrow>
           (if maxframes cfg = 0 then length fs else min (length fs) (maxframes cfg - nr))
             \<le> length ls) \<and>
        set (map l_pc ls) \<subseteq> pc ` set fs"
proof (induction fs arbitrary: nr st)
  case Nil
  show ?case by simp
next
  case (Cons f fs)
  show ?case
  proof (cases "maxframes cfg = 0 \<or> nr < maxframes cfg")
    case False
    then show ?thesis by (intro exI [of _ "[]"]) simp
  next
    case guard: True
    obtain nr1 st1 where b: "print_frames_body e cfg f nr st = (nr1, st1)"
      by (cases "print_frames_body e cfg f nr st")
    obtain l1 where l1:
      "stdout st1 = stdout st @ map Frame_Line l1" "nr1 = nr + length l1"
      "renders e cfg f \<longrightarrow> l1 \<noteq> []"
      "maxframes cfg \<noteq> 0 \<longrightarrow> nr < maxframes cfg \<longrightarrow> nr + length l1 \<le> maxframes cfg"
      "map l_pc l1 = replicate (length l1) (pc f)"
      using print_frames_body_lines [of e cfg f nr st] b by auto
    obtain l2 where l2:
      "stdout (snd (print_frames_loop e cfg fs nr1 st1)) = stdout st1 @ map Frame_Line l2"
      "fst (print_frames_loop e cfg fs nr1 st1) = nr1 + length l2"
      "maxframes cfg \<noteq> 0 \<longrightarrow> nr1 \<le> maxframes cfg \<longrightarrow> nr1 + length l2 \<le> maxframes cfg"
      "(\<forall>f \<in> set fs. renders e cfg f) \<longrightarrow>
         (if maxframes cfg = 0 then length fs else min (length fs) (maxframes cfg - nr1))
           \<le> length l2"
      "set (map l_pc l2) \<subseteq> pc ` set fs"
      using Cons.IH [of nr1 st1] by blast
    have unf: "print_frames_loop e cfg (f # fs) nr st = print_frames_loop e cfg fs nr1 st1"
      using guard b by simp
    have out: "stdout (snd (print_frames_loop e cfg (f # fs) nr st)) =
        stdout st @ map Frame_Line (l1 @ l2)"
      unfolding unf using l1(1) l2(1) by simp
    have cnt: "fst (print_frames_loop e cfg (f # fs) nr st) = nr + length (l1 @ l2)"
      unfolding unf using l1(2) l2(2) by simp
    have le: "maxframes cfg \<noteq> 0 \<longrightarrow> nr \<le> maxframes cfg \<longrightarrow>
        nr + length (l1 @ l2) \<le> maxframes cfg"
      using guard l1(2,4) l2(3) by auto
    have ge: "(\<forall>f \<in> set (f # fs). renders e cfg f) \<longrightarrow>
        (if maxframes cfg = 0 then length (f # fs)
         else min (length (f # fs)) (maxframes cfg - nr)) \<le> length (l1 @ l2)"
    proof
      assume all: "\<forall>f \<in> set (f # fs). renders e cfg f"
      then have "l1 \<noteq> []" using l1(3) by simp
      then have pos: "1 \<le> length l1" by (cases l1) simp_all
      have rest: "(if maxframes cfg = 0 then length fs
                   else min (length fs) (maxframes cfg - nr1)) \<le> length l2"
        using all l2(4) by simp
      show "(if maxframes cfg = 0 then length (f # fs)
             else min (length (f # fs)) (maxframes cfg - nr)) \<le> length (l1 @ l2)"
        using pos rest l1(2) by (auto split: if_splits)
    qed
    have pcs: "set (map l_pc (l1 @ l2)) \<subseteq> pc ` set (f # fs)"
    proof -
      have "set (map l_pc l1) \<subseteq> {pc f}"
        using l1(5) by (metis set_replicate_conv_if empty_subsetI subset_refl)
      then show ?thesis using l2(5) by auto
    qed
    show ?thesis
      using out cnt le ge pcs by blast
  qed
qed

lemma frame_lines_Tid: "frame_lines (xs @ Tid_Header t # map Frame_Line ls) = frame_lines xs @ ls"
  by (simp add: frame_lines_append frame_lines_map)

lemma print_frames_effect:
  "\<exists>ls ds.
     stdout (print_frames e cfg fs tid0 dwflerr what st) =
       stdout st @ Tid_Header tid0 # map Frame_Line ls \<and>
     stderr (print_frames e cfg fs tid0 dwflerr what st) = stderr st @ ds \<and>
     error_message_count (print_frames e cfg fs tid0 dwflerr what st) =
       error_message_count st + length ds \<and>
     frames_shown (print_frames e cfg fs tid0 dwflerr what st) =
       (frames_shown st \<or> 0 < frames fs) \<and>
     length ds \<le> 1 \<and> (\<forall>d \<in> set ds. \<not> fatal d) \<and>
     (0 < frames fs \<and> length ls = maxframes cfg \<longrightarrow> ds = [Max_Frames tid0 (maxframes cfg)]) \<and>
     (dwflerr = 0 \<and> \<not> (0 < frames fs \<and> length ls = maxframes cfg) \<longrightarrow> ds = []) \<and>
     (maxframes cfg \<noteq> 0 \<longrightarrow> length ls \<le> maxframes cfg) \<and>
     ((\<forall>f \<in> set (take (frames fs) (frame fs)). renders e cfg f) \<longrightarrow>
        (if maxframes cfg = 0 then length (take (frames fs) (frame fs))
         else min (length (take (frames fs) (frame fs))) (maxframes cfg)) \<le> length ls) \<and>
     set (map l_pc ls) \<subseteq> pc ` set (take (frames fs) (frame fs))"
proof -
  let ?st1 = "if 0 < frames fs then st\<lparr>frames_shown := True\<rparr> else st"
  let ?st2 = "printf (Tid_Header tid0) ?st1"
  let ?caps = "take (frames fs) (frame fs)"
  let ?r = "print_frames_loop e cfg ?caps 0 ?st2"
  obtain ls where ls:
    "stdout (snd ?r) = stdout ?st2 @ map Frame_Line ls"
    "fst ?r = 0 + length ls"
    "maxframes cfg \<noteq> 0 \<longrightarrow> 0 \<le> maxframes cfg \<longrightarrow> 0 + length ls \<le> maxframes cfg"
    "(\<forall>f \<in> set ?caps. renders e cfg f) \<longrightarrow>
       (if maxframes cfg = 0 then length ?caps else min (length ?caps) (maxframes cfg - 0))
         \<le> length ls"
    "set (map l_pc ls) \<subseteq> pc ` set ?caps"
    using print_frames_loop_lines [of e cfg ?caps 0 ?st2] by blast
  have fld: "frames_shown (snd ?r) = frames_shown ?st2"
    "error_message_count (snd ?r) = error_message_count ?st2" "stderr (snd ?r) = stderr ?st2"
    using print_frames_loop_fields [of e cfg ?caps 0 ?st2] by simp_all
  have st2: "stdout ?st2 = stdout st @ [Tid_Header tid0]" "stderr ?st2 = stderr st"
    "error_message_count ?st2 = error_message_count st"
    "frames_shown ?st2 = (frames_shown st \<or> 0 < frames fs)"
    by (simp_all add: printf_def)
  obtain nr st3 where r: "?r = (nr, st3)" by (cases ?r)
  have st3: "stdout st3 = stdout st @ Tid_Header tid0 # map Frame_Line ls"
    "stderr st3 = stderr st" "error_message_count st3 = error_message_count st"
    "frames_shown st3 = (frames_shown st \<or> 0 < frames fs)" "nr = length ls"
    using ls(1,2) fld st2 r by simp_all
  let ?res = "print_frames e cfg fs tid0 dwflerr what st"
  have pf: "?res =
     (if 0 < frames fs \<and> nr = maxframes cfg then
        error_msg (Max_Frames tid0 (maxframes cfg)) st3
      else if dwflerr \<noteq> 0 then
        (if 0 < frames fs then
           (let n = frames fs - 1;
                pc_adjusted = pc_adjust (frame fs ! n);
                md = dwfl_addrmodule e pc_adjusted;
                mainfile = (case md of None \<Rightarrow> None | Some m \<Rightarrow> m_mainfile m);
                modname = (case md of None \<Rightarrow> None | Some m \<Rightarrow> m_name m);
                modname1 = (if modname = None \<or> modname = Some [] then
                              (case mainfile of Some mf \<Rightarrow> mf | None \<Rightarrow> ''<unknown>'')
                            else the modname)
            in error_msg (Unwind_Error_At what tid0 pc_adjusted modname1 dwflerr) st3)
         else error_msg (Unwind_Error what tid0 dwflerr) st3)
      else st3)"
    using r by (simp add: print_frames_def Let_def)
  have "\<exists>ds. stderr ?res = stderr st3 @ ds \<and>
      error_message_count ?res = error_message_count st3 + length ds \<and>
      stdout ?res = stdout st3 \<and> frames_shown ?res = frames_shown st3 \<and>
      length ds \<le> 1 \<and> (\<forall>d \<in> set ds. \<not> fatal d) \<and>
      (0 < frames fs \<and> nr = maxframes cfg \<longrightarrow> ds = [Max_Frames tid0 (maxframes cfg)]) \<and>
      (dwflerr = 0 \<and> \<not> (0 < frames fs \<and> nr = maxframes cfg) \<longrightarrow> ds = [])"
    unfolding pf by (simp add: error_msg_def Let_def)
  then obtain ds where ds: "stderr ?res = stderr st3 @ ds"
      "error_message_count ?res = error_message_count st3 + length ds"
      "stdout ?res = stdout st3" "frames_shown ?res = frames_shown st3"
      "length ds \<le> 1" "\<forall>d \<in> set ds. \<not> fatal d"
      "0 < frames fs \<and> nr = maxframes cfg \<longrightarrow> ds = [Max_Frames tid0 (maxframes cfg)]"
      "dwflerr = 0 \<and> \<not> (0 < frames fs \<and> nr = maxframes cfg) \<longrightarrow> ds = []"
    by blast
  show ?thesis
    apply (rule exI [of _ ls])
    apply (rule exI [of _ ds])
    using ds st3 ls(3,4,5) by (auto split: if_splits)
qed

subsection \<open>A thread under a ceiling\<close>

lemma thread_callback_bounded:
  assumes "0 < maxframes cfg" "states t = map Some frs"
    and "allocated fs = maxframes cfg" "length (frame fs) = maxframes cfg"
  shows "\<exists>fs'. dwfl_thread_getframes e cfg t (fs\<lparr>frames := 0\<rparr>) st =
           Return (if maxframes cfg \<le> length frs then DWARF_CB_ABORT
                   else if unwind_fails t then - 1 else 0, fs') st \<and>
         frames fs' = min (length frs) (maxframes cfg) \<and>
         take (frames fs') (frame fs') = take (maxframes cfg) frs \<and>
         allocated fs' = maxframes cfg \<and> length (frame fs') = maxframes cfg \<and>
         thread_callback e cfg t fs st =
           Return (DWARF_CB_OK, fs')
             (print_frames e cfg fs' (tid t)
                (if maxframes cfg \<le> length frs then 0
                 else if unwind_fails t then thread_errno t else 0)
                ''dwfl_thread_getframes'' st)"
proof -
  let ?fs0 = "fs\<lparr>frames := 0\<rparr>"
  obtain fs' where fs':
    "getframes_loop e cfg (map Some frs) (unwind_fails t) ?fs0 st =
       Return (if maxframes cfg \<le> frames ?fs0 + length frs then DWARF_CB_ABORT
               else if unwind_fails t then - 1 else 0, fs') st"
    "frames fs' = min (frames ?fs0 + length frs) (maxframes cfg)"
    "take (frames fs') (frame fs') =
       take (frames ?fs0) (frame ?fs0) @ take (maxframes cfg - frames ?fs0) frs"
    "allocated fs' = maxframes cfg" "length (frame fs') = maxframes cfg"
    using getframes_bounded [of ?fs0 cfg e frs "unwind_fails t" st] assms by auto
  have g: "dwfl_thread_getframes e cfg t ?fs0 st =
      Return (if maxframes cfg \<le> length frs then DWARF_CB_ABORT
              else if unwind_fails t then - 1 else 0, fs') st"
    using fs'(1) assms(2) by (simp add: dwfl_thread_getframes_def)
  have tc: "thread_callback e cfg t fs st =
      Return (DWARF_CB_OK, fs')
        (print_frames e cfg fs' (tid t)
           (if maxframes cfg \<le> length frs then 0
            else if unwind_fails t then thread_errno t else 0)
           ''dwfl_thread_getframes'' st)"
    unfolding thread_callback_def g
    by (simp add: DWARF_CB_OK_def DWARF_CB_ABORT_def)
  show ?thesis
    apply (rule exI [of _ fs'])
    using g tc fs'(2,3,4,5) by simp
qed

lemma print_frames_ceiling:
  assumes "0 < maxframes cfg" "frames fs = maxframes cfg" "length (frame fs) = maxframes cfg"
    and "\<forall>f \<in> set (take (frames fs) (frame fs)). renders e cfg f"
  shows "stderr (print_frames e cfg fs tid0 dwflerr what st) =
           stderr st @ [Max_Frames tid0 (maxframes cfg)] \<and>
         error_message_count (print_frames e cfg fs tid0 dwflerr what st) =
           error_message_count st + 1 \<and>
         frames_shown (print_frames e cfg fs tid0 dwflerr what st)"
proof -
  obtain ls :: "frame_line list" and ds where e:
    "stderr (print_frames e cfg fs tid0 dwflerr what st) = stderr st @ ds"
    "error_message_count (print_frames e cfg fs tid0 dwflerr what st) =
       error_message_count st + length ds"
    "frames_shown (print_frames e cfg fs tid0 dwflerr what st) =
       (frames_shown st \<or> 0 < frames fs)"
    "0 < frames fs \<and> length ls = maxframes cfg \<longrightarrow> ds = [Max_Frames tid0 (maxframes cfg)]"
    "maxframes cfg \<noteq> 0 \<longrightarrow> length ls \<le> maxframes cfg"
    "(\<forall>f \<in> set (take (frames fs) (frame fs)). renders e cfg f) \<longrightarrow>
        (if maxframes cfg = 0 then length (take (frames fs) (frame fs))
         else min (length (take (frames fs) (frame fs))) (maxframes cfg)) \<le> length ls"
    using print_frames_effect [of e cfg fs tid0 dwflerr what st]
    by (elim exE conjE) (rule that; assumption)
  have "length ls = maxframes cfg"
    using e(5,6) assms by simp
  then have "ds = [Max_Frames tid0 (maxframes cfg)]"
    using e(4) assms by simp
  then show ?thesis using e(1,2,3) assms by simp
qed

subsection \<open>The scopes of an inline expansion\<close>

lemma expansion_all:
  "list_all (\<lambda>s. dwarf_tag s = DW_TAG_inlined_subroutine \<or> dwarf_tag s = DW_TAG_entry_point)
     (butlast scopes) \<Longrightarrow>
   function_like (dwarf_tag (last scopes)) \<Longrightarrow> expansion scopes = scopes"
proof (induction scopes)
  case Nil
  show ?case by simp
next
  case (Cons s ss)
  show ?case
  proof (cases ss)
    case Nil
    then show ?thesis using Cons.prems by simp
  next
    case (Cons s' ss')
    then show ?thesis
      using Cons.prems Cons.IH by (auto simp: function_like_def)
  qed
qed

subsection \<open>Resolving a frame\<close>

lemma scopes_loop_find:
  "scopes_loop ss =
     (case find (\<lambda>d. function_like (dwarf_tag d) \<and> die_name d \<noteq> None) ss of
        Some d \<Rightarrow> (die_name d, Some d)
      | None \<Rightarrow> (None, None))"
  by (induction ss) (auto simp: Let_def)

lemma print_frames_body_first:
  "\<exists>ls. stdout (snd (print_frames_body e cfg f nr st)) = stdout st @ map Frame_Line ls \<and>
        (case ls of
           [] \<Rightarrow> True
         | l # ls' \<Rightarrow>
             l_pc l = pc f \<and> l_symname l = shown_name e cfg (r_symname (resolve e cfg f)) \<and>
             l_source l =
               (if show_source cfg
                then frame_source e (r_pc_adjusted (resolve e cfg f)) (r_mod (resolve e cfg f))
                       None None
                else None))"
proof (cases "if show_inlines cfg then r_die (resolve e cfg f) else None")
  case None
  let ?r = "resolve e cfg f"
  obtain l where l:
    "stdout (print_frame e cfg nr (pc f) (isactivation f) (r_pc_adjusted ?r) (r_mod ?r)
       (r_symname ?r) None None st) = stdout st @ [Frame_Line l]" "l_pc l = pc f"
    "l_symname l = shown_name e cfg (r_symname ?r)"
    "l_source l = (if show_source cfg
       then frame_source e (r_pc_adjusted ?r) (r_mod ?r) None None else None)"
    using print_frame_line by blast
  show ?thesis
    using None l
    by (intro exI [of _ "[l]"]) (simp add: print_frames_body_def Let_def)
next
  case (Some die)
  let ?r = "resolve e cfg f"
  have unf: "print_frames_body e cfg f nr st =
      print_inline_frames e cfg nr (pc f) (isactivation f) (r_pc_adjusted ?r) (r_mod ?r)
        (r_symname ?r) (r_cudie ?r) die st"
    using Some by (simp add: print_frames_body_def Let_def)
  show ?thesis
  proof (cases "dwarf_getscopes_die e die")
    case Nil
    then have "print_frames_body e cfg f nr st = (nr, st)"
      unfolding unf by (simp add: print_inline_frames_def)
    then show ?thesis
      by (intro exI [of _ "[]"]) simp
  next
    case (Cons scope0 scopes)
    let ?st1 = "print_frame e cfg nr (pc f) (isactivation f) (r_pc_adjusted ?r) (r_mod ?r)
       (r_symname ?r) None None st"
    obtain l where l:
      "stdout ?st1 = stdout st @ [Frame_Line l]" "l_pc l = pc f"
      "l_symname l = shown_name e cfg (r_symname ?r)"
      "l_source l = (if show_source cfg
         then frame_source e (r_pc_adjusted ?r) (r_mod ?r) None None else None)"
      using print_frame_line by blast
    obtain ls where ls:
      "stdout (snd (inline_loop e cfg (pc f) (isactivation f) (r_pc_adjusted ?r) (r_mod ?r)
         (r_cudie ?r) scope0 scopes (nr + 1) ?st1)) = stdout ?st1 @ map Frame_Line ls"
      using inline_loop_lines by blast
    have "stdout (snd (print_frames_body e cfg f nr st)) = stdout st @ map Frame_Line (l # ls)"
      unfolding unf using Cons l(1) ls by (simp add: print_inline_frames_def)
    then show ?thesis
      using l(2,3,4) by (intro exI [of _ "l # ls"]) simp
  qed
qed

subsection \<open>The walk over the threads under a ceiling\<close>

lemma getframes_bounded_any:
  "\<lbrakk>allocated fs = maxframes cfg; length (frame fs) = maxframes cfg;
    frames fs < maxframes cfg\<rbrakk> \<Longrightarrow>
   \<exists>rc fs'. getframes_loop e cfg ss fails fs st = Return (rc, fs') st \<and>
     (rc = - 1 \<or> rc = DWARF_CB_OK \<or> rc = DWARF_CB_ABORT) \<and>
     allocated fs' = maxframes cfg \<and> length (frame fs') = maxframes cfg \<and>
     frames fs' \<le> maxframes cfg"
proof (induction ss arbitrary: fs)
  case Nil
  then show ?case by (simp add: DWARF_CB_OK_def)
next
  case (Cons s ss)
  show ?case
  proof (cases s)
    case None
    then show ?thesis
      using Cons.prems by (simp add: frame_callback_def DWARF_CB_OK_def)
  next
    case (Some f)
    let ?fs1 = "fs\<lparr>frame := (frame fs)[frames fs := f], frames := Suc (frames fs)\<rparr>"
    have step: "frame_callback e cfg (Some f) fs st =
        Return (if Suc (frames fs) = maxframes cfg then DWARF_CB_ABORT else DWARF_CB_OK, ?fs1) st"
      using Cons.prems by (rule frame_callback_bounded)
    show ?thesis
    proof (cases "Suc (frames fs) = maxframes cfg")
      case True
      then show ?thesis
        using Some step Cons.prems
        by (simp add: DWARF_CB_OK_def DWARF_CB_ABORT_def)
    next
      case False
      then have "frames ?fs1 < maxframes cfg" using Cons.prems by simp
      then obtain rc fs' where r:
        "getframes_loop e cfg ss fails ?fs1 st = Return (rc, fs') st"
        "rc = - 1 \<or> rc = DWARF_CB_OK \<or> rc = DWARF_CB_ABORT"
        "allocated fs' = maxframes cfg" "length (frame fs') = maxframes cfg"
        "frames fs' \<le> maxframes cfg"
        using Cons.IH [of ?fs1] Cons.prems by auto
      have "getframes_loop e cfg (s # ss) fails fs st = Return (rc, fs') st"
        using Some step False r(1) by (simp add: DWARF_CB_OK_def)
      then show ?thesis using r(2-5) by blast
    qed
  qed
qed

lemma thread_callback_bounded_any:
  assumes "0 < maxframes cfg" "allocated fs = maxframes cfg" "length (frame fs) = maxframes cfg"
  shows "\<exists>fs' err. thread_callback e cfg t fs st =
           Return (DWARF_CB_OK, fs') (print_frames e cfg fs' (tid t) err ''dwfl_thread_getframes'' st) \<and>
         allocated fs' = maxframes cfg \<and> length (frame fs') = maxframes cfg"
proof -
  let ?fs0 = "fs\<lparr>frames := 0\<rparr>"
  obtain rc fs' where r:
    "getframes_loop e cfg (states t) (unwind_fails t) ?fs0 st = Return (rc, fs') st"
    "rc = - 1 \<or> rc = DWARF_CB_OK \<or> rc = DWARF_CB_ABORT"
    "allocated fs' = maxframes cfg" "length (frame fs') = maxframes cfg"
    using getframes_bounded_any [of ?fs0 cfg e "states t" "unwind_fails t" st] assms by auto
  have "\<exists>err. thread_callback e cfg t fs st =
      Return (DWARF_CB_OK, fs') (print_frames e cfg fs' (tid t) err ''dwfl_thread_getframes'' st)"
    using r(1,2) by (auto simp: thread_callback_def dwfl_thread_getframes_def)
  then show ?thesis using r(3,4) by blast
qed

lemma print_frames_mono:
  "\<exists>ds. stderr (print_frames e cfg fs tid0 dwflerr what st) = stderr st @ ds \<and>
         error_message_count (print_frames e cfg fs tid0 dwflerr what st) =
           error_message_count st + length ds"
  "frames_shown st \<Longrightarrow> frames_shown (print_frames e cfg fs tid0 dwflerr what st)"
  using print_frames_effect [of e cfg fs tid0 dwflerr what st] by auto

lemma getthreads_bounded:
  assumes "0 < maxframes cfg"
  shows "\<lbrakk>allocated fs = maxframes cfg; length (frame fs) = maxframes cfg\<rbrakk> \<Longrightarrow>
   \<exists>rc fs' st' ds. getthreads_loop e cfg ts fs st = Return (rc, fs') st' \<and>
     (rc = 0 \<or> rc = - 1) \<and>
     stderr st' = stderr st @ ds \<and>
     error_message_count st' = error_message_count st + length ds \<and>
     (frames_shown st \<longrightarrow> frames_shown st') \<and>
     (\<forall>t \<in> set ts. \<forall>frs. states t = map Some frs \<and> maxframes cfg \<le> length frs \<and>
          (\<forall>f \<in> set (take (maxframes cfg) frs). renders e cfg f) \<longrightarrow>
        frames_shown st' \<and> Max_Frames (tid t) (maxframes cfg) \<in> set ds)"
proof (induction ts arbitrary: fs st)
  case Nil
  then show ?case by simp
next
  case (Cons t ts)
  obtain fs1 err where t1:
    "thread_callback e cfg t fs st =
       Return (DWARF_CB_OK, fs1) (print_frames e cfg fs1 (tid t) err ''dwfl_thread_getframes'' st)"
    "allocated fs1 = maxframes cfg" "length (frame fs1) = maxframes cfg"
    using thread_callback_bounded_any [OF assms Cons.prems, of e t st] by blast
  let ?st1 = "print_frames e cfg fs1 (tid t) err ''dwfl_thread_getframes'' st"
  obtain d1 where d1: "stderr ?st1 = stderr st @ d1"
    "error_message_count ?st1 = error_message_count st + length d1"
    using print_frames_mono(1) by blast
  have sh1: "frames_shown st \<longrightarrow> frames_shown ?st1"
    using print_frames_mono(2) by blast
  obtain rc fs' st' d2 where r:
    "getthreads_loop e cfg ts fs1 ?st1 = Return (rc, fs') st'" "rc = 0 \<or> rc = - 1"
    "stderr st' = stderr ?st1 @ d2"
    "error_message_count st' = error_message_count ?st1 + length d2"
    "frames_shown ?st1 \<longrightarrow> frames_shown st'"
    "\<forall>t \<in> set ts. \<forall>frs. states t = map Some frs \<and> maxframes cfg \<le> length frs \<and>
          (\<forall>f \<in> set (take (maxframes cfg) frs). renders e cfg f) \<longrightarrow>
        frames_shown st' \<and> Max_Frames (tid t) (maxframes cfg) \<in> set d2"
    using Cons.IH [OF t1(2,3), of ?st1] by blast
  have res: "getthreads_loop e cfg (t # ts) fs st = Return (rc, fs') st'"
    using t1(1) r(1) by simp
  have err: "stderr st' = stderr st @ (d1 @ d2)"
    "error_message_count st' = error_message_count st + length (d1 @ d2)"
    using d1 r(3,4) by simp_all
  have sh: "frames_shown st \<longrightarrow> frames_shown st'"
    using sh1 r(5) by blast
  have this_thread: "frames_shown st' \<and> Max_Frames (tid t) (maxframes cfg) \<in> set (d1 @ d2)"
    if g: "states t = map Some frs" "maxframes cfg \<le> length frs"
      "\<forall>f \<in> set (take (maxframes cfg) frs). renders e cfg f" for frs
  proof -
    obtain fs2 where fs2:
      "frames fs2 = min (length frs) (maxframes cfg)"
      "take (frames fs2) (frame fs2) = take (maxframes cfg) frs"
      "length (frame fs2) = maxframes cfg"
      "thread_callback e cfg t fs st =
         Return (DWARF_CB_OK, fs2)
           (print_frames e cfg fs2 (tid t)
              (if maxframes cfg \<le> length frs then 0
               else if unwind_fails t then thread_errno t else 0)
              ''dwfl_thread_getframes'' st)"
      using thread_callback_bounded [OF assms g(1) Cons.prems, of e st] by blast
    let ?st2 = "print_frames e cfg fs2 (tid t) 0 ''dwfl_thread_getframes'' st"
    have "Return (DWARF_CB_OK, fs1) ?st1 = Return (DWARF_CB_OK, fs2) ?st2"
      using t1(1) fs2(4) g(2) by (simp only: if_True)
    then have same: "?st1 = ?st2" by (simp only: result.inject)
    have full: "frames fs2 = maxframes cfg" using fs2(1) g(2) by simp
    have rn: "\<forall>f \<in> set (take (frames fs2) (frame fs2)). renders e cfg f"
      using fs2(2) g(3) by simp
    have "stderr ?st2 = stderr st @ [Max_Frames (tid t) (maxframes cfg)] \<and> frames_shown ?st2"
      using print_frames_ceiling [OF assms full fs2(3) rn, of "tid t" 0 _ st] by simp
    then have "d1 = [Max_Frames (tid t) (maxframes cfg)]" "frames_shown ?st1"
      using d1(1) same by simp_all
    then show ?thesis using r(5) by simp
  qed
  have all: "\<forall>t' \<in> set (t # ts). \<forall>frs. states t' = map Some frs \<and> maxframes cfg \<le> length frs \<and>
          (\<forall>f \<in> set (take (maxframes cfg) frs). renders e cfg f) \<longrightarrow>
        frames_shown st' \<and> Max_Frames (tid t') (maxframes cfg) \<in> set (d1 @ d2)"
    using this_thread r(6) by auto
  show ?case
    apply (rule exI [of _ rc])
    apply (rule exI [of _ fs'])
    apply (rule exI [of _ st'])
    apply (rule exI [of _ "d1 @ d2"])
    using res r(2) err sh all by blast
qed

lemma initial_frames_bounded:
  "0 < maxframes cfg \<Longrightarrow>
   allocated (initial_frames cfg) = maxframes cfg \<and>
   length (frame (initial_frames cfg)) = maxframes cfg \<and>
   (initial_frames cfg)\<lparr>frames := 0\<rparr> = initial_frames cfg"
  by (simp add: initial_frames_def malloc_frames_def Let_def)

lemma show_stacks_ceiling:
  assumes c: "0 < maxframes cfg" and s: "states t = map Some frs"
    and n: "maxframes cfg \<le> length frs"
    and r: "\<forall>f \<in> set (take (maxframes cfg) frs). renders e cfg f"
    and w: "if show_one_tid cfg then find (\<lambda>x. tid x = pid cfg) (threads e) = Some t
            else t \<in> set (threads e)"
  shows "\<exists>st2. show_stacks e cfg (initial_frames cfg) st = Return () st2 \<and>
     frames_shown st2 \<and> error_message_count st2 \<noteq> 0 \<and>
     Max_Frames (tid t) (maxframes cfg) \<in> set (stderr st2)"
proof (cases "show_one_tid cfg")
  case True
  let ?fs = "initial_frames cfg"
  have f: "find (\<lambda>x. tid x = pid cfg) (threads e) = Some t" using w True by simp
  then have p: "tid t = pid cfg" by (auto simp: find_Some_iff)
  have i: "allocated ?fs = maxframes cfg" "length (frame ?fs) = maxframes cfg"
    "?fs\<lparr>frames := 0\<rparr> = ?fs"
    using initial_frames_bounded [OF c] by simp_all
  obtain fs' where fs':
    "dwfl_thread_getframes e cfg t (?fs\<lparr>frames := 0\<rparr>) st =
       Return (if maxframes cfg \<le> length frs then DWARF_CB_ABORT
               else if unwind_fails t then - 1 else 0, fs') st"
    "frames fs' = min (length frs) (maxframes cfg)"
    "take (frames fs') (frame fs') = take (maxframes cfg) frs"
    "length (frame fs') = maxframes cfg"
    using thread_callback_bounded [OF c s i(1,2), of e st] by blast
  have g: "dwfl_getthread_frames e cfg (pid cfg) ?fs st = Return (DWARF_CB_ABORT, fs') st"
    using fs'(1) f n i(3) by (simp add: dwfl_getthread_frames_def)
  let ?st2 = "print_frames e cfg fs' (pid cfg) 0 ''dwfl_getthread_frames'' st"
  have res: "show_stacks e cfg ?fs st = Return () ?st2"
    using True g by (simp add: show_stacks_def)
  have full: "frames fs' = maxframes cfg" using fs'(2) n by simp
  have rn: "\<forall>f \<in> set (take (frames fs') (frame fs')). renders e cfg f"
    using fs'(3) r by simp
  have "stderr ?st2 = stderr st @ [Max_Frames (pid cfg) (maxframes cfg)] \<and>
      error_message_count ?st2 = error_message_count st + 1 \<and> frames_shown ?st2"
    using print_frames_ceiling [OF c full fs'(4) rn] by simp
  then show ?thesis using res p by simp
next
  case False
  let ?fs = "initial_frames cfg"
  let ?st0 = "printf (Pid_Header (dwfl_pid e) (pid cfg \<noteq> 0)) st"
  have i: "allocated ?fs = maxframes cfg" "length (frame ?fs) = maxframes cfg"
    using initial_frames_bounded [OF c] by simp_all
  have mem: "t \<in> set (threads e)" using w False by simp
  obtain rc fs' st' ds where g:
    "getthreads_loop e cfg (threads e) ?fs ?st0 = Return (rc, fs') st'" "rc = 0 \<or> rc = - 1"
    "stderr st' = stderr ?st0 @ ds"
    "error_message_count st' = error_message_count ?st0 + length ds"
    "\<forall>t \<in> set (threads e). \<forall>frs. states t = map Some frs \<and> maxframes cfg \<le> length frs \<and>
          (\<forall>f \<in> set (take (maxframes cfg) frs). renders e cfg f) \<longrightarrow>
        frames_shown st' \<and> Max_Frames (tid t) (maxframes cfg) \<in> set ds"
    using getthreads_bounded [OF c i, of e "threads e" ?st0] by blast
  have here: "frames_shown st' \<and> Max_Frames (tid t) (maxframes cfg) \<in> set ds"
    using g(5) mem s n r by blast
  then have pos: "error_message_count st' \<noteq> 0" "Max_Frames (tid t) (maxframes cfg) \<in> set (stderr st')"
    using g(3,4) by (auto simp: length_greater_0_conv [symmetric] simp del: length_greater_0_conv)
  show ?thesis
  proof (cases "rc = 0")
    case True
    then have "show_stacks e cfg ?fs st = Return () st'"
      using False g(1) by (simp add: show_stacks_def dwfl_getthreads_def DWARF_CB_OK_def)
    then show ?thesis using here pos by simp
  next
    case nz: False
    then have "rc = - 1" using g(2) by simp
    then have "show_stacks e cfg ?fs st = Return () (error_msg Getthreads_Error st')"
      using False g(1)
      by (simp add: show_stacks_def dwfl_getthreads_def DWARF_CB_OK_def DWARF_CB_ABORT_def)
    then show ?thesis using here pos by (simp add: error_msg_def)
  qed
qed

subsection \<open>A run over one thread\<close>

lemma print_frames_loop_plain:
  "\<not> show_inlines cfg \<Longrightarrow> maxframes cfg = 0 \<or> nr + length fs \<le> maxframes cfg \<Longrightarrow>
   \<exists>ls. stdout (snd (print_frames_loop e cfg fs nr st)) = stdout st @ map Frame_Line ls \<and>
        fst (print_frames_loop e cfg fs nr st) = nr + length fs \<and>
        map l_pc ls = map pc fs \<and> map l_nr ls = [nr ..< nr + length fs] \<and>
        map l_symname ls = map (\<lambda>f. shown_name e cfg (r_symname (resolve e cfg f))) fs"
proof (induction fs arbitrary: nr st)
  case Nil
  show ?case by simp
next
  case (Cons f fs)
  let ?r = "resolve e cfg f"
  let ?st1 = "print_frame e cfg nr (pc f) (isactivation f) (r_pc_adjusted ?r) (r_mod ?r)
       (r_symname ?r) None None st"
  have guard: "maxframes cfg = 0 \<or> nr < maxframes cfg" using Cons.prems(2) by auto
  have body: "print_frames_body e cfg f nr st = (nr + 1, ?st1)"
    using Cons.prems(1) by (simp add: print_frames_body_def Let_def)
  have unf: "print_frames_loop e cfg (f # fs) nr st = print_frames_loop e cfg fs (nr + 1) ?st1"
    using guard body by simp
  obtain l where l: "stdout ?st1 = stdout st @ [Frame_Line l]" "l_nr l = nr" "l_pc l = pc f"
    "l_symname l = shown_name e cfg (r_symname ?r)"
    using print_frame_line by blast
  have "maxframes cfg = 0 \<or> (nr + 1) + length fs \<le> maxframes cfg"
    using Cons.prems(2) by auto
  then obtain ls where ls:
    "stdout (snd (print_frames_loop e cfg fs (nr + 1) ?st1)) = stdout ?st1 @ map Frame_Line ls"
    "fst (print_frames_loop e cfg fs (nr + 1) ?st1) = (nr + 1) + length fs"
    "map l_pc ls = map pc fs" "map l_nr ls = [nr + 1 ..< (nr + 1) + length fs]"
    "map l_symname ls = map (\<lambda>f. shown_name e cfg (r_symname (resolve e cfg f))) fs"
    using Cons.IH [OF Cons.prems(1), of "nr + 1" ?st1] by blast
  have out: "stdout (snd (print_frames_loop e cfg (f # fs) nr st)) =
      stdout st @ map Frame_Line (l # ls)"
    unfolding unf using l(1) ls(1) by simp
  have cnt: "fst (print_frames_loop e cfg (f # fs) nr st) = nr + length (f # fs)"
    unfolding unf using ls(2) by simp
  have pcs: "map l_pc (l # ls) = map pc (f # fs)" using l(3) ls(3) by simp
  have nrs: "map l_nr (l # ls) = [nr ..< nr + length (f # fs)]"
  proof -
    have "[nr ..< nr + length (f # fs)] = nr # [nr + 1 ..< (nr + 1) + length fs]"
      by (simp add: upt_conv_Cons del: upt_Suc)
    then show ?thesis using l(2) ls(4) by simp
  qed
  have names: "map l_symname (l # ls) =
      map (\<lambda>f. shown_name e cfg (r_symname (resolve e cfg f))) (f # fs)"
    using l(4) ls(5) by simp
  show ?case
    by (rule exI [of _ "l # ls"]) (intro conjI out cnt pcs nrs names)
qed

lemma print_frames_plain:
  assumes "\<not> show_inlines cfg" "0 < maxframes cfg" "frames fs \<le> maxframes cfg"
    and "frames fs \<le> length (frame fs)"
  shows "\<exists>ls. stdout (print_frames e cfg fs tid0 0 what st) =
           stdout st @ Tid_Header tid0 # map Frame_Line ls \<and>
         map l_pc ls = map pc (take (frames fs) (frame fs)) \<and>
         map l_nr ls = [0 ..< frames fs] \<and>
         map l_symname ls =
           map (\<lambda>f. shown_name e cfg (r_symname (resolve e cfg f))) (take (frames fs) (frame fs)) \<and>
         stderr (print_frames e cfg fs tid0 0 what st) =
           stderr st @ (if 0 < frames fs \<and> frames fs = maxframes cfg
                        then [Max_Frames tid0 (maxframes cfg)] else []) \<and>
         error_message_count (print_frames e cfg fs tid0 0 what st) =
           error_message_count st +
           (if 0 < frames fs \<and> frames fs = maxframes cfg then 1 else 0) \<and>
         frames_shown (print_frames e cfg fs tid0 0 what st) = (frames_shown st \<or> 0 < frames fs)"
proof -
  let ?st1 = "if 0 < frames fs then st\<lparr>frames_shown := True\<rparr> else st"
  let ?st2 = "printf (Tid_Header tid0) ?st1"
  let ?caps = "take (frames fs) (frame fs)"
  let ?r = "print_frames_loop e cfg ?caps 0 ?st2"
  have len: "length ?caps = frames fs" using assms(4) by simp
  have "maxframes cfg = 0 \<or> 0 + length ?caps \<le> maxframes cfg"
    using assms(3) len by simp
  then obtain ls where ls:
    "stdout (snd ?r) = stdout ?st2 @ map Frame_Line ls"
    "fst ?r = 0 + length ?caps"
    "map l_pc ls = map pc ?caps" "map l_nr ls = [0 ..< 0 + length ?caps]"
    "map l_symname ls = map (\<lambda>f. shown_name e cfg (r_symname (resolve e cfg f))) ?caps"
    using print_frames_loop_plain [OF assms(1), of 0 ?caps e ?st2] by blast
  have fld: "frames_shown (snd ?r) = frames_shown ?st2"
    "error_message_count (snd ?r) = error_message_count ?st2" "stderr (snd ?r) = stderr ?st2"
    using print_frames_loop_fields [of e cfg ?caps 0 ?st2] by simp_all
  obtain nr st3 where r: "?r = (nr, st3)" by (cases ?r)
  have st3: "stdout st3 = stdout st @ Tid_Header tid0 # map Frame_Line ls"
    "stderr st3 = stderr st" "error_message_count st3 = error_message_count st"
    "frames_shown st3 = (frames_shown st \<or> 0 < frames fs)" "nr = frames fs"
    using ls(1,2) fld r len by (simp_all add: printf_def)
  have pf: "print_frames e cfg fs tid0 0 what st =
     (if 0 < frames fs \<and> nr = maxframes cfg
      then error_msg (Max_Frames tid0 (maxframes cfg)) st3 else st3)"
    using r by (simp add: print_frames_def Let_def)
  show ?thesis
    apply (rule exI [of _ ls])
    unfolding pf using st3 ls(3,4,5) len by (simp add: error_msg_def)
qed

lemma single_thread_run:
  assumes c: "0 < maxframes cfg" and i: "\<not> show_inlines cfg" and m: "\<not> show_modules cfg"
    and o: "\<not> show_one_tid cfg" and t: "threads e = [t]" and s: "states t = map Some frs"
    and u: "\<not> unwind_fails t" and g: "\<not> getthreads_fails e"
    and a: "malloc_ok e (maxframes cfg)" and n: "frs \<noteq> []"
  shows "\<exists>st. stack_main e cfg =
           Return (if maxframes cfg \<le> length frs then EXIT_ERROR else EXIT_OK) st \<and>
         map (\<lambda>l. (l_pc l, l_symname l)) (frame_lines (stdout st)) =
           map (\<lambda>f. (pc f, shown_name e cfg (r_symname (resolve e cfg f))))
             (take (maxframes cfg) frs) \<and>
         map l_nr (frame_lines (stdout st)) = [0 ..< min (length frs) (maxframes cfg)] \<and>
         stderr st = (if maxframes cfg \<le> length frs
                      then [Max_Frames (tid t) (maxframes cfg)] else [])"
proof -
  let ?fs = "initial_frames cfg"
  let ?st0 = "printf (Pid_Header (dwfl_pid e) (pid cfg \<noteq> 0)) init_state"
  have ib: "allocated ?fs = maxframes cfg" "length (frame ?fs) = maxframes cfg"
    using initial_frames_bounded [OF c] by simp_all
  obtain fs' where fs':
    "frames fs' = min (length frs) (maxframes cfg)"
    "take (frames fs') (frame fs') = take (maxframes cfg) frs"
    "length (frame fs') = maxframes cfg"
    "thread_callback e cfg t ?fs ?st0 =
       Return (DWARF_CB_OK, fs')
         (print_frames e cfg fs' (tid t)
            (if maxframes cfg \<le> length frs then 0
             else if unwind_fails t then thread_errno t else 0)
            ''dwfl_thread_getframes'' ?st0)"
    using thread_callback_bounded [OF c s ib, of e ?st0] by blast
  let ?st' = "print_frames e cfg fs' (tid t) 0 ''dwfl_thread_getframes'' ?st0"
  have tc: "thread_callback e cfg t ?fs ?st0 = Return (DWARF_CB_OK, fs') ?st'"
    using fs'(4) u by simp
  have le: "frames fs' \<le> maxframes cfg" "frames fs' \<le> length (frame fs')"
    using fs'(1,3) by simp_all
  obtain ls where ls:
    "stdout ?st' = stdout ?st0 @ Tid_Header (tid t) # map Frame_Line ls"
    "map l_pc ls = map pc (take (frames fs') (frame fs'))"
    "map l_nr ls = [0 ..< frames fs']"
    "map l_symname ls =
       map (\<lambda>f. shown_name e cfg (r_symname (resolve e cfg f))) (take (frames fs') (frame fs'))"
    "stderr ?st' = stderr ?st0 @ (if 0 < frames fs' \<and> frames fs' = maxframes cfg
                                 then [Max_Frames (tid t) (maxframes cfg)] else [])"
    "error_message_count ?st' = error_message_count ?st0 +
       (if 0 < frames fs' \<and> frames fs' = maxframes cfg then 1 else 0)"
    "frames_shown ?st' = (frames_shown ?st0 \<or> 0 < frames fs')"
    using print_frames_plain [OF i c le, of e "tid t" _ ?st0] by blast
  have pos: "0 < frames fs'" using fs'(1) n c by (cases frs) simp_all
  have full: "frames fs' = maxframes cfg \<longleftrightarrow> maxframes cfg \<le> length frs"
    using fs'(1) by auto
  have loop: "getthreads_loop e cfg (threads e) ?fs ?st0 = Return (0, fs') ?st'"
    using t tc g by (simp add: DWARF_CB_OK_def)
  have ss: "show_stacks e cfg ?fs init_state = Return () ?st'"
    using o loop by (simp add: show_stacks_def dwfl_getthreads_def DWARF_CB_OK_def)
  have lm: "list_modules e cfg init_state = Return () init_state"
    using m by (simp add: list_modules_def)
  have shown: "frames_shown ?st'" using ls(7) pos by simp
  have cnt: "error_message_count ?st' = (if maxframes cfg \<le> length frs then 1 else 0)"
    using ls(6) pos full by (simp add: printf_def init_state_def)
  have main: "stack_main e cfg =
      Return (if maxframes cfg \<le> length frs then EXIT_ERROR else EXIT_OK) ?st'"
    using lm ss a ib(1) shown cnt by (simp add: stack_main_def exit_status_def)
  have fl: "frame_lines (stdout ?st') = ls"
    using ls(1) by (simp add: printf_def init_state_def frame_lines_append frame_lines_map)
  have pairs: "map (\<lambda>l. (l_pc l, l_symname l)) ls =
      map (\<lambda>f. (pc f, shown_name e cfg (r_symname (resolve e cfg f)))) (take (maxframes cfg) frs)"
  proof -
    have "map (\<lambda>l. (l_pc l, l_symname l)) ls = zip (map l_pc ls) (map l_symname ls)"
      by (simp add: zip_map_map map_zip_map2 zip_same_conv_map)
    also have "\<dots> = zip (map pc (take (maxframes cfg) frs))
        (map (\<lambda>f. shown_name e cfg (r_symname (resolve e cfg f))) (take (maxframes cfg) frs))"
      using ls(2,4) fs'(2) by simp
    also have "\<dots> = map (\<lambda>f. (pc f, shown_name e cfg (r_symname (resolve e cfg f))))
        (take (maxframes cfg) frs)"
      by (simp add: zip_map_map zip_same_conv_map)
    finally show ?thesis .
  qed
  have err: "stderr ?st' = (if maxframes cfg \<le> length frs
      then [Max_Frames (tid t) (maxframes cfg)] else [])"
    using ls(5) pos full by (simp add: printf_def init_state_def)
  show ?thesis
    apply (rule exI [of _ ?st'])
    using main fl pairs ls(3) fs'(1) err by simp
qed

lemma resolve_no_name:
  "\<not> show_debugname cfg \<Longrightarrow> \<forall>m a. dwfl_module_addrname e m a = None \<Longrightarrow>
   r_symname (resolve e cfg f) = None"
  by (simp add: resolve_def Let_def split: option.splits)

lemma resolve_pc_adjusted: "r_pc_adjusted (resolve e cfg f) = pc_adjust f"
  by (simp add: resolve_def Let_def split_beta split: option.splits)

subsection \<open>The state between the steps of a run\<close>

lemma frame_callback_cases:
  "frames fs \<le> length (frame fs) \<Longrightarrow>
   (\<exists>rc fs'. frame_callback e cfg s fs st = Return (rc, fs') st \<and>
      (rc = - 1 \<or> rc = DWARF_CB_OK \<or> rc = DWARF_CB_ABORT) \<and>
      frames fs' \<le> length (frame fs')) \<or>
   frame_callback e cfg s fs st = Exit EXIT_BAD (error_msg Realloc_Error st) \<or>
   frame_callback e cfg s fs st = Crash Undefined_Behaviour"
  by (cases s) (auto simp: frame_callback_def Let_def realloc_frames_def)

lemma getframes_loop_cases:
  "frames fs \<le> length (frame fs) \<Longrightarrow>
   (\<exists>rc fs'. getframes_loop e cfg ss fails fs st = Return (rc, fs') st \<and>
      (rc = - 1 \<or> rc = DWARF_CB_OK \<or> rc = DWARF_CB_ABORT) \<and>
      frames fs' \<le> length (frame fs')) \<or>
   getframes_loop e cfg ss fails fs st = Exit EXIT_BAD (error_msg Realloc_Error st) \<or>
   getframes_loop e cfg ss fails fs st = Crash Undefined_Behaviour"
proof (induction ss arbitrary: fs)
  case Nil
  then show ?case by (simp add: DWARF_CB_OK_def)
next
  case (Cons s ss)
  consider (ret) rc fs1 where "frame_callback e cfg s fs st = Return (rc, fs1) st"
      "rc = - 1 \<or> rc = DWARF_CB_OK \<or> rc = DWARF_CB_ABORT" "frames fs1 \<le> length (frame fs1)"
    | (exit) "frame_callback e cfg s fs st = Exit EXIT_BAD (error_msg Realloc_Error st)"
    | (crash) "frame_callback e cfg s fs st = Crash Undefined_Behaviour"
    using frame_callback_cases [OF Cons.prems, of e cfg s st] by blast
  then show ?case
  proof cases
    case ret
    show ?thesis
    proof (cases "rc = DWARF_CB_OK")
      case True
      then have "getframes_loop e cfg (s # ss) fails fs st = getframes_loop e cfg ss fails fs1 st"
        using ret(1) by simp
      then show ?thesis using Cons.IH [OF ret(3)] by simp
    next
      case False
      then have "getframes_loop e cfg (s # ss) fails fs st = Return (rc, fs1) st"
        using ret(1) by simp
      then show ?thesis using ret(2,3) by simp
    qed
  next
    case exit
    then show ?thesis by simp
  next
    case crash
    then show ?thesis by simp
  qed
qed

lemma thread_callback_cases:
  "(\<exists>fs' err. thread_callback e cfg t fs st =
       Return (DWARF_CB_OK, fs') (print_frames e cfg fs' (tid t) err ''dwfl_thread_getframes'' st) \<and>
     frames fs' \<le> length (frame fs')) \<or>
   thread_callback e cfg t fs st = Exit EXIT_BAD (error_msg Realloc_Error st) \<or>
   thread_callback e cfg t fs st = Crash Undefined_Behaviour"
proof -
  let ?fs0 = "fs\<lparr>frames := 0\<rparr>"
  have z: "frames ?fs0 \<le> length (frame ?fs0)" by simp
  consider (ret) rc fs1 where
      "getframes_loop e cfg (states t) (unwind_fails t) ?fs0 st = Return (rc, fs1) st"
      "rc = - 1 \<or> rc = DWARF_CB_OK \<or> rc = DWARF_CB_ABORT" "frames fs1 \<le> length (frame fs1)"
    | (exit) "getframes_loop e cfg (states t) (unwind_fails t) ?fs0 st =
        Exit EXIT_BAD (error_msg Realloc_Error st)"
    | (crash) "getframes_loop e cfg (states t) (unwind_fails t) ?fs0 st =
        Crash Undefined_Behaviour"
    using getframes_loop_cases [OF z, of e cfg "states t" "unwind_fails t" st] by blast
  then show ?thesis
  proof cases
    case ret
    then show ?thesis
      by (auto simp: thread_callback_def dwfl_thread_getframes_def)
  next
    case exit
    then show ?thesis by (simp add: thread_callback_def dwfl_thread_getframes_def)
  next
    case crash
    then show ?thesis by (simp add: thread_callback_def dwfl_thread_getframes_def)
  qed
qed

lemma print_frames_inv:
  assumes inv: "run_inv st" and wf: "frames fs \<le> length (frame fs)"
    and rn: "\<forall>f. renders e cfg f"
  shows "run_inv (print_frames e cfg fs tid0 dwflerr what st)"
proof -
  let ?st' = "print_frames e cfg fs tid0 dwflerr what st"
  let ?caps = "take (frames fs) (frame fs)"
  obtain ls :: "frame_line list" and ds where e:
    "stdout ?st' = stdout st @ Tid_Header tid0 # map Frame_Line ls"
    "stderr ?st' = stderr st @ ds"
    "error_message_count ?st' = error_message_count st + length ds"
    "frames_shown ?st' = (frames_shown st \<or> 0 < frames fs)"
    "\<forall>d \<in> set ds. \<not> fatal d"
    "(\<forall>f \<in> set ?caps. renders e cfg f) \<longrightarrow>
        (if maxframes cfg = 0 then length ?caps else min (length ?caps) (maxframes cfg))
          \<le> length ls"
    "set (map l_pc ls) \<subseteq> pc ` set ?caps"
    using print_frames_effect [of e cfg fs tid0 dwflerr what st]
    by (elim exE conjE) (rule that; assumption)
  have fl: "frame_lines (stdout ?st') = frame_lines (stdout st) @ ls"
    using e(1) by (simp add: frame_lines_Tid)
  have len: "length ?caps = frames fs" using wf by simp
  have iff: "0 < frames fs \<longleftrightarrow> ls \<noteq> []"
  proof
    assume "0 < frames fs"
    then have "0 < length ls" using e(6) rn len by (auto split: if_splits)
    then show "ls \<noteq> []" by simp
  next
    assume ne: "ls \<noteq> []"
    show "0 < frames fs"
    proof (rule ccontr)
      assume "\<not> 0 < frames fs"
      then have "set (map l_pc ls) = {}" using e(7) by simp
      then show False using ne by simp
    qed
  qed
  show ?thesis
    using inv e(2,3,4,5) fl iff by (auto simp: run_inv_def list_all_iff)
qed

lemma run_inv_printf:
  "run_inv st \<Longrightarrow> frame_lines [x] = [] \<Longrightarrow> run_inv (printf x st)"
  by (simp add: run_inv_def printf_def frame_lines_append)

lemma run_inv_error_msg:
  "run_inv st \<Longrightarrow> \<not> fatal d \<Longrightarrow> run_inv (error_msg d st)"
  by (simp add: run_inv_def error_msg_def)

lemma error_msg_fatal:
  "fatal d \<Longrightarrow> \<exists>d \<in> set (stderr (error_msg d st)). fatal d"
  by (simp add: error_msg_def)

lemma getthreads_loop_cases:
  assumes rn: "\<forall>f. renders e cfg f"
  shows "run_inv st \<Longrightarrow>
   (\<exists>rc fs' st'. getthreads_loop e cfg ts fs st = Return (rc, fs') st' \<and>
      (rc = 0 \<or> rc = - 1) \<and> run_inv st') \<or>
   (\<exists>st'. getthreads_loop e cfg ts fs st = Exit EXIT_BAD st' \<and>
      (\<exists>d \<in> set (stderr st'). fatal d)) \<or>
   getthreads_loop e cfg ts fs st = Crash Undefined_Behaviour"
proof (induction ts arbitrary: fs st)
  case Nil
  then show ?case by simp
next
  case (Cons t ts)
  consider (ret) fs1 err where
      "thread_callback e cfg t fs st =
         Return (DWARF_CB_OK, fs1) (print_frames e cfg fs1 (tid t) err ''dwfl_thread_getframes'' st)"
      "frames fs1 \<le> length (frame fs1)"
    | (exit) "thread_callback e cfg t fs st = Exit EXIT_BAD (error_msg Realloc_Error st)"
    | (crash) "thread_callback e cfg t fs st = Crash Undefined_Behaviour"
    using thread_callback_cases [of e cfg t fs st] by blast
  then show ?case
  proof cases
    case ret
    let ?st1 = "print_frames e cfg fs1 (tid t) err ''dwfl_thread_getframes'' st"
    have "run_inv ?st1" using Cons.prems ret(2) rn by (rule print_frames_inv)
    moreover have "getthreads_loop e cfg (t # ts) fs st = getthreads_loop e cfg ts fs1 ?st1"
      using ret(1) by simp
    ultimately show ?thesis using Cons.IH [of ?st1 fs1] by simp
  next
    case exit
    then show ?thesis using error_msg_fatal [of Realloc_Error st] by simp
  next
    case crash
    then show ?thesis by simp
  qed
qed

lemma module_callback_inv: "run_inv st \<Longrightarrow> run_inv (module_callback x st)"
  by (cases x)
    (simp add: module_callback_def Let_def split_beta run_inv_def printf_def
      frame_lines_append get_addr_width_fields)

lemma fold_module_callback_inv: "run_inv st \<Longrightarrow> run_inv (fold module_callback ms st)"
  by (induction ms arbitrary: st) (simp_all add: module_callback_inv)

lemma list_modules_cases:
  "run_inv st \<Longrightarrow>
   (\<exists>st'. list_modules e cfg st = Return () st' \<and> run_inv st') \<or>
   (\<exists>st'. list_modules e cfg st = Exit EXIT_BAD st' \<and> (\<exists>d \<in> set (stderr st'). fatal d))"
  using error_msg_fatal [of Getmodules_Error]
  by (simp add: list_modules_def Let_def fold_module_callback_inv run_inv_printf)

lemma show_stacks_cases:
  assumes rn: "\<forall>f. renders e cfg f" and inv: "run_inv st"
    and wf: "frames fs \<le> length (frame fs)"
  shows "(\<exists>st'. show_stacks e cfg fs st = Return () st' \<and> run_inv st') \<or>
   (\<exists>st'. show_stacks e cfg fs st = Exit EXIT_BAD st' \<and> (\<exists>d \<in> set (stderr st'). fatal d)) \<or>
   show_stacks e cfg fs st = Crash Undefined_Behaviour"
proof (cases "show_one_tid cfg")
  case True
  show ?thesis
  proof (cases "find (\<lambda>t. tid t = pid cfg) (threads e)")
    case None
    then have "show_stacks e cfg fs st =
        Return () (print_frames e cfg fs (pid cfg) (one_tid_errno e (pid cfg))
          ''dwfl_getthread_frames'' st)"
      using True
      by (simp add: show_stacks_def dwfl_getthread_frames_def DWARF_CB_OK_def DWARF_CB_ABORT_def)
    then show ?thesis using print_frames_inv [OF inv wf rn] by simp
  next
    case (Some t)
    consider (ret) rc fs1 where
        "getframes_loop e cfg (states t) (unwind_fails t) fs st = Return (rc, fs1) st"
        "rc = - 1 \<or> rc = DWARF_CB_OK \<or> rc = DWARF_CB_ABORT" "frames fs1 \<le> length (frame fs1)"
      | (exit) "getframes_loop e cfg (states t) (unwind_fails t) fs st =
          Exit EXIT_BAD (error_msg Realloc_Error st)"
      | (crash) "getframes_loop e cfg (states t) (unwind_fails t) fs st =
          Crash Undefined_Behaviour"
      using getframes_loop_cases [OF wf, of e cfg "states t" "unwind_fails t" st] by blast
    then show ?thesis
    proof cases
      case ret
      have "\<exists>err. show_stacks e cfg fs st =
          Return () (print_frames e cfg fs1 (pid cfg) err ''dwfl_getthread_frames'' st)"
        using True Some ret(1,2)
        by (auto simp: show_stacks_def dwfl_getthread_frames_def dwfl_thread_getframes_def)
      then show ?thesis using print_frames_inv [OF inv ret(3) rn] by auto
    next
      case exit
      then show ?thesis
        using True Some error_msg_fatal [of Realloc_Error st]
        by (simp add: show_stacks_def dwfl_getthread_frames_def dwfl_thread_getframes_def)
    next
      case crash
      then show ?thesis
        using True Some
        by (simp add: show_stacks_def dwfl_getthread_frames_def dwfl_thread_getframes_def)
    qed
  qed
next
  case False
  let ?st0 = "printf (Pid_Header (dwfl_pid e) (pid cfg \<noteq> 0)) st"
  have inv0: "run_inv ?st0" using inv by (simp add: run_inv_printf)
  consider (ret) rc fs' st' where
      "getthreads_loop e cfg (threads e) fs ?st0 = Return (rc, fs') st'"
      "rc = 0 \<or> rc = - 1" "run_inv st'"
    | (exit) st' where "getthreads_loop e cfg (threads e) fs ?st0 = Exit EXIT_BAD st'"
      "\<exists>d \<in> set (stderr st'). fatal d"
    | (crash) "getthreads_loop e cfg (threads e) fs ?st0 = Crash Undefined_Behaviour"
    using getthreads_loop_cases [OF rn inv0, of "threads e" fs] by blast
  then show ?thesis
  proof cases
    case ret
    have "show_stacks e cfg fs st = Return () st' \<or>
        show_stacks e cfg fs st = Return () (error_msg Getthreads_Error st')"
      using False ret(1,2)
      by (auto simp: show_stacks_def dwfl_getthreads_def DWARF_CB_OK_def DWARF_CB_ABORT_def)
    then show ?thesis using ret(3) run_inv_error_msg [of st' Getthreads_Error] by auto
  next
    case exit
    then show ?thesis using False by (simp add: show_stacks_def dwfl_getthreads_def)
  next
    case crash
    then show ?thesis using False by (simp add: show_stacks_def dwfl_getthreads_def)
  qed
qed

lemma stack_main_cases:
  assumes rn: "\<forall>f. renders e cfg f"
  shows "(\<exists>st. stack_main e cfg =
            Return (if error_message_count st \<noteq> 0 then EXIT_ERROR else EXIT_OK) st \<and>
          run_inv st \<and> frames_shown st) \<or>
   (\<exists>st. stack_main e cfg = Exit EXIT_BAD st \<and> (\<exists>d \<in> set (stderr st). fatal d)) \<or>
   stack_main e cfg = Crash Undefined_Behaviour"
proof -
  have i0: "run_inv init_state" by (simp add: run_inv_def init_state_def)
  consider (ret) st1 where "list_modules e cfg init_state = Return () st1" "run_inv st1"
    | (exit) st1 where "list_modules e cfg init_state = Exit EXIT_BAD st1"
      "\<exists>d \<in> set (stderr st1). fatal d"
    using list_modules_cases [OF i0, of e cfg] by blast
  then show ?thesis
  proof cases
    case exit
    then show ?thesis by (simp add: stack_main_def)
  next
    case ret
    show ?thesis
    proof (cases "malloc_ok e (allocated (initial_frames cfg))")
      case False
      then show ?thesis
        using ret(1) error_msg_fatal [of Malloc_Error st1] by (simp add: stack_main_def)
    next
      case True
      have wf: "frames (initial_frames cfg) \<le> length (frame (initial_frames cfg))"
        by (simp add: initial_frames_def Let_def)
      consider (sret) st2 where "show_stacks e cfg (initial_frames cfg) st1 = Return () st2"
          "run_inv st2"
        | (sexit) st2 where "show_stacks e cfg (initial_frames cfg) st1 = Exit EXIT_BAD st2"
          "\<exists>d \<in> set (stderr st2). fatal d"
        | (scrash) "show_stacks e cfg (initial_frames cfg) st1 = Crash Undefined_Behaviour"
        using show_stacks_cases [OF rn ret(2) wf] by blast
      then show ?thesis
      proof cases
        case sret
        show ?thesis
        proof (cases "frames_shown st2")
          case True
          then show ?thesis
            using ret(1) \<open>malloc_ok e (allocated (initial_frames cfg))\<close> sret
            by (simp add: stack_main_def exit_status_def)
        next
          case False
          then show ?thesis
            using ret(1) \<open>malloc_ok e (allocated (initial_frames cfg))\<close> sret(1)
              error_msg_fatal [of No_Frames st2]
            by (simp add: stack_main_def exit_status_def)
        qed
      next
        case sexit
        then show ?thesis using ret(1) True by (simp add: stack_main_def)
      next
        case scrash
        then show ?thesis using ret(1) True by (simp add: stack_main_def)
      qed
    qed
  qed
qed

subsection \<open>A run ends in an exit\<close>

lemma frame_callback_no_crash:
  assumes "buffer_ok cfg fs" "frames fs < allocated fs"
    and "maxframes cfg = 0 \<longrightarrow> 2 * Suc (frames fs) \<le> INT_MAX"
  shows "(\<exists>fs'. frame_callback e cfg s fs st = Return (DWARF_CB_OK, fs') st \<and>
            buffer_ok cfg fs' \<and> frames fs' < allocated fs' \<and> frames fs' \<le> Suc (frames fs)) \<or>
         (\<exists>rc fs'. frame_callback e cfg s fs st = Return (rc, fs') st \<and> rc \<noteq> DWARF_CB_OK \<and>
            buffer_ok cfg fs') \<or>
         (\<exists>c st'. frame_callback e cfg s fs st = Exit c st')"
proof (cases s)
  case None
  then show ?thesis
    using assms(1) by (simp add: frame_callback_def DWARF_CB_OK_def)
next
  case (Some f)
  let ?fs1 = "fs\<lparr>frame := (frame fs)[frames fs := f], frames := Suc (frames fs)\<rparr>"
  have in_range: "\<not> length (frame fs) \<le> frames fs"
    using assms(1,2) by (simp add: buffer_ok_def)
  show ?thesis
  proof (cases "Suc (frames fs) = maxframes cfg")
    case True
    then have "frame_callback e cfg s fs st = Return (DWARF_CB_ABORT, ?fs1) st"
      using Some in_range by (simp add: frame_callback_def Let_def)
    moreover have "buffer_ok cfg ?fs1" using assms(1) by (simp add: buffer_ok_def)
    ultimately show ?thesis by (simp add: DWARF_CB_OK_def DWARF_CB_ABORT_def)
  next
    case nmax: False
    show ?thesis
    proof (cases "Suc (frames fs) = allocated fs")
      case False
      then have "frame_callback e cfg s fs st = Return (DWARF_CB_OK, ?fs1) st"
        using Some in_range nmax by (simp add: frame_callback_def Let_def)
      moreover have "buffer_ok cfg ?fs1" using assms(1) by (simp add: buffer_ok_def)
      moreover have "frames ?fs1 < allocated ?fs1" using assms(2) False by simp
      ultimately show ?thesis by simp
    next
      case full: True
      have zero: "maxframes cfg = 0"
        using assms(1) nmax full by (auto simp: buffer_ok_def split: if_splits)
      then have fits: "\<not> INT_MAX < allocated fs * 2" using assms(3) full by simp
      show ?thesis
      proof (cases "realloc_ok e (allocated fs * 2)")
        case False
        then have "frame_callback e cfg s fs st = Exit EXIT_BAD (error_msg Realloc_Error st)"
          using Some in_range nmax full fits by (simp add: frame_callback_def Let_def)
        then show ?thesis by simp
      next
        case True
        let ?fs2 = "?fs1\<lparr>allocated := allocated fs * 2,
          frame := realloc_frames (frame ?fs1) (allocated fs * 2)\<rparr>"
        have "frame_callback e cfg s fs st = Return (DWARF_CB_OK, ?fs2) st"
          using Some in_range nmax full fits True by (simp add: frame_callback_def Let_def)
        moreover have "buffer_ok cfg ?fs2"
          using assms(1) zero by (simp add: buffer_ok_def realloc_frames_def)
        moreover have "frames ?fs2 < allocated ?fs2" using assms(2) by simp
        ultimately show ?thesis by simp
      qed
    qed
  qed
qed

lemma getframes_no_crash:
  "\<lbrakk>buffer_ok cfg fs; frames fs < allocated fs;
    maxframes cfg = 0 \<longrightarrow> 2 * (frames fs + length ss) \<le> INT_MAX\<rbrakk> \<Longrightarrow>
   (\<exists>rc fs'. getframes_loop e cfg ss fails fs st = Return (rc, fs') st \<and> buffer_ok cfg fs') \<or>
   (\<exists>c st'. getframes_loop e cfg ss fails fs st = Exit c st')"
proof (induction ss arbitrary: fs)
  case Nil
  then show ?case by simp
next
  case (Cons s ss)
  have b: "maxframes cfg = 0 \<longrightarrow> 2 * Suc (frames fs) \<le> INT_MAX"
    using Cons.prems(3) by auto
  consider (ok) fs1 where "frame_callback e cfg s fs st = Return (DWARF_CB_OK, fs1) st"
      "buffer_ok cfg fs1" "frames fs1 < allocated fs1" "frames fs1 \<le> Suc (frames fs)"
    | (stop) rc fs1 where "frame_callback e cfg s fs st = Return (rc, fs1) st"
      "rc \<noteq> DWARF_CB_OK" "buffer_ok cfg fs1"
    | (exit) c st' where "frame_callback e cfg s fs st = Exit c st'"
    using frame_callback_no_crash [OF Cons.prems(1,2) b, of e s st] by blast
  then show ?case
  proof cases
    case ok
    have "maxframes cfg = 0 \<longrightarrow> 2 * (frames fs1 + length ss) \<le> INT_MAX"
      using Cons.prems(3) ok(4) by auto
    then show ?thesis
      using Cons.IH [OF ok(2,3)] ok(1) by simp
  next
    case stop
    then show ?thesis by simp
  next
    case exit
    then show ?thesis by simp
  qed
qed

lemma thread_callback_no_crash:
  assumes "buffer_ok cfg fs" "maxframes cfg = 0 \<longrightarrow> 2 * length (states t) \<le> INT_MAX"
  shows "(\<exists>fs' st'. thread_callback e cfg t fs st = Return (DWARF_CB_OK, fs') st' \<and>
            buffer_ok cfg fs') \<or>
         (\<exists>c st'. thread_callback e cfg t fs st = Exit c st')"
proof -
  let ?fs0 = "fs\<lparr>frames := 0\<rparr>"
  have b: "buffer_ok cfg ?fs0" "frames ?fs0 < allocated ?fs0"
    "maxframes cfg = 0 \<longrightarrow> 2 * (frames ?fs0 + length (states t)) \<le> INT_MAX"
    using assms by (simp_all add: buffer_ok_def)
  consider (ret) rc fs1 where
      "getframes_loop e cfg (states t) (unwind_fails t) ?fs0 st = Return (rc, fs1) st"
      "buffer_ok cfg fs1"
    | (exit) c st' where
      "getframes_loop e cfg (states t) (unwind_fails t) ?fs0 st = Exit c st'"
    using getframes_no_crash [OF b, of e "unwind_fails t" st] by blast
  then show ?thesis
  proof cases
    case ret
    have "thread_callback e cfg t fs st \<noteq> Crash Undefined_Behaviour"
      using ret(1) by (simp add: thread_callback_def dwfl_thread_getframes_def)
    moreover have "\<forall>fs' st'. thread_callback e cfg t fs st = Return (DWARF_CB_OK, fs') st' \<longrightarrow>
        fs' = fs1"
      using ret(1) by (auto simp: thread_callback_def dwfl_thread_getframes_def split: if_splits)
    ultimately show ?thesis
      using thread_callback_cases [of e cfg t fs st] ret(2) by auto
  next
    case exit
    then show ?thesis by (simp add: thread_callback_def dwfl_thread_getframes_def)
  qed
qed

lemma getthreads_no_crash:
  "\<lbrakk>buffer_ok cfg fs; maxframes cfg = 0 \<longrightarrow> (\<forall>t \<in> set ts. 2 * length (states t) \<le> INT_MAX)\<rbrakk> \<Longrightarrow>
   getthreads_loop e cfg ts fs st \<noteq> Crash k"
proof (induction ts arbitrary: fs st)
  case Nil
  show ?case by simp
next
  case (Cons t ts)
  have bt: "maxframes cfg = 0 \<longrightarrow> 2 * length (states t) \<le> INT_MAX"
    and br: "maxframes cfg = 0 \<longrightarrow> (\<forall>t \<in> set ts. 2 * length (states t) \<le> INT_MAX)"
    using Cons.prems(2) by simp_all
  consider (ret) fs1 st1 where "thread_callback e cfg t fs st = Return (DWARF_CB_OK, fs1) st1"
      "buffer_ok cfg fs1"
    | (exit) c st' where "thread_callback e cfg t fs st = Exit c st'"
    using thread_callback_no_crash [OF Cons.prems(1) bt, of e st] by blast
  then show ?case
  proof cases
    case ret
    then show ?thesis using Cons.IH [OF ret(2) br, of st1] by simp
  next
    case exit
    then show ?thesis by simp
  qed
qed

lemma getthreads_loop_rc:
  "getthreads_loop e cfg ts fs st = Return (rc, fs') st' \<Longrightarrow> rc = 0 \<or> rc = - 1"
proof (induction ts arbitrary: fs st)
  case Nil
  then show ?case by (auto split: if_splits)
next
  case (Cons t ts)
  consider (ret) fs1 err where
      "thread_callback e cfg t fs st =
         Return (DWARF_CB_OK, fs1) (print_frames e cfg fs1 (tid t) err ''dwfl_thread_getframes'' st)"
    | (exit) "thread_callback e cfg t fs st = Exit EXIT_BAD (error_msg Realloc_Error st)"
    | (crash) "thread_callback e cfg t fs st = Crash Undefined_Behaviour"
    using thread_callback_cases [of e cfg t fs st] by blast
  then show ?case
  proof cases
    case ret
    then show ?thesis using Cons.prems Cons.IH by simp
  next
    case exit
    then show ?thesis using Cons.prems by simp
  next
    case crash
    then show ?thesis using Cons.prems by simp
  qed
qed

lemma initial_frames_ok: "buffer_ok cfg (initial_frames cfg)"
  by (simp add: buffer_ok_def initial_frames_def malloc_frames_def Let_def)

lemma stack_main_no_crash:
  assumes "maxframes cfg = 0 \<longrightarrow> (\<forall>t \<in> set (threads e). 2 * length (states t) \<le> INT_MAX)"
  shows "stack_main e cfg \<noteq> Crash k"
proof -
  let ?fs = "initial_frames cfg"
  have ss: "show_stacks e cfg ?fs st \<noteq> Crash k" for st
  proof (cases "show_one_tid cfg")
    case False
    have "getthreads_loop e cfg (threads e) ?fs
        (printf (Pid_Header (dwfl_pid e) (pid cfg \<noteq> 0)) st) \<noteq> Crash k"
      using getthreads_no_crash [OF initial_frames_ok assms] by simp
    then show ?thesis
      using False
      by (auto simp: show_stacks_def dwfl_getthreads_def DWARF_CB_OK_def
          dest: getthreads_loop_rc split: result.splits)
  next
    case True
    show ?thesis
    proof (cases "find (\<lambda>t. tid t = pid cfg) (threads e)")
      case None
      then show ?thesis
        using True by (simp add: show_stacks_def dwfl_getthread_frames_def DWARF_CB_OK_def
            DWARF_CB_ABORT_def)
    next
      case (Some t)
      then have "t \<in> set (threads e)" by (auto simp: find_Some_iff)
      then have bt: "maxframes cfg = 0 \<longrightarrow> 2 * (frames ?fs + length (states t)) \<le> INT_MAX"
        using assms by (simp add: initial_frames_def Let_def)
      have z: "frames ?fs < allocated ?fs" "frames ?fs \<le> length (frame ?fs)"
        by (simp_all add: initial_frames_def Let_def)
      have nc: "getframes_loop e cfg (states t) (unwind_fails t) ?fs st \<noteq> Crash k"
        using getframes_no_crash [OF initial_frames_ok z(1) bt, of e "unwind_fails t" st] by auto
      show ?thesis
        using True Some nc getframes_loop_cases [OF z(2), of e cfg "states t" "unwind_fails t" st]
        by (auto simp: show_stacks_def dwfl_getthread_frames_def dwfl_thread_getframes_def
            DWARF_CB_OK_def DWARF_CB_ABORT_def)
    qed
  qed
  show ?thesis
    using ss
    by (auto simp: stack_main_def list_modules_def exit_status_def Let_def split: result.splits)
qed

subsection \<open>Runs in which every captured frame is rendered\<close>

text \<open>A captured frame is rendered unless inline expansion is on and
  \<^verbatim>\<open>dwarf_getscopes_die\<close> returns no scope for the DIE found for the frame. The three
  results of this subsection are about the runs and threads in which every frame is
  rendered; without inline expansion these are all of them.\<close>

text \<open>The exit status. Every such run ends in an exit, and the status is:
  \<^verbatim>\<open>EXIT_BAD\<close> (2) when no frame line was printed; \<^verbatim>\<open>EXIT_ERROR\<close> (1) when a frame
  line was printed and diagnostics were recorded, none of them fatal; \<^verbatim>\<open>EXIT_OK\<close> (0)
  when a frame line was printed and no diagnostic was recorded; and \<^verbatim>\<open>EXIT_BAD\<close>
  whenever a fatal diagnostic was recorded (a failed allocation or module listing). Without
  a ceiling, no thread may have so many frames that the capacity of the buffer overflows an
  \<^verbatim>\<open>int\<close>.\<close>

theorem exit_status_policy_rendered:
  assumes "\<forall>f. renders e cfg f"
    and "maxframes cfg = 0 \<longrightarrow> (\<forall>t \<in> set (threads e). 2 * length (states t) \<le> INT_MAX)"
  shows "\<exists>c st. exit_code (stack_main e cfg) = Some c \<and>
     final_state (stack_main e cfg) = Some st \<and>
     (frame_lines (stdout st) = [] \<longrightarrow> c = EXIT_BAD) \<and>
     (frame_lines (stdout st) \<noteq> [] \<and> stderr st \<noteq> [] \<and>
      list_all (\<lambda>d. \<not> fatal d) (stderr st) \<longrightarrow> c = EXIT_ERROR) \<and>
     (frame_lines (stdout st) \<noteq> [] \<and> stderr st = [] \<longrightarrow> c = EXIT_OK) \<and>
     (list_ex fatal (stderr st) \<longrightarrow> c = EXIT_BAD)"
proof -
  consider (ret) st where
      "stack_main e cfg = Return (if error_message_count st \<noteq> 0 then EXIT_ERROR else EXIT_OK) st"
      "run_inv st" "frames_shown st"
    | (exit) st where "stack_main e cfg = Exit EXIT_BAD st" "\<exists>d \<in> set (stderr st). fatal d"
    | (crash) "stack_main e cfg = Crash Undefined_Behaviour"
    using stack_main_cases [OF assms(1)] by blast
  then show ?thesis
  proof cases
    case ret
    let ?c = "if error_message_count st \<noteq> 0 then EXIT_ERROR else EXIT_OK"
    have fl: "frame_lines (stdout st) \<noteq> []" using ret(2,3) by (simp add: run_inv_def)
    have cnt: "error_message_count st = length (stderr st)" using ret(2) by (simp add: run_inv_def)
    have nf: "\<not> list_ex fatal (stderr st)"
      using ret(2) by (simp add: run_inv_def list_all_iff list_ex_iff)
    show ?thesis
      apply (rule exI [of _ ?c])
      apply (rule exI [of _ st])
      using ret(1) fl cnt nf by (simp add: exit_code_def final_state_def)
  next
    case exit
    have ne: "stderr st \<noteq> []" using exit(2) by auto
    have na: "\<not> list_all (\<lambda>d. \<not> fatal d) (stderr st)"
      using exit(2) by (simp add: list_all_iff)
    show ?thesis
      apply (rule exI [of _ EXIT_BAD])
      apply (rule exI [of _ st])
      using exit(1) ne na by (simp add: exit_code_def final_state_def)
  next
    case crash
    then show ?thesis using stack_main_no_crash [OF assms(2)] by simp
  qed
qed

theorem exit_status_policy_rendered_example:
  "exit_code (stack_main scenario_env default_config) = Some EXIT_OK \<and>
   exit_code (stack_main scenario_env (default_config\<lparr>maxframes := 3\<rparr>)) = Some EXIT_ERROR \<and>
   exit_code (stack_main (scenario_env\<lparr>threads := []\<rparr>) default_config) = Some EXIT_BAD"
proof (intro conjI)
  have a: "threads scenario_env = [scenario_thread]"
    "states scenario_thread = map Some scenario_frames" "\<not> unwind_fails scenario_thread"
    "\<not> getthreads_fails scenario_env"
    by (simp_all add: scenario_env_def scenario_thread_def)
  have ne: "scenario_frames \<noteq> []" and len: "length scenario_frames = 3"
    by (simp_all add: scenario_frames_def)
  have rn: "\<forall>f. renders scenario_env (default_config\<lparr>maxframes := n\<rparr>) f" for n
    by (simp add: renders_def default_config_def)
  have rn0: "\<forall>f. renders scenario_env default_config f"
    by (simp add: renders_def default_config_def)
  have rn1: "\<forall>f. renders (scenario_env\<lparr>threads := []\<rparr>) default_config f"
    by (simp add: renders_def default_config_def)
  show "exit_code (stack_main scenario_env default_config) = Some EXIT_OK"
  proof -
    let ?cfg = default_config
    have cfg: "0 < maxframes ?cfg" "\<not> show_inlines ?cfg" "\<not> show_modules ?cfg"
      "\<not> show_one_tid ?cfg" "maxframes ?cfg = 256"
      by (simp_all add: default_config_def)
    have ma: "malloc_ok scenario_env (maxframes ?cfg)" by (simp add: scenario_env_def)
    obtain st' where st':
      "stack_main scenario_env ?cfg =
         Return (if maxframes ?cfg \<le> length scenario_frames then EXIT_ERROR else EXIT_OK) st'"
      "map l_nr (frame_lines (stdout st')) =
         [0 ..< min (length scenario_frames) (maxframes ?cfg)]"
      "stderr st' = (if maxframes ?cfg \<le> length scenario_frames
                     then [Max_Frames (tid scenario_thread) (maxframes ?cfg)] else [])"
      using single_thread_run [OF cfg(1-4) a ma ne] by blast
    have "length (map l_nr (frame_lines (stdout st'))) = 3"
      unfolding st'(2) by (simp add: len cfg(5))
    then have fl: "frame_lines (stdout st') \<noteq> []" by auto
    have er: "stderr st' = []" using st'(3) by (simp add: len cfg(5))
    have b: "maxframes ?cfg = 0 \<longrightarrow>
        (\<forall>t \<in> set (threads scenario_env). 2 * length (states t) \<le> INT_MAX)"
      using cfg(1) by simp
    obtain c st where p: "exit_code (stack_main scenario_env ?cfg) = Some c"
      "final_state (stack_main scenario_env ?cfg) = Some st"
      "frame_lines (stdout st) \<noteq> [] \<and> stderr st = [] \<longrightarrow> c = EXIT_OK"
      using exit_status_policy_rendered [OF rn0 b] by blast
    have "st = st'" using p(2) st'(1) by (simp add: final_state_def)
    then show ?thesis using p(1,3) fl er by simp
  qed
  show "exit_code (stack_main scenario_env (default_config\<lparr>maxframes := 3\<rparr>)) = Some EXIT_ERROR"
  proof -
    let ?cfg = "default_config\<lparr>maxframes := 3\<rparr>"
    have cfg: "0 < maxframes ?cfg" "\<not> show_inlines ?cfg" "\<not> show_modules ?cfg"
      "\<not> show_one_tid ?cfg" "maxframes ?cfg = 3"
      by (simp_all add: default_config_def)
    have ma: "malloc_ok scenario_env (maxframes ?cfg)" by (simp add: scenario_env_def)
    obtain st' where st':
      "stack_main scenario_env ?cfg =
         Return (if maxframes ?cfg \<le> length scenario_frames then EXIT_ERROR else EXIT_OK) st'"
      "map l_nr (frame_lines (stdout st')) =
         [0 ..< min (length scenario_frames) (maxframes ?cfg)]"
      "stderr st' = (if maxframes ?cfg \<le> length scenario_frames
                     then [Max_Frames (tid scenario_thread) (maxframes ?cfg)] else [])"
      using single_thread_run [OF cfg(1-4) a ma ne] by blast
    have "length (map l_nr (frame_lines (stdout st'))) = 3"
      unfolding st'(2) by (simp add: len cfg(5))
    then have fl: "frame_lines (stdout st') \<noteq> []" by auto
    have er: "stderr st' = [Max_Frames (tid scenario_thread) 3]"
      using st'(3) by (simp add: len cfg(5))
    have b: "maxframes ?cfg = 0 \<longrightarrow>
        (\<forall>t \<in> set (threads scenario_env). 2 * length (states t) \<le> INT_MAX)"
      using cfg(1) by simp
    obtain c st where p: "exit_code (stack_main scenario_env ?cfg) = Some c"
      "final_state (stack_main scenario_env ?cfg) = Some st"
      "frame_lines (stdout st) \<noteq> [] \<and> stderr st \<noteq> [] \<and>
         list_all (\<lambda>d. \<not> fatal d) (stderr st) \<longrightarrow> c = EXIT_ERROR"
      using exit_status_policy_rendered [OF rn [of 3] b] by blast
    have "st = st'" using p(2) st'(1) by (simp add: final_state_def)
    then show ?thesis using p(1,3) fl er by simp
  qed
  show "exit_code (stack_main (scenario_env\<lparr>threads := []\<rparr>) default_config) = Some EXIT_BAD"
  proof -
    let ?e = "scenario_env\<lparr>threads := []\<rparr>"
    have run: "stack_main ?e default_config =
        Exit EXIT_BAD (error_msg No_Frames (printf (Pid_Header 42 False) init_state))"
      by (simp add: stack_main_def list_modules_def show_stacks_def dwfl_getthreads_def
          exit_status_def default_config_def scenario_env_def initial_frames_def
          DWARF_CB_OK_def printf_def init_state_def Let_def)
    have b: "maxframes default_config = 0 \<longrightarrow>
        (\<forall>t \<in> set (threads ?e). 2 * length (states t) \<le> INT_MAX)"
      by simp
    obtain c st where p: "exit_code (stack_main ?e default_config) = Some c"
      "final_state (stack_main ?e default_config) = Some st"
      "frame_lines (stdout st) = [] \<longrightarrow> c = EXIT_BAD"
      using exit_status_policy_rendered [OF rn1 b] by blast
    have "st = error_msg No_Frames (printf (Pid_Header 42 False) init_state)"
      using p(2) run by (simp add: final_state_def)
    then have "frame_lines (stdout st) = []"
      by (simp add: error_msg_def printf_def init_state_def)
    then show ?thesis using p(1,3) by simp
  qed
qed

text \<open>The ceiling. For a thread whose unwinder yields the \<open>N\<close> frames \<open>frs\<close> and a
  ceiling \<open>C > 0\<close>, collection into the buffer that \<^verbatim>\<open>main\<close> allocated (capacity
  \<open>C\<close>) captures exactly the first \<open>min N C\<close> frames, in order, whether they are
  rendered or not; with \<open>C \<le> N\<close> the callback ends the walk with
  \<^verbatim>\<open>DWARF_CB_ABORT\<close>. When \<open>N > C\<close> and every frame is rendered, printing the thread
  records exactly one diagnostic, the "max frames" one.\<close>

theorem ceiling_collection_rendered:
  assumes "0 < maxframes cfg" "states t = map Some frs"
    and "allocated fs = maxframes cfg" "length (frame fs) = maxframes cfg"
    and "\<forall>f \<in> set frs. renders e cfg f"
  shows "\<exists>fs' st'.
     dwfl_thread_getframes e cfg t (fs\<lparr>frames := 0\<rparr>) st =
       Return (if maxframes cfg \<le> length frs then DWARF_CB_ABORT
               else if unwind_fails t then - 1 else 0, fs') st \<and>
     frames fs' = min (length frs) (maxframes cfg) \<and>
     take (frames fs') (frame fs') = take (min (length frs) (maxframes cfg)) frs \<and>
     thread_callback e cfg t fs st = Return (DWARF_CB_OK, fs') st' \<and>
     (maxframes cfg < length frs \<longrightarrow>
        stderr st' = stderr st @ [Max_Frames (tid t) (maxframes cfg)] \<and>
        error_message_count st' = error_message_count st + 1)"
proof -
  let ?err = "if maxframes cfg \<le> length frs then 0
              else if unwind_fails t then thread_errno t else 0"
  obtain fs' where fs':
    "dwfl_thread_getframes e cfg t (fs\<lparr>frames := 0\<rparr>) st =
       Return (if maxframes cfg \<le> length frs then DWARF_CB_ABORT
               else if unwind_fails t then - 1 else 0, fs') st"
    "frames fs' = min (length frs) (maxframes cfg)"
    "take (frames fs') (frame fs') = take (maxframes cfg) frs"
    "allocated fs' = maxframes cfg" "length (frame fs') = maxframes cfg"
    "thread_callback e cfg t fs st =
       Return (DWARF_CB_OK, fs') (print_frames e cfg fs' (tid t) ?err ''dwfl_thread_getframes'' st)"
    using thread_callback_bounded [OF assms(1-4), of e st] by blast
  let ?st' = "print_frames e cfg fs' (tid t) ?err ''dwfl_thread_getframes'' st"
  have cap: "take (frames fs') (frame fs') = take (min (length frs) (maxframes cfg)) frs"
    using fs'(3) by (simp add: min_def)
  have diag: "maxframes cfg < length frs \<longrightarrow>
      stderr ?st' = stderr st @ [Max_Frames (tid t) (maxframes cfg)] \<and>
      error_message_count ?st' = error_message_count st + 1"
  proof
    assume more: "maxframes cfg < length frs"
    then have full: "frames fs' = maxframes cfg" using fs'(2) by simp
    have "\<forall>f \<in> set (take (frames fs') (frame fs')). renders e cfg f"
      using assms(5) fs'(3) by (auto dest: in_set_takeD)
    then show "stderr ?st' = stderr st @ [Max_Frames (tid t) (maxframes cfg)] \<and>
        error_message_count ?st' = error_message_count st + 1"
      using print_frames_ceiling [OF assms(1) full fs'(5), of e "tid t" ?err _ st] by simp
  qed
  show ?thesis
    apply (rule exI [of _ fs'])
    apply (rule exI [of _ ?st'])
    using fs'(1,2,6) cap diag by simp
qed

theorem ceiling_collection_rendered_example:
  "\<exists>fs' st'.
     dwfl_thread_getframes scenario_env (default_config\<lparr>maxframes := 2\<rparr>) scenario_thread
       ((initial_frames (default_config\<lparr>maxframes := 2\<rparr>))\<lparr>frames := 0\<rparr>) init_state =
       Return (DWARF_CB_ABORT, fs') init_state \<and>
     frames fs' = 2 \<and>
     take (frames fs') (frame fs') = take 2 scenario_frames \<and>
     thread_callback scenario_env (default_config\<lparr>maxframes := 2\<rparr>) scenario_thread
       (initial_frames (default_config\<lparr>maxframes := 2\<rparr>)) init_state =
       Return (DWARF_CB_OK, fs') st' \<and>
     stderr st' = stderr init_state @ [Max_Frames (tid scenario_thread) 2] \<and>
     error_message_count st' = error_message_count init_state + 1"
proof -
  let ?cfg = "default_config\<lparr>maxframes := 2\<rparr>"
  have c: "0 < maxframes ?cfg" "maxframes ?cfg = 2" by simp_all
  have s: "states scenario_thread = map Some scenario_frames"
    by (simp add: scenario_thread_def)
  have a: "allocated (initial_frames ?cfg) = maxframes ?cfg"
    "length (frame (initial_frames ?cfg)) = maxframes ?cfg"
    by (simp_all add: initial_frames_def malloc_frames_def)
  have r: "\<forall>f \<in> set scenario_frames. renders scenario_env ?cfg f"
    by (simp add: renders_def default_config_def)
  have n: "length scenario_frames = 3" by (simp add: scenario_frames_def)
  show ?thesis
    using ceiling_collection_rendered [OF c(1) s a r, of init_state] by (simp add: n)
qed

text \<open>The ceiling met exactly. With a ceiling \<open>C > 0\<close>, for a thread whose unwinder
  yields exactly \<open>C\<close> frames, the callback ends the walk with \<^verbatim>\<open>DWARF_CB_ABORT\<close> at
  the \<open>C\<close>-th frame, all \<open>C\<close> frames being captured; when every frame of the thread is
  rendered, a run that walks this thread records the "max frames" diagnostic for it and
  exits with the status \<^verbatim>\<open>EXIT_ERROR\<close>, whatever else happens in the run. The run is
  one that gets as far as the stacks (the first \<^verbatim>\<open>malloc\<close> succeeds and the module
  map, if asked for, is listed).\<close>

theorem exact_ceiling_rendered:
  assumes "0 < maxframes cfg" "states t = map Some frs" "length frs = maxframes cfg"
    and "\<forall>f \<in> set frs. renders e cfg f"
    and "if show_one_tid cfg then find (\<lambda>x. tid x = pid cfg) (threads e) = Some t
         else t \<in> set (threads e)"
    and "malloc_ok e (maxframes cfg)" "\<not> (show_modules cfg \<and> getmodules_fails e)"
  shows "(\<exists>fs'. dwfl_thread_getframes e cfg t (initial_frames cfg) init_state =
             Return (DWARF_CB_ABORT, fs') init_state \<and>
           frames fs' = maxframes cfg \<and> take (frames fs') (frame fs') = frs) \<and>
         (\<exists>st. stack_main e cfg = Return EXIT_ERROR st \<and>
           Max_Frames (tid t) (maxframes cfg) \<in> set (stderr st))"
proof
  have i: "allocated (initial_frames cfg) = maxframes cfg"
    "length (frame (initial_frames cfg)) = maxframes cfg"
    "(initial_frames cfg)\<lparr>frames := 0\<rparr> = initial_frames cfg"
    using initial_frames_bounded [OF assms(1)] by simp_all
  obtain fs' where fs':
    "dwfl_thread_getframes e cfg t ((initial_frames cfg)\<lparr>frames := 0\<rparr>) init_state =
       Return (if maxframes cfg \<le> length frs then DWARF_CB_ABORT
               else if unwind_fails t then - 1 else 0, fs') init_state"
    "frames fs' = min (length frs) (maxframes cfg)"
    "take (frames fs') (frame fs') = take (maxframes cfg) frs"
    using thread_callback_bounded [OF assms(1,2) i(1,2), of e init_state] by blast
  show "\<exists>fs'. dwfl_thread_getframes e cfg t (initial_frames cfg) init_state =
             Return (DWARF_CB_ABORT, fs') init_state \<and>
           frames fs' = maxframes cfg \<and> take (frames fs') (frame fs') = frs"
    using fs' i(3) assms(3) by (intro exI [of _ fs']) simp
next
  have "\<exists>st1. list_modules e cfg init_state = Return () st1"
    using assms(7) by (simp add: list_modules_def Let_def)
  then obtain st1 where st1: "list_modules e cfg init_state = Return () st1" by blast
  have n: "maxframes cfg \<le> length frs" using assms(3) by simp
  have r: "\<forall>f \<in> set (take (maxframes cfg) frs). renders e cfg f"
    using assms(4) by (auto dest: in_set_takeD)
  obtain st2 where st2: "show_stacks e cfg (initial_frames cfg) st1 = Return () st2"
    "frames_shown st2" "error_message_count st2 \<noteq> 0"
    "Max_Frames (tid t) (maxframes cfg) \<in> set (stderr st2)"
    using show_stacks_ceiling [OF assms(1,2) n r assms(5), of st1] by blast
  have a: "allocated (initial_frames cfg) = maxframes cfg"
    using initial_frames_bounded [OF assms(1)] by simp
  have "stack_main e cfg = Return EXIT_ERROR st2"
    using st1 st2(1,2,3) assms(6) a by (simp add: stack_main_def exit_status_def)
  then show "\<exists>st. stack_main e cfg = Return EXIT_ERROR st \<and>
      Max_Frames (tid t) (maxframes cfg) \<in> set (stderr st)"
    using st2(4) by blast
qed

theorem exact_ceiling_rendered_example:
  "(\<exists>fs'. dwfl_thread_getframes scenario_env (default_config\<lparr>maxframes := 3\<rparr>) scenario_thread
            (initial_frames (default_config\<lparr>maxframes := 3\<rparr>)) init_state =
            Return (DWARF_CB_ABORT, fs') init_state \<and>
          frames fs' = 3 \<and> take (frames fs') (frame fs') = scenario_frames) \<and>
   (\<exists>st. stack_main scenario_env (default_config\<lparr>maxframes := 3\<rparr>) = Return EXIT_ERROR st \<and>
         Max_Frames 42 3 \<in> set (stderr st))"
proof -
  let ?cfg = "default_config\<lparr>maxframes := 3\<rparr>"
  have c: "0 < maxframes ?cfg" by simp
  have s: "states scenario_thread = map Some scenario_frames"
    by (simp add: scenario_thread_def)
  have n: "length scenario_frames = maxframes ?cfg" by (simp add: scenario_frames_def)
  have r: "\<forall>f \<in> set scenario_frames. renders scenario_env ?cfg f"
    by (simp add: renders_def default_config_def)
  have w: "if show_one_tid ?cfg
      then find (\<lambda>x. tid x = pid ?cfg) (threads scenario_env) = Some scenario_thread
      else scenario_thread \<in> set (threads scenario_env)"
    by (simp add: default_config_def scenario_env_def)
  have m: "malloc_ok scenario_env (maxframes ?cfg)" by (simp add: scenario_env_def)
  have g: "\<not> (show_modules ?cfg \<and> getmodules_fails scenario_env)"
    by (simp add: scenario_env_def)
  show ?thesis
    using exact_ceiling_rendered [OF c s n r w m g] by (simp add: scenario_thread_def)
qed

section \<open>The claims\<close>

subsection \<open>C1\<close>

text \<open>Claim C1: a run in which no frame was shown exits with the status \<^verbatim>\<open>EXIT_BAD\<close>;
  the documentation of the return codes in \<^verbatim>\<open>main\<close> says the same ("If no frames could
  be shown, or a fatal error occurred the program exits with return code 2"). The code
  departs from it in one place. \<^verbatim>\<open>print_frames\<close> sets \<^verbatim>\<open>frames_shown\<close> as soon as
  the thread has a captured frame, before it prints any; and \<^verbatim>\<open>print_inline_frames\<close>
  prints nothing, counts nothing and reports nothing for a frame when
  \<^verbatim>\<open>dwarf_getscopes_die\<close> returns no scope, where the other branch of
  \<^verbatim>\<open>print_frames\<close> prints the frame with \<^verbatim>\<open>print_frame\<close>. With \<^verbatim>\<open>-i\<close>, in a
  target where that happens to each of the three frames of the one thread, the run prints
  the header of the thread and no frame line, records no diagnostic, and returns
  \<^verbatim>\<open>EXIT_OK\<close>.\<close>

theorem no_frame_shown_exit_ok:
  "stack_main noscope_env (inlines_config 256) =
     Return EXIT_OK
       \<lparr>width = 0, frames_shown = True, error_message_count = 0, demangle_calls = [],
        stdout = [Pid_Header 42 False, Tid_Header 42], stderr = []\<rparr>"
  by code_simp

subsection \<open>C2\<close>

text \<open>Claim C2: under a ceiling \<open>C > 0\<close> a thread with \<open>N\<close> frames has
  \<open>min N C\<close> of them captured, and when \<open>N > C\<close> one "max frames" diagnostic is
  recorded for it. The capture is so on every input. The diagnostic is not recorded when
  \<^verbatim>\<open>print_inline_frames\<close> drops a frame, since \<^verbatim>\<open>print_frames\<close> compares the
  ceiling with the number of lines it printed: with \<^verbatim>\<open>-i -n 2\<close>, for the thread with
  the three frames 0x4010, 0x4020, 0x4030 of which the second meets the failure of
  \<^verbatim>\<open>dwarf_getscopes_die\<close>, two frames are captured, one line is printed, and no
  diagnostic is recorded, although the third frame was cut off.\<close>

theorem truncated_without_diagnostic:
  "thread_callback partial_env (inlines_config 2) scenario_thread
     (initial_frames (inlines_config 2)) init_state =
   Return (DWARF_CB_OK,
       \<lparr>frames = 2, allocated = 2,
        frame = [\<lparr>pc = 0x4010, isactivation = False\<rparr>, \<lparr>pc = 0x4020, isactivation = False\<rparr>]\<rparr>)
     \<lparr>width = 8, frames_shown = True, error_message_count = 0, demangle_calls = [],
      stdout = [Tid_Header 42,
        Frame_Line \<lparr>l_nr = 0, l_width = 8, l_pc = 0x4010, l_activation = None,
          l_symname = Some ''outer'', l_module = None, l_build_id = None, l_source = None\<rparr>],
      stderr = []\<rparr>"
  by code_simp

subsection \<open>C3\<close>

text \<open>Claim C3. Without a ceiling (\<open>C = 0\<close>), for a thread whose unwinder yields the
  frames \<open>frs\<close>, collection into the buffer that \<^verbatim>\<open>main\<close> allocated, or that an
  earlier thread has grown (capacity \<open>2048 * 2 ^ i\<close>), captures all of \<open>frs\<close> in order;
  the capacity is doubled whenever the buffer is full, so it ends as \<open>2048 * 2 ^ j\<close>, above
  the number of frames and at most twice that number once it has grown. This holds as
  long as each \<^verbatim>\<open>realloc\<close> succeeds and the doubled capacity is an \<^verbatim>\<open>int\<close>
  (fewer than \<open>2 ^ 30\<close> frames); a failing \<^verbatim>\<open>realloc\<close> is the fatal error of
  \<open>frame_callback\<close>. The initial capacity is 2048 without a ceiling and \<open>C\<close> with a
  ceiling \<open>C > 0\<close>.\<close>

theorem unlimited_collection:
  "(maxframes cfg = 0 \<and> states t = map Some frs \<and> (\<forall>n. realloc_ok e n) \<and>
    2 * length frs \<le> INT_MAX \<and> length (frame fs) = allocated fs \<and>
    allocated fs = 2048 * 2 ^ i \<longrightarrow>
    (\<exists>fs'. dwfl_thread_getframes e cfg t (fs\<lparr>frames := 0\<rparr>) st =
             Return (if unwind_fails t then - 1 else 0, fs') st \<and>
           frames fs' = length frs \<and> take (frames fs') (frame fs') = frs \<and>
           length (frame fs') = allocated fs' \<and> length frs < allocated fs' \<and>
           (\<exists>j. allocated fs' = 2048 * 2 ^ j) \<and>
           allocated fs' \<le> max (allocated fs) (2 * length frs))) \<and>
   frames (initial_frames cfg) = 0 \<and>
   allocated (initial_frames cfg) = (if maxframes cfg = 0 then 2048 else maxframes cfg) \<and>
   length (frame (initial_frames cfg)) = allocated (initial_frames cfg)"
proof (intro conjI impI)
  assume a: "maxframes cfg = 0 \<and> states t = map Some frs \<and> (\<forall>n. realloc_ok e n) \<and>
    2 * length frs \<le> INT_MAX \<and> length (frame fs) = allocated fs \<and>
    allocated fs = 2048 * 2 ^ i"
  let ?fs0 = "fs\<lparr>frames := 0\<rparr>"
  have pos: "frames ?fs0 < allocated ?fs0" using a by simp
  have bnd: "2 * (frames ?fs0 + length frs) \<le> INT_MAX" using a by simp
  have len: "length (frame ?fs0) = allocated ?fs0" using a by simp
  have m: "maxframes cfg = 0" and r: "\<forall>n. realloc_ok e n" using a by simp_all
  obtain fs' where fs':
    "getframes_loop e cfg (map Some frs) (unwind_fails t) ?fs0 st =
       Return (if unwind_fails t then - 1 else 0, fs') st"
    "frames fs' = frames ?fs0 + length frs"
    "take (frames fs') (frame fs') = take (frames ?fs0) (frame ?fs0) @ frs"
    "length (frame fs') = allocated fs'" "frames fs' < allocated fs'"
    "\<exists>j. allocated fs' = allocated ?fs0 * 2 ^ j"
    "allocated fs' \<le> max (allocated ?fs0) (2 * frames fs')"
    using getframes_unbounded [OF m r len pos bnd, of "unwind_fails t" st] by blast
  obtain j where j: "allocated fs' = allocated ?fs0 * 2 ^ j" using fs'(6) by blast
  have "allocated fs' = 2048 * 2 ^ (i + j)"
    using j a by (simp add: power_add)
  then have pw: "\<exists>j. allocated fs' = 2048 * 2 ^ j" by blast
  have g: "dwfl_thread_getframes e cfg t ?fs0 st =
      Return (if unwind_fails t then - 1 else 0, fs') st"
    using fs'(1) a by (simp add: dwfl_thread_getframes_def)
  show "\<exists>fs'. dwfl_thread_getframes e cfg t ?fs0 st =
             Return (if unwind_fails t then - 1 else 0, fs') st \<and>
           frames fs' = length frs \<and> take (frames fs') (frame fs') = frs \<and>
           length (frame fs') = allocated fs' \<and> length frs < allocated fs' \<and>
           (\<exists>j. allocated fs' = 2048 * 2 ^ j) \<and>
           allocated fs' \<le> max (allocated fs) (2 * length frs)"
    apply (rule exI [of _ fs'])
    using g fs'(2,3,4,5,7) pw by simp
qed (simp_all add: initial_frames_def malloc_frames_def Let_def)

theorem unlimited_collection_witness:
  "\<exists>fs'. dwfl_thread_getframes scenario_env (default_config\<lparr>maxframes := 0\<rparr>) scenario_thread
           ((initial_frames (default_config\<lparr>maxframes := 0\<rparr>))\<lparr>frames := 0\<rparr>) init_state =
           Return (0, fs') init_state \<and>
         frames fs' = 3 \<and> take (frames fs') (frame fs') = scenario_frames \<and>
         allocated fs' = 2048"
proof -
  let ?cfg = "default_config\<lparr>maxframes := 0\<rparr>"
  have h: "maxframes ?cfg = 0 \<and> states scenario_thread = map Some scenario_frames \<and>
      (\<forall>n. realloc_ok scenario_env n) \<and> 2 * length scenario_frames \<le> INT_MAX \<and>
      length (frame (initial_frames ?cfg)) = allocated (initial_frames ?cfg) \<and>
      allocated (initial_frames ?cfg) = 2048 * 2 ^ 0"
    by (simp add: scenario_thread_def scenario_env_def scenario_frames_def INT_MAX_def
        initial_frames_def malloc_frames_def)
  have "\<exists>fs'. dwfl_thread_getframes scenario_env ?cfg scenario_thread
           ((initial_frames ?cfg)\<lparr>frames := 0\<rparr>) init_state =
           Return (if unwind_fails scenario_thread then - 1 else 0, fs') init_state \<and>
         frames fs' = length scenario_frames \<and> take (frames fs') (frame fs') = scenario_frames \<and>
         length (frame fs') = allocated fs' \<and> length scenario_frames < allocated fs' \<and>
         (\<exists>j. allocated fs' = 2048 * 2 ^ j) \<and>
         allocated fs' \<le> max (allocated (initial_frames ?cfg)) (2 * length scenario_frames)"
    using unlimited_collection [of ?cfg scenario_thread scenario_frames scenario_env
        "initial_frames ?cfg" 0 init_state] h by blast
  then obtain fs' where fs':
    "dwfl_thread_getframes scenario_env ?cfg scenario_thread
           ((initial_frames ?cfg)\<lparr>frames := 0\<rparr>) init_state =
           Return (if unwind_fails scenario_thread then - 1 else 0, fs') init_state"
    "frames fs' = length scenario_frames" "take (frames fs') (frame fs') = scenario_frames"
    "\<exists>j. allocated fs' = 2048 * 2 ^ j"
    "allocated fs' \<le> max (allocated (initial_frames ?cfg)) (2 * length scenario_frames)"
    by blast
  obtain j where j: "allocated fs' = 2048 * 2 ^ j" using fs'(4) by blast
  have "allocated fs' \<le> 2048"
    using fs'(5) by (simp add: initial_frames_def scenario_frames_def)
  then have le1: "(2::nat) ^ j \<le> 1" using j by simp
  have "j = 0"
  proof (rule ccontr)
    assume "j \<noteq> 0"
    then obtain k where k: "j = Suc k" by (cases j) auto
    have "(1::nat) \<le> 2 ^ k" by simp
    then have "(2::nat) \<le> 2 ^ j" using k by simp
    then show False using le1 by simp
  qed
  then have "allocated fs' = 2048" using j by simp
  then show ?thesis
    using fs'(1,2,3) by (intro exI [of _ fs']) (simp add: scenario_thread_def scenario_frames_def)
qed

subsection \<open>C4\<close>

text \<open>Claim C4. For every captured frame, the adjusted program counter that
  \<^verbatim>\<open>print_frames\<close> computes is the captured one less one (in 64-bit arithmetic) when
  the frame is not an activation, and the captured one when it is. The module is looked up
  at it; the whole resolution of the frame (module, name, DIEs) is that of an activation
  frame at the adjusted address; and the source position of the line printed for the frame
  is looked up at it.\<close>

theorem adjusted_pc:
  "r_pc_adjusted (resolve e cfg f) = (if isactivation f then pc f else pc f - 1) \<and>
   r_mod (resolve e cfg f) = dwfl_addrmodule e (if isactivation f then pc f else pc f - 1) \<and>
   resolve e cfg f =
     resolve e cfg \<lparr>pc = (if isactivation f then pc f else pc f - 1), isactivation = True\<rparr> \<and>
   (\<exists>ls. stdout (snd (print_frames_body e cfg f nr st)) = stdout st @ map Frame_Line ls \<and>
        (case ls of
           [] \<Rightarrow> True
         | l # ls' \<Rightarrow>
             l_source l =
               (if show_source cfg
                then frame_source e (if isactivation f then pc f else pc f - 1)
                       (dwfl_addrmodule e (if isactivation f then pc f else pc f - 1)) None None
                else None)))"
proof -
  have a: "r_pc_adjusted (resolve e cfg f) = (if isactivation f then pc f else pc f - 1)"
    by (simp add: resolve_def pc_adjust_def Let_def split_beta split: option.splits)
  have m: "r_mod (resolve e cfg f) =
      dwfl_addrmodule e (if isactivation f then pc f else pc f - 1)"
    by (simp add: resolve_def pc_adjust_def Let_def split_beta split: option.splits)
  have r: "resolve e cfg f =
      resolve e cfg \<lparr>pc = (if isactivation f then pc f else pc f - 1), isactivation = True\<rparr>"
    by (simp add: resolve_def pc_adjust_def)
  obtain ls where ls:
    "stdout (snd (print_frames_body e cfg f nr st)) = stdout st @ map Frame_Line ls"
    "case ls of
       [] \<Rightarrow> True
     | l # ls' \<Rightarrow>
         l_pc l = pc f \<and> l_symname l = shown_name e cfg (r_symname (resolve e cfg f)) \<and>
         l_source l =
           (if show_source cfg
            then frame_source e (r_pc_adjusted (resolve e cfg f)) (r_mod (resolve e cfg f))
                   None None
            else None)"
    using print_frames_body_first [of e cfg f nr st] by blast
  have "case ls of
       [] \<Rightarrow> True
     | l # ls' \<Rightarrow>
         l_source l =
           (if show_source cfg
            then frame_source e (if isactivation f then pc f else pc f - 1)
                   (dwfl_addrmodule e (if isactivation f then pc f else pc f - 1)) None None
            else None)"
    using ls(2) unfolding a m by (cases ls) simp_all
  then show ?thesis
    using a m r ls(1) by blast
qed

subsection \<open>C5\<close>

text \<open>Claim C5. For a symbol name that begins with \<open>_Z\<close>: with raw mode off,
  \<^verbatim>\<open>__cxa_demangle\<close> is called on it; when it succeeds the line shows its result, the
  demangled form, and when it fails the line shows the mangled name unchanged, and no
  diagnostic is recorded in either case. The name on the line differs from the mangled
  one exactly when raw mode is off and the demangler succeeds with a result other than
  its input. With raw mode on the line shows the mangled name
  and \<^verbatim>\<open>__cxa_demangle\<close> is not called.\<close>

theorem demangle_policy:
  "\<exists>l. stdout (print_frame e cfg nr pc0 isact pca md (Some (''_Z'' @ rest)) cudie die st) =
         stdout st @ [Frame_Line l] \<and>
       l_symname l =
         Some (if show_raw cfg then ''_Z'' @ rest
               else case cxa_demangle e (''_Z'' @ rest) of
                      Some dsymname \<Rightarrow> dsymname
                    | None \<Rightarrow> ''_Z'' @ rest) \<and>
       (l_symname l \<noteq> Some (''_Z'' @ rest)) =
         (\<not> show_raw cfg \<and>
          (\<exists>dsymname. cxa_demangle e (''_Z'' @ rest) = Some dsymname \<and>
             dsymname \<noteq> ''_Z'' @ rest)) \<and>
       demangle_calls (print_frame e cfg nr pc0 isact pca md (Some (''_Z'' @ rest)) cudie die st) =
         (if show_raw cfg then demangle_calls st else demangle_calls st @ [''_Z'' @ rest]) \<and>
       stderr (print_frame e cfg nr pc0 isact pca md (Some (''_Z'' @ rest)) cudie die st) =
         stderr st \<and>
       error_message_count
         (print_frame e cfg nr pc0 isact pca md (Some (''_Z'' @ rest)) cudie die st) =
         error_message_count st"
  by (auto simp: print_frame_def printf_def Let_def split_beta demangle_symname_def
      get_addr_width_fields split: option.splits)

subsection \<open>C6\<close>

text \<open>Claim C6, as amended. When \<^verbatim>\<open>dwarf_getscopes_die\<close> gives the scopes
  \<open>scope0 # scopes\<close> for the DIE of a captured frame, inline expansion prints one frame for
  the innermost scope and then one frame for each scope of \<open>expansion scopes\<close>: the
  function-like scopes up to and including the first subprogram, the other scopes being
  skipped; all of them carry the captured program counter; each counts as one line of the
  thread, and printing stops when the ceiling is reached. So the number printed is
  \<open>1 + length (expansion scopes)\<close>, cut by the ceiling. It is the depth of the chain when
  every scope after the innermost is an inlined subroutine or an entry point, but for
  the last, a subprogram.\<close>

theorem inline_expansion:
  "dwarf_getscopes_die e die = scope0 # scopes \<Longrightarrow>
   (\<exists>ls. stdout (snd (print_inline_frames e cfg nr pc0 isact pca md symname cudie die st)) =
          stdout st @ map Frame_Line ls \<and>
        fst (print_inline_frames e cfg nr pc0 isact pca md symname cudie die st) =
          nr + length ls \<and>
        length ls = 1 + ceiling_left cfg (nr + 1) (length (expansion scopes)) \<and>
        map l_nr ls = [nr ..< nr + length ls] \<and>
        map l_pc ls = replicate (length ls) pc0 \<and>
        map l_symname ls =
          shown_name e cfg symname #
          map (\<lambda>s. shown_name e cfg (die_name s)) (take (length ls - 1) (expansion scopes))) \<and>
   (list_all (\<lambda>s. dwarf_tag s = DW_TAG_inlined_subroutine \<or> dwarf_tag s = DW_TAG_entry_point)
      (butlast scopes) \<and> dwarf_tag (last scopes) = DW_TAG_subprogram \<longrightarrow>
    expansion scopes = scopes)"
  using print_inline_frames_lines [of e die scope0 scopes cfg nr pc0 isact pca md symname cudie st]
    expansion_all [of scopes]
  by (simp add: function_like_def)

theorem inline_expansion_witness:
  "\<exists>ls. stdout (snd (print_inline_frames inline_env inline_config 0 0x4010 False 0x400f
                 (Some module32) (Some ''inner'') (Some die_cu) die_inner init_state)) =
          map Frame_Line ls \<and>
        fst (print_inline_frames inline_env inline_config 0 0x4010 False 0x400f
               (Some module32) (Some ''inner'') (Some die_cu) die_inner init_state) = 2 \<and>
        map l_nr ls = [0, 1] \<and> map l_pc ls = [0x4010, 0x4010] \<and>
        map l_symname ls = [Some ''inner'', Some ''outer'']"
proof -
  have sc: "dwarf_getscopes_die inline_env die_inner = die_inner # [die_block, die_outer]"
    by (simp add: inline_env_def)
  have ex: "expansion [die_block, die_outer] = [die_outer]"
    by (simp add: die_block_def die_outer_def function_like_def)
  have cl: "ceiling_left inline_config 1 1 = 1"
    by (simp add: ceiling_left_def inline_config_def default_config_def)
  have nm: "shown_name inline_env inline_config (Some ''inner'') = Some ''inner''"
    "shown_name inline_env inline_config (die_name die_outer) = Some ''outer''"
    by (simp_all add: shown_name_def demangle_symname_def die_name_def die_outer_def)
  obtain ls where ls:
    "stdout (snd (print_inline_frames inline_env inline_config 0 0x4010 False 0x400f
       (Some module32) (Some ''inner'') (Some die_cu) die_inner init_state)) =
       stdout init_state @ map Frame_Line ls"
    "fst (print_inline_frames inline_env inline_config 0 0x4010 False 0x400f
       (Some module32) (Some ''inner'') (Some die_cu) die_inner init_state) = 0 + length ls"
    "length ls = 1 + ceiling_left inline_config (0 + 1) (length (expansion [die_block, die_outer]))"
    "map l_nr ls = [0 ..< 0 + length ls]"
    "map l_pc ls = replicate (length ls) 0x4010"
    "map l_symname ls =
       shown_name inline_env inline_config (Some ''inner'') #
       map (\<lambda>s. shown_name inline_env inline_config (die_name s))
         (take (length ls - 1) (expansion [die_block, die_outer]))"
    using inline_expansion [where e = inline_env and die = die_inner and ?scope0.0 = die_inner
        and scopes = "[die_block, die_outer]" and cfg = inline_config and nr = 0
        and ?pc0.0 = "0x4010" and isact = False and pca = "0x400f" and md = "Some module32"
        and symname = "Some ''inner''" and cudie = "Some die_cu" and st = init_state,
        OF sc, THEN conjunct1]
    by (elim exE conjE) (rule that; assumption)
  have len: "length ls = 2" using ls(3) cl unfolding ex by simp
  have "map l_nr ls = [0, 1]" using ls(4) len by (simp add: upt_rec)
  moreover have "map l_pc ls = [0x4010, 0x4010]"
    using ls(5) len by (simp add: numeral_2_eq_2)
  moreover have "map l_symname ls = [Some ''inner'', Some ''outer'']"
    using ls(6) len nm unfolding ex by simp
  ultimately show ?thesis
    using ls(1,2) len by (intro exI [of _ ls]) (simp add: init_state_def)
qed

text \<open>Claim C6 as it is stated fails: for a chain of depth 3 rooted at a subprogram, an
  inlined subroutine inside a lexical block inside the subprogram, with inline expansion on
  and no ceiling, two frames are printed for the captured frame, not three.\<close>

theorem inline_chain_counterexample:
  "length (dwarf_getscopes_die inline_env die_inner) = 3 \<and>
   dwarf_tag (last (dwarf_getscopes_die inline_env die_inner)) = DW_TAG_subprogram \<and>
   show_inlines inline_config \<and> maxframes inline_config = 0 \<and>
   r_die (resolve inline_env inline_config \<lparr>pc = 0x4010, isactivation = False\<rparr>) =
     Some die_inner \<and>
   map l_symname (frame_lines (stdout (snd (print_frames_loop inline_env inline_config
     [\<lparr>pc = 0x4010, isactivation = False\<rparr>] 0 init_state)))) =
     [Some ''inner'', Some ''outer'']"
  by (simp add: inline_env_def scenario_env_def inline_config_def default_config_def
      resolve_def pc_adjust_def die_name_def function_like_def die_inner_def die_block_def
      die_outer_def die_cu_def print_frames_body_def print_inline_frames_def print_frame_def
      get_addr_width_def printf_def demangle_symname_def frame_source_def module32_def
      init_state_def ELFCLASS32_def Let_def)

subsection \<open>C7\<close>

text \<open>Claim C7, as amended. For a frame with an owning module: in quiet mode no name is
  resolved. Otherwise, in debug-name mode the scope chain at the adjusted address is
  scanned, innermost first, for the first scope that is tagged subprogram,
  inlined-subroutine or entry-point and has a name, its linkage name if that is present
  and a string, else its plain name; that scope is remembered. When the step is not
  requested or finds no such scope, the generic lookup of the module gives the name.\<close>

theorem symbol_name_precedence:
  "dwfl_addrmodule e (pc_adjust f) = Some m \<Longrightarrow>
   r_symname (resolve e cfg f) =
     (if show_quiet cfg then None
      else case (if show_debugname cfg then
                   find (\<lambda>d. function_like (dwarf_tag d) \<and> die_name d \<noteq> None)
                     (scopes_at e m (pc_adjust f))
                 else None) of
             Some d \<Rightarrow> die_name d
           | None \<Rightarrow> dwfl_module_addrname e m (pc_adjust f)) \<and>
   r_die (resolve e cfg f) =
     (if show_quiet cfg \<or> \<not> show_debugname cfg then None
      else find (\<lambda>d. function_like (dwarf_tag d) \<and> die_name d \<noteq> None)
             (scopes_at e m (pc_adjust f))) \<and>
   die_name scope =
     (case (case at_MIPS_linkage_name scope of
              Some a \<Rightarrow> Some a
            | None \<Rightarrow> at_linkage_name scope) of
        Some (Some s) \<Rightarrow> Some s
      | Some None \<Rightarrow> dwarf_diename scope
      | None \<Rightarrow> dwarf_diename scope)"
proof -
  assume m: "dwfl_addrmodule e (pc_adjust f) = Some m"
  have n: "r_symname (resolve e cfg f) =
     (if show_quiet cfg then None
      else case (if show_debugname cfg then
                   find (\<lambda>d. function_like (dwarf_tag d) \<and> die_name d \<noteq> None)
                     (scopes_at e m (pc_adjust f))
                 else None) of
             Some d \<Rightarrow> die_name d
           | None \<Rightarrow> dwfl_module_addrname e m (pc_adjust f))"
    using m
    by (auto simp: resolve_def Let_def scopes_loop_find scopes_at_def dest: find_Some_iff [THEN iffD1]
        split: option.splits)
  have d: "r_die (resolve e cfg f) =
     (if show_quiet cfg \<or> \<not> show_debugname cfg then None
      else find (\<lambda>d. function_like (dwarf_tag d) \<and> die_name d \<noteq> None)
             (scopes_at e m (pc_adjust f)))"
    using m
    by (auto simp: resolve_def Let_def scopes_loop_find scopes_at_def split: option.splits)
  have k: "die_name scope =
     (case (case at_MIPS_linkage_name scope of
              Some a \<Rightarrow> Some a
            | None \<Rightarrow> at_linkage_name scope) of
        Some (Some s) \<Rightarrow> Some s
      | Some None \<Rightarrow> dwarf_diename scope
      | None \<Rightarrow> dwarf_diename scope)"
    by (simp add: die_name_def split: option.splits)
  show ?thesis using n d k by blast
qed

theorem symbol_name_precedence_witness:
  "r_symname (resolve anon_env debugname_config \<lparr>pc = 0x4010, isactivation = False\<rparr>) =
     Some ''outer'' \<and>
   r_die (resolve anon_env debugname_config \<lparr>pc = 0x4010, isactivation = False\<rparr>) =
     Some die_outer"
proof -
  have m: "dwfl_addrmodule anon_env (pc_adjust \<lparr>pc = 0x4010, isactivation = False\<rparr>) =
      Some module32"
    by (simp add: anon_env_def inline_env_def)
  have sc: "scopes_at anon_env module32 (pc_adjust \<lparr>pc = 0x4010, isactivation = False\<rparr>) =
      [die_anon, die_outer]"
    by (simp add: scopes_at_def anon_env_def inline_env_def)
  have nm: "die_name die_anon = None" "die_name die_outer = Some ''outer''"
    "function_like (dwarf_tag die_outer)"
    by (simp_all add: die_name_def die_anon_def die_outer_def function_like_def)
  show ?thesis
    using symbol_name_precedence [OF m, of debugname_config die_outer]
    by (simp add: sc nm debugname_config_def default_config_def)
qed

text \<open>Claim C7 as it is stated fails: when the first function-like scope has no name, the
  scan does not fall back to the generic lookup, as the stated precedence has it (here to
  \<open>sym\<close>), but goes on to the next function-like scope and takes its name.\<close>

theorem first_scope_name_counterexample:
  "dwfl_addrmodule anon_env (pc_adjust \<lparr>pc = 0x4010, isactivation = False\<rparr>) = Some module32 \<and>
   spec_symname anon_env debugname_config module32
     (pc_adjust \<lparr>pc = 0x4010, isactivation = False\<rparr>) = Some ''sym'' \<and>
   r_symname (resolve anon_env debugname_config \<lparr>pc = 0x4010, isactivation = False\<rparr>) =
     Some ''outer''"
  by (simp add: spec_symname_def scopes_at_def resolve_def anon_env_def inline_env_def
      scenario_env_def debugname_config_def default_config_def die_name_def die_anon_def
      die_outer_def function_like_def Let_def)

subsection \<open>C8\<close>

text \<open>Claim C8, as amended. Scenario A: a target with one thread that yields the frames
  0x4010, 0x4020 and 0x4030, none of them an activation, the flags at their defaults
  (ceiling 256) and no name that the symbol lookup can resolve. Exactly three frame lines
  are printed, numbered 0 to 2; the addresses on them are the captured values 0x4010,
  0x4020 and 0x4030 (the adjusted values 0x400f, 0x401f and 0x402f are what the lookups
  use); the lines carry no names; no diagnostic is recorded and the run returns
  \<^verbatim>\<open>EXIT_OK\<close>.\<close>

theorem scenario_A:
  assumes "threads e = [t]" "states t = map Some scenario_frames" "\<not> unwind_fails t"
    and "\<not> getthreads_fails e" "malloc_ok e 256" "\<forall>m a. dwfl_module_addrname e m a = None"
  shows "\<exists>st. stack_main e (default_config\<lparr>pid := p\<rparr>) = Return EXIT_OK st \<and>
     map l_pc (frame_lines (stdout st)) = [0x4010, 0x4020, 0x4030] \<and>
     map l_symname (frame_lines (stdout st)) = [None, None, None] \<and>
     map l_nr (frame_lines (stdout st)) = [0, 1, 2] \<and>
     stderr st = [] \<and>
     map (\<lambda>f. r_pc_adjusted (resolve e (default_config\<lparr>pid := p\<rparr>) f)) scenario_frames =
       [0x400f, 0x401f, 0x402f]"
proof -
  let ?cfg = "default_config\<lparr>pid := p\<rparr>"
  have cfg: "0 < maxframes ?cfg" "\<not> show_inlines ?cfg" "\<not> show_modules ?cfg"
    "\<not> show_one_tid ?cfg" "maxframes ?cfg = 256" "\<not> show_debugname ?cfg"
    by (simp_all add: default_config_def)
  have ne: "scenario_frames \<noteq> []" and len: "length scenario_frames = 3"
    by (simp_all add: scenario_frames_def)
  have ma: "malloc_ok e (maxframes ?cfg)" using assms(5) cfg(5) by simp
  obtain st where st:
    "stack_main e ?cfg =
       Return (if maxframes ?cfg \<le> length scenario_frames then EXIT_ERROR else EXIT_OK) st"
    "map (\<lambda>l. (l_pc l, l_symname l)) (frame_lines (stdout st)) =
       map (\<lambda>f. (pc f, shown_name e ?cfg (r_symname (resolve e ?cfg f))))
         (take (maxframes ?cfg) scenario_frames)"
    "map l_nr (frame_lines (stdout st)) = [0 ..< min (length scenario_frames) (maxframes ?cfg)]"
    "stderr st = (if maxframes ?cfg \<le> length scenario_frames
                  then [Max_Frames (tid t) (maxframes ?cfg)] else [])"
    using single_thread_run [OF cfg(1-4) assms(1,2,3,4) ma ne] by blast
  have nn: "\<And>f. shown_name e ?cfg (r_symname (resolve e ?cfg f)) = None"
    using resolve_no_name [OF cfg(6) assms(6)] by (simp add: shown_name_def)
  have pairs: "map (\<lambda>l. (l_pc l, l_symname l)) (frame_lines (stdout st)) =
      [(0x4010, None), (0x4020, None), (0x4030, None)]"
    using st(2) unfolding nn cfg(5) by (simp add: scenario_frames_def)
  have pcs: "map l_pc (frame_lines (stdout st)) = [0x4010, 0x4020, 0x4030]"
    using arg_cong [OF pairs, of "map fst"] by (simp add: comp_def)
  have nms: "map l_symname (frame_lines (stdout st)) = [None, None, None]"
    using arg_cong [OF pairs, of "map snd"] by (simp add: comp_def)
  have nrs: "map l_nr (frame_lines (stdout st)) = [0, 1, 2]"
    using st(3) by (simp add: len cfg(5) upt_rec)
  have adj: "map (\<lambda>f. r_pc_adjusted (resolve e ?cfg f)) scenario_frames =
      [0x400f, 0x401f, 0x402f]"
    by (simp add: scenario_frames_def resolve_pc_adjusted pc_adjust_def)
  have ok: "stack_main e ?cfg = Return EXIT_OK st"
    using st(1) by (simp add: len cfg(5))
  have er: "stderr st = []" using st(4) by (simp add: len cfg(5))
  show ?thesis
    by (rule exI [of _ st]) (intro conjI ok pcs nms nrs er adj)
qed

theorem scenario_A_witness:
  "\<exists>st. stack_main scenario_env (default_config\<lparr>pid := 42\<rparr>) = Return EXIT_OK st \<and>
     map l_pc (frame_lines (stdout st)) = [0x4010, 0x4020, 0x4030] \<and>
     map l_symname (frame_lines (stdout st)) = [None, None, None] \<and>
     map l_nr (frame_lines (stdout st)) = [0, 1, 2] \<and>
     stderr st = [] \<and>
     map (\<lambda>f. r_pc_adjusted (resolve scenario_env (default_config\<lparr>pid := 42\<rparr>) f))
       scenario_frames = [0x400f, 0x401f, 0x402f]"
proof -
  have a: "threads scenario_env = [scenario_thread]"
    "states scenario_thread = map Some scenario_frames" "\<not> unwind_fails scenario_thread"
    "\<not> getthreads_fails scenario_env" "malloc_ok scenario_env 256"
    "\<forall>m a. dwfl_module_addrname scenario_env m a = None"
    by (simp_all add: scenario_env_def scenario_thread_def)
  show ?thesis
    by (rule scenario_A [OF a])
qed

text \<open>Claim C8 as it is stated fails: in scenario A the addresses printed are 0x4010,
  0x4020 and 0x4030, not the adjusted values 0x400f, 0x401f and 0x402f;
  \<^verbatim>\<open>print_frame\<close> prints its argument \<^verbatim>\<open>pc\<close>, not \<^verbatim>\<open>pc_adjusted\<close>.\<close>

theorem printed_address_counterexample:
  "printed_frames (stack_main scenario_env default_config) =
     [(0x4010, None), (0x4020, None), (0x4030, None)] \<and>
   exit_code (stack_main scenario_env default_config) = Some EXIT_OK \<and>
   map fst (printed_frames (stack_main scenario_env default_config)) \<noteq>
     [0x400f, 0x401f, 0x402f]"
proof -
  let ?cfg = "default_config"
  have cfg: "0 < maxframes ?cfg" "\<not> show_inlines ?cfg" "\<not> show_modules ?cfg"
    "\<not> show_one_tid ?cfg" "maxframes ?cfg = 256" "\<not> show_debugname ?cfg"
    by (simp_all add: default_config_def)
  have a: "threads scenario_env = [scenario_thread]"
    "states scenario_thread = map Some scenario_frames" "\<not> unwind_fails scenario_thread"
    "\<not> getthreads_fails scenario_env" "malloc_ok scenario_env (maxframes ?cfg)"
    "\<forall>m a. dwfl_module_addrname scenario_env m a = None"
    by (simp_all add: scenario_env_def scenario_thread_def)
  have ne: "scenario_frames \<noteq> []" and len: "length scenario_frames = 3"
    by (simp_all add: scenario_frames_def)
  obtain st where st:
    "stack_main scenario_env ?cfg =
       Return (if maxframes ?cfg \<le> length scenario_frames then EXIT_ERROR else EXIT_OK) st"
    "map (\<lambda>l. (l_pc l, l_symname l)) (frame_lines (stdout st)) =
       map (\<lambda>f. (pc f, shown_name scenario_env ?cfg (r_symname (resolve scenario_env ?cfg f))))
         (take (maxframes ?cfg) scenario_frames)"
    using single_thread_run [OF cfg(1-4) a(1,2,3,4,5) ne] by blast
  have nn: "\<And>f. shown_name scenario_env ?cfg (r_symname (resolve scenario_env ?cfg f)) = None"
    using resolve_no_name [OF cfg(6) a(6)] by (simp add: shown_name_def)
  have pairs: "map (\<lambda>l. (l_pc l, l_symname l)) (frame_lines (stdout st)) =
      [(0x4010, None), (0x4020, None), (0x4030, None)]"
    using st(2) unfolding nn cfg(5) by (simp add: scenario_frames_def)
  have ok: "stack_main scenario_env ?cfg = Return EXIT_OK st"
    using st(1) by (simp add: len cfg(5))
  show ?thesis
    using pairs by (simp add: ok printed_frames_def exit_code_def)
qed

subsection \<open>C9\<close>

text \<open>Claim C9, as amended. The first call of \<^verbatim>\<open>get_addr_width\<close> in a run
  fixes the width: the width of its module argument's address class when that can be
  determined (8 for \<^verbatim>\<open>ELFCLASS32\<close>, else 16), and 16 when it cannot (no module, no
  ELF file, no header). Every later call returns that same value, whatever its module
  argument, and leaves the state as it is.\<close>

theorem get_addr_width_cached:
  "width st = 0 \<Longrightarrow>
     get_addr_widths (md # mds) st =
       (replicate (Suc (length mds)) (case class_width md of Some w \<Rightarrow> w | None \<Rightarrow> 16),
        st\<lparr>width := (case class_width md of Some w \<Rightarrow> w | None \<Rightarrow> 16)\<rparr>)"
proof -
  assume w0: "width st = 0"
  let ?w = "case class_width md of Some w \<Rightarrow> w | None \<Rightarrow> 16"
  have pos: "?w \<noteq> 0"
    by (simp add: class_width_def split: option.splits)
  have first: "get_addr_width md st = (?w, st\<lparr>width := ?w\<rparr>)"
    using w0 by (rule get_addr_width_first)
  have rest: "get_addr_widths mds (st\<lparr>width := ?w\<rparr>) =
      (replicate (length mds) ?w, st\<lparr>width := ?w\<rparr>)"
    using get_addr_widths_set [of "st\<lparr>width := ?w\<rparr>" mds] pos by simp
  show ?thesis
    by (simp add: first rest)
qed

theorem get_addr_width_cached_witness:
  "get_addr_widths [Some module32, None, Some module32] init_state =
     ([8, 8, 8], init_state\<lparr>width := 8\<rparr>)"
  using get_addr_width_cached [of init_state "Some module32" "[None, Some module32]"]
  by (simp add: init_state_def class_width_def module32_def)

text \<open>Claim C9 as it is stated fails: when the first call has no module, the width 16
  is cached, and a later call for a 32-bit module, the first module for which a width can
  be determined, still returns 16 and not 8.\<close>

theorem width_first_determinable_counterexample:
  "first_class_width [None, Some module32] = 8 \<and>
   fst (get_addr_widths [None, Some module32] init_state) = [16, 16]"
  by (simp add: first_class_width_def List.map_filter_simps class_width_def module32_def
      get_addr_width_def init_state_def)

subsection \<open>C10\<close>

text \<open>Claim C10: under a ceiling \<open>C > 0\<close>, for a thread with exactly \<open>C\<close> frames the
  collection still aborts at the \<open>C\<close>-th frame and the "max frames" diagnostic is
  recorded, so that the run exits with \<^verbatim>\<open>EXIT_ERROR\<close>. The abort is so on every input.
  The diagnostic and the status are not when \<^verbatim>\<open>print_inline_frames\<close> drops a frame:
  with \<^verbatim>\<open>-i -n 3\<close>, for the thread with the three frames 0x4010, 0x4020, 0x4030 of
  which the last two meet the failure of \<^verbatim>\<open>dwarf_getscopes_die\<close>, the walk is aborted
  with all three frames captured, one line is printed, no diagnostic is recorded, and the
  run returns \<^verbatim>\<open>EXIT_OK\<close>.\<close>

theorem exact_ceiling_without_diagnostic:
  "dwfl_thread_getframes partial_env (inlines_config 3) scenario_thread
     (initial_frames (inlines_config 3)) init_state =
   Return (DWARF_CB_ABORT, \<lparr>frames = 3, allocated = 3, frame = scenario_frames\<rparr>) init_state \<and>
   stack_main partial_env (inlines_config 3) =
   Return EXIT_OK
     \<lparr>width = 8, frames_shown = True, error_message_count = 0, demangle_calls = [],
      stdout = [Pid_Header 42 False, Tid_Header 42,
        Frame_Line \<lparr>l_nr = 0, l_width = 8, l_pc = 0x4010, l_activation = None,
          l_symname = Some ''outer'', l_module = None, l_build_id = None, l_source = None\<rparr>],
      stderr = []\<rparr>"
  by code_simp

end
